theory Spec2Isabelle
  imports Main "HOL-Library.Word"
begin

unbundle bit_operations_syntax

section \<open>Constants (consts.py)\<close>

type_synonym u32 = "32 word"

text \<open>Opcode: the 7-bit major opcodes the sequencer card dispatches on.\<close>

abbreviation (input) Opcode_LOAD :: "7 word" where "Opcode_LOAD \<equiv> 0x03"
abbreviation (input) Opcode_OP_IMM :: "7 word" where "Opcode_OP_IMM \<equiv> 0x13"
abbreviation (input) Opcode_STORE :: "7 word" where "Opcode_STORE \<equiv> 0x23"
abbreviation (input) Opcode_OP :: "7 word" where "Opcode_OP \<equiv> 0x33"
abbreviation (input) Opcode_BRANCH :: "7 word" where "Opcode_BRANCH \<equiv> 0x63"
abbreviation (input) Opcode_SYSTEM :: "7 word" where "Opcode_SYSTEM \<equiv> 0x73"
abbreviation (input) Opcode_LUI :: "7 word" where "Opcode_LUI \<equiv> 0x37"
abbreviation (input) Opcode_JALR :: "7 word" where "Opcode_JALR \<equiv> 0x67"
abbreviation (input) Opcode_AUIPC :: "7 word" where "Opcode_AUIPC \<equiv> 0x17"
abbreviation (input) Opcode_JAL :: "7 word" where "Opcode_JAL \<equiv> 0x6F"

text \<open>OpcodeSelect: the opcode tag the sequencer ROM dispatches on.\<close>

datatype OpcodeSelect =
    OpcodeSelect_NONE | OpcodeSelect_LOAD | OpcodeSelect_STORE | OpcodeSelect_OP
  | OpcodeSelect_BRANCH | OpcodeSelect_CSRS | OpcodeSelect_LUI | OpcodeSelect_JALR
  | OpcodeSelect_AUIPC | OpcodeSelect_JAL | OpcodeSelect_OP_IMM | OpcodeSelect_MRET
  | OpcodeSelect_ECALL | OpcodeSelect_EBREAK

datatype OpcodeFormat =
    OpcodeFormat_R | OpcodeFormat_I | OpcodeFormat_U | OpcodeFormat_S
  | OpcodeFormat_B | OpcodeFormat_J | OpcodeFormat_SYS

abbreviation (input) BranchCond_EQ :: "3 word" where "BranchCond_EQ \<equiv> 0"
abbreviation (input) BranchCond_NE :: "3 word" where "BranchCond_NE \<equiv> 1"
abbreviation (input) BranchCond_LT :: "3 word" where "BranchCond_LT \<equiv> 4"
abbreviation (input) BranchCond_GE :: "3 word" where "BranchCond_GE \<equiv> 5"
abbreviation (input) BranchCond_LTU :: "3 word" where "BranchCond_LTU \<equiv> 6"
abbreviation (input) BranchCond_GEU :: "3 word" where "BranchCond_GEU \<equiv> 7"

abbreviation (input) MemAccessWidth_B :: "3 word" where "MemAccessWidth_B \<equiv> 0"
abbreviation (input) MemAccessWidth_H :: "3 word" where "MemAccessWidth_H \<equiv> 1"
abbreviation (input) MemAccessWidth_W :: "3 word" where "MemAccessWidth_W \<equiv> 2"
abbreviation (input) MemAccessWidth_BU :: "3 word" where "MemAccessWidth_BU \<equiv> 4"
abbreviation (input) MemAccessWidth_HU :: "3 word" where "MemAccessWidth_HU \<equiv> 5"

datatype AluOp =
    AluOp_NONE | AluOp_ADD | AluOp_SUB | AluOp_SLL | AluOp_SLT | AluOp_SLTU | AluOp_XOR
  | AluOp_SRL | AluOp_SRA | AluOp_OR | AluOp_AND | AluOp_X | AluOp_Y | AluOp_AND_NOT

abbreviation (input) AluFunc_ADD :: "4 word" where "AluFunc_ADD \<equiv> 0"
abbreviation (input) AluFunc_SUB :: "4 word" where "AluFunc_SUB \<equiv> 8"
abbreviation (input) AluFunc_SLL :: "4 word" where "AluFunc_SLL \<equiv> 1"
abbreviation (input) AluFunc_SLT :: "4 word" where "AluFunc_SLT \<equiv> 2"
abbreviation (input) AluFunc_SLTU :: "4 word" where "AluFunc_SLTU \<equiv> 11"
abbreviation (input) AluFunc_XOR :: "4 word" where "AluFunc_XOR \<equiv> 4"
abbreviation (input) AluFunc_SRL :: "4 word" where "AluFunc_SRL \<equiv> 5"
abbreviation (input) AluFunc_SRA :: "4 word" where "AluFunc_SRA \<equiv> 13"
abbreviation (input) AluFunc_OR :: "4 word" where "AluFunc_OR \<equiv> 6"
abbreviation (input) AluFunc_AND :: "4 word" where "AluFunc_AND \<equiv> 7"

abbreviation (input) SystemFunc_PRIV :: "3 word" where "SystemFunc_PRIV \<equiv> 0"
abbreviation (input) SystemFunc_CSRRW :: "3 word" where "SystemFunc_CSRRW \<equiv> 1"
abbreviation (input) SystemFunc_CSRRS :: "3 word" where "SystemFunc_CSRRS \<equiv> 2"
abbreviation (input) SystemFunc_CSRRC :: "3 word" where "SystemFunc_CSRRC \<equiv> 3"
abbreviation (input) SystemFunc_CSRRWI :: "3 word" where "SystemFunc_CSRRWI \<equiv> 5"
abbreviation (input) SystemFunc_CSRRSI :: "3 word" where "SystemFunc_CSRRSI \<equiv> 6"
abbreviation (input) SystemFunc_CSRRCI :: "3 word" where "SystemFunc_CSRRCI \<equiv> 7"

abbreviation (input) PrivFunc_ECALL :: "12 word" where "PrivFunc_ECALL \<equiv> 0x000"
abbreviation (input) PrivFunc_EBREAK :: "12 word" where "PrivFunc_EBREAK \<equiv> 0x001"
abbreviation (input) PrivFunc_MRET :: "12 word" where "PrivFunc_MRET \<equiv> 0x302"

abbreviation (input) TrapCause_INT_MACH_TIMER :: u32 where "TrapCause_INT_MACH_TIMER \<equiv> 0x80000007"
abbreviation (input) TrapCause_INT_MACH_EXTERNAL :: u32 where "TrapCause_INT_MACH_EXTERNAL \<equiv> 0x8000000B"
abbreviation (input) TrapCause_EXC_INSTR_ADDR_MISALIGN :: u32 where "TrapCause_EXC_INSTR_ADDR_MISALIGN \<equiv> 0x00000000"
abbreviation (input) TrapCause_EXC_ILLEGAL_INSTR :: u32 where "TrapCause_EXC_ILLEGAL_INSTR \<equiv> 0x00000002"
abbreviation (input) TrapCause_EXC_BREAKPOINT :: u32 where "TrapCause_EXC_BREAKPOINT \<equiv> 0x00000003"
abbreviation (input) TrapCause_EXC_LOAD_ADDR_MISALIGN :: u32 where "TrapCause_EXC_LOAD_ADDR_MISALIGN \<equiv> 0x00000004"
abbreviation (input) TrapCause_EXC_STORE_AMO_ADDR_MISALIGN :: u32 where "TrapCause_EXC_STORE_AMO_ADDR_MISALIGN \<equiv> 0x00000006"
abbreviation (input) TrapCause_EXC_ECALL_FROM_MACH_MODE :: u32 where "TrapCause_EXC_ECALL_FROM_MACH_MODE \<equiv> 0x0000000B"

text \<open>ConstSelect: the constants the ROM can select; the comment beside each member of
  the enumeration gives the 32-bit value it stands for (\<open>const_value\<close>).\<close>

datatype ConstSelect =
    ConstSelect_EXC_INSTR_ADDR_MISALIGN | ConstSelect_EXC_ILLEGAL_INSTR
  | ConstSelect_EXC_BREAKPOINT | ConstSelect_EXC_LOAD_ADDR_MISALIGN
  | ConstSelect_EXC_STORE_AMO_ADDR_MISALIGN | ConstSelect_EXC_ECALL_FROM_MACH_MODE
  | ConstSelect_INT_MACH_EXTERNAL | ConstSelect_INT_MACH_TIMER
  | ConstSelect_SHAMT_0 | ConstSelect_SHAMT_4 | ConstSelect_SHAMT_8
  | ConstSelect_SHAMT_16 | ConstSelect_SHAMT_24

fun const_value :: "ConstSelect \<Rightarrow> u32" where
  "const_value ConstSelect_EXC_INSTR_ADDR_MISALIGN = 0x00000000"
| "const_value ConstSelect_EXC_ILLEGAL_INSTR = 0x00000002"
| "const_value ConstSelect_EXC_BREAKPOINT = 0x00000003"
| "const_value ConstSelect_EXC_LOAD_ADDR_MISALIGN = 0x00000004"
| "const_value ConstSelect_EXC_STORE_AMO_ADDR_MISALIGN = 0x00000006"
| "const_value ConstSelect_EXC_ECALL_FROM_MACH_MODE = 0x0000000B"
| "const_value ConstSelect_INT_MACH_EXTERNAL = 0x8000000B"
| "const_value ConstSelect_INT_MACH_TIMER = 0x80000007"
| "const_value ConstSelect_SHAMT_0 = 0x00000000"
| "const_value ConstSelect_SHAMT_4 = 0x00000004"
| "const_value ConstSelect_SHAMT_8 = 0x00000008"
| "const_value ConstSelect_SHAMT_16 = 0x00000010"
| "const_value ConstSelect_SHAMT_24 = 0x00000018"

abbreviation (input) CSRAddr_MSTATUS :: "12 word" where "CSRAddr_MSTATUS \<equiv> 0x300"
abbreviation (input) CSRAddr_MIE :: "12 word" where "CSRAddr_MIE \<equiv> 0x304"
abbreviation (input) CSRAddr_MTVEC :: "12 word" where "CSRAddr_MTVEC \<equiv> 0x305"
abbreviation (input) CSRAddr_MEPC :: "12 word" where "CSRAddr_MEPC \<equiv> 0x341"
abbreviation (input) CSRAddr_MCAUSE :: "12 word" where "CSRAddr_MCAUSE \<equiv> 0x342"
abbreviation (input) CSRAddr_MTVAL :: "12 word" where "CSRAddr_MTVAL \<equiv> 0x343"
abbreviation (input) CSRAddr_MIP :: "12 word" where "CSRAddr_MIP \<equiv> 0x344"

abbreviation (input) MStatus_MIE :: nat where "MStatus_MIE \<equiv> 3"
abbreviation (input) MStatus_MPIE :: nat where "MStatus_MPIE \<equiv> 7"

datatype InstrReg = InstrReg_ZERO | InstrReg_RS1 | InstrReg_RS2 | InstrReg_RD

datatype NextPC =
    NextPC_PC_PLUS_4 | NextPC_MEMADDR | NextPC_Z | NextPC_X | NextPC_MEMADDR_NO_LSB

datatype SeqMuxSelect =
    SeqMuxSelect_MEMDATA_WR | SeqMuxSelect_MEMDATA_RD | SeqMuxSelect_MEMADDR
  | SeqMuxSelect_MEMADDR_LSB_MASKED | SeqMuxSelect_PC | SeqMuxSelect_PC_PLUS_4
  | SeqMuxSelect_MTVEC | SeqMuxSelect_MTVEC_LSR2 | SeqMuxSelect_TMP | SeqMuxSelect_IMM
  | SeqMuxSelect_INSTR | SeqMuxSelect_X | SeqMuxSelect_Y | SeqMuxSelect_Z
  | SeqMuxSelect_Z_LSL2 | SeqMuxSelect_CONST


section \<open>The sequencer card (sequencer_card.py)\<close>

subsection \<open>Registers, inputs and control signals\<close>

text \<open>\<open>SequencerState\<close>: the registers of the card. All are clocked by \<open>ph1\<close>, except
  \<open>exception\<close> and \<open>trap_cause\<close>, which are clocked by \<open>ph2\<close>, and \<open>instr\<close>, which is
  the output of the transparent instruction latch.\<close>

record SequencerState =
  pc :: u32
  instr_phase :: "2 word"
  instr :: u32
  stored_alu_eq :: bool
  stored_alu_lt :: bool
  stored_alu_ltu :: bool
  memaddr :: u32
  memdata_wr :: u32
  tmp :: u32
  reg_page :: bool
  reg_time_irq :: bool
  reg_ext_irq :: bool
  trap :: bool
  trap_svc :: bool
  exception :: bool
  trap_cause :: u32
  mtvec :: u32
  mcause :: u32
  mepc :: u32
  mtval :: u32
  mstatus :: u32

text \<open>The signals the card receives from the other cards during one machine cycle.\<close>

record card_in =
  alu_eq :: bool
  alu_lt :: bool
  alu_ltu :: bool
  time_irq :: bool
  ext_irq :: bool
  data_x_in :: u32
  data_y_in :: u32
  data_z_in :: u32
  memdata_rd :: u32

text \<open>The combinatorial signals of the card (\<open>m.d.comb\<close>), followed by the register
  writes a handler requests for the next clock edge (\<open>m.d.ph1\<close>, \<open>m.d.ph2\<close>): \<open>None\<close>
  when the handler leaves the register alone.\<close>

record signals =
  next_instr_phase :: "2 word"
  reg_to_x :: bool
  pc_to_x :: bool
  memdata_to_x :: bool
  reg_to_y :: bool
  imm_to_y :: bool
  shamt_to_y :: bool
  alu_op_to_z :: AluOp
  pc_plus_4_to_z :: bool
  tmp_to_z :: bool
  pc_plus_4_to_pc :: bool
  x_to_pc :: bool
  z_to_pc :: bool
  memaddr_to_pc :: bool
  memdata_to_pc :: bool
  x_to_tmp :: bool
  pc_plus_4_to_memaddr :: bool
  x_to_memaddr :: bool
  z_to_memaddr :: bool
  memdata_to_memaddr :: bool
  z_to_memdata :: bool
  mem_rd :: bool
  load_instr :: bool
  mem_wr :: bool
  mem_wr_mask :: "4 word"
  shamt :: "5 word"
  data_x_out :: u32
  data_y_out :: u32
  data_z_out :: u32
  is_last_instr_cycle :: bool
  instr_complete :: bool
  csr_to_x :: bool
  z_to_csr :: bool
  x_reg :: "5 word"
  y_reg :: "5 word"
  z_reg :: "5 word"
  funct12_to_csr_num :: bool
  mepc_num_to_csr_num :: bool
  csr_num :: "12 word"
  next_reg_page :: bool
  fatal :: bool
  imm_format :: OpcodeFormat
  imm :: u32
  nx_exception :: "bool option"
  nx_trap_cause :: "u32 option"
  nx_mtval :: "u32 option"
  nx_mepc :: "u32 option"
  nx_mcause :: "u32 option"
  nx_trap :: "bool option"
  nx_trap_svc :: "bool option"
  nx_reg_time_irq :: "bool option"
  nx_reg_ext_irq :: "bool option"
  nx_mstatus_MIE :: "bool option"
  nx_mstatus_MPIE :: "bool option"

text \<open>The defaults at the head of \<open>elaborate\<close>. \<open>x_reg\<close>, \<open>y_reg\<close>, \<open>imm_format\<close>,
  \<open>imm\<close> and \<open>fatal\<close> have no default statement: a combinatorial signal nobody drives
  has its reset value, zero.\<close>

definition defaults :: "SequencerState \<Rightarrow> signals" where
  "defaults s = \<lparr>
     next_instr_phase = 0, reg_to_x = False, pc_to_x = False, memdata_to_x = False,
     reg_to_y = False, imm_to_y = False, shamt_to_y = False, alu_op_to_z = AluOp_NONE,
     pc_plus_4_to_z = False, tmp_to_z = False, pc_plus_4_to_pc = False, x_to_pc = False,
     z_to_pc = False, memaddr_to_pc = False, memdata_to_pc = False, x_to_tmp = False,
     pc_plus_4_to_memaddr = False, x_to_memaddr = False, z_to_memaddr = False,
     memdata_to_memaddr = False, z_to_memdata = False, mem_rd = False, load_instr = False,
     mem_wr = False, mem_wr_mask = 0, shamt = 0, data_x_out = 0, data_y_out = 0,
     data_z_out = 0, is_last_instr_cycle = False, instr_complete = False, csr_to_x = False,
     z_to_csr = False, x_reg = 0, y_reg = 0, z_reg = 0, funct12_to_csr_num = False,
     mepc_num_to_csr_num = False, csr_num = 0, next_reg_page = reg_page s, fatal = False,
     imm_format = OpcodeFormat_R, imm = 0,
     nx_exception = None, nx_trap_cause = None, nx_mtval = None, nx_mepc = None,
     nx_mcause = None, nx_trap = None, nx_trap_svc = None, nx_reg_time_irq = None,
     nx_reg_ext_irq = None, nx_mstatus_MIE = None, nx_mstatus_MPIE = None \<rparr>"

subsection \<open>Instruction decoding\<close>

text \<open>The fields of the instruction are decoded from the latched word \<open>instr\<close>.
  \<open>slice lo hi w\<close> is the Python slice \<open>w[lo:hi]\<close> of a signal: bits \<open>lo\<close> to
  \<open>hi - 1\<close>, moved down to bit 0.\<close>

definition slice :: "nat \<Rightarrow> nat \<Rightarrow> u32 \<Rightarrow> u32" where
  "slice lo hi w = take_bit (hi - lo) (drop_bit lo w)"

definition opcode :: "u32 \<Rightarrow> 7 word" where
  "opcode w = ucast (slice 0 7 w)"

definition rs1 :: "u32 \<Rightarrow> 5 word" where
  "rs1 w = ucast (slice 15 20 w)"

definition rs2 :: "u32 \<Rightarrow> 5 word" where
  "rs2 w = ucast (slice 20 25 w)"

definition rd :: "u32 \<Rightarrow> 5 word" where
  "rd w = ucast (slice 7 12 w)"

definition funct3 :: "u32 \<Rightarrow> 3 word" where
  "funct3 w = ucast (slice 12 15 w)"

definition funct7 :: "u32 \<Rightarrow> 7 word" where
  "funct7 w = ucast (slice 25 32 w)"

definition funct12 :: "u32 \<Rightarrow> 12 word" where
  "funct12 w = ucast (slice 20 32 w)"

text \<open>\<open>alu_func\<close>: bits 0 to 2 are \<open>funct3\<close>, bit 3 is bit 5 of \<open>funct7\<close>.\<close>

definition alu_func :: "u32 \<Rightarrow> 4 word" where
  "alu_func w = ucast (funct3 w) OR (if bit (funct7 w) 5 then 8 else 0)"

text \<open>\<open>decode_imm\<close>: a signed temporary of 12, 13 or 21 bits assigned to the 32-bit
  \<open>imm\<close> is sign-extended; the SYS format takes the five bits of \<open>rs1\<close>, zero-extended.\<close>

fun decode_imm :: "OpcodeFormat \<Rightarrow> u32 \<Rightarrow> u32" where
  "decode_imm OpcodeFormat_I w = signed_take_bit 11 (slice 20 32 w)"
| "decode_imm OpcodeFormat_S w =
     signed_take_bit 11 (slice 7 12 w OR push_bit 5 (slice 25 32 w))"
| "decode_imm OpcodeFormat_R w = 0"
| "decode_imm OpcodeFormat_U w = push_bit 12 (slice 12 32 w)"
| "decode_imm OpcodeFormat_B w =
     signed_take_bit 12 (push_bit 12 (slice 31 32 w) OR push_bit 11 (slice 7 8 w)
       OR push_bit 5 (slice 25 31 w) OR push_bit 1 (slice 8 12 w))"
| "decode_imm OpcodeFormat_J w =
     signed_take_bit 20 (push_bit 20 (slice 31 32 w) OR push_bit 12 (slice 12 20 w)
       OR push_bit 11 (slice 20 21 w) OR push_bit 1 (slice 21 31 w))"
| "decode_imm OpcodeFormat_SYS w = slice 15 20 w"

text \<open>A handler selects the immediate format; \<open>imm\<close> follows it combinatorially.\<close>

definition set_imm_format :: "SequencerState \<Rightarrow> OpcodeFormat \<Rightarrow> signals \<Rightarrow> signals" where
  "set_imm_format s f c = c\<lparr>imm_format := f, imm := decode_imm f (instr s)\<rparr>"

subsection \<open>Exceptions and trap entry\<close>

text \<open>\<open>set_exception\<close>: the exception flag and the cause go to the \<open>ph2\<close> registers,
  \<open>mtval\<close>, \<open>mepc\<close> (the current PC) and \<open>trap\<close> to the \<open>ph1\<close> registers, and the
  instruction restarts at phase 0.\<close>

definition set_exception :: "SequencerState \<Rightarrow> u32 \<Rightarrow> u32 \<Rightarrow> signals \<Rightarrow> signals" where
  "set_exception s exc v c =
     c\<lparr>nx_exception := Some True, nx_trap_cause := Some exc, nx_mtval := Some v,
       nx_mepc := Some (pc s), nx_trap := Some True, next_instr_phase := 0\<rparr>"

definition handle_illegal_instr :: "SequencerState \<Rightarrow> signals \<Rightarrow> signals" where
  "handle_illegal_instr s c = set_exception s TrapCause_EXC_ILLEGAL_INSTR (instr s) c"

definition handle_trap :: "SequencerState \<Rightarrow> signals \<Rightarrow> signals" where
  "handle_trap s c =
     (if instr_phase s = 0 then
        let c1 = (if \<not> exception s then
                    (if reg_time_irq s then c\<lparr>nx_trap_cause := Some TrapCause_INT_MACH_TIMER\<rparr>
                     else if reg_ext_irq s then
                       c\<lparr>nx_trap_cause := Some TrapCause_INT_MACH_EXTERNAL\<rparr>
                     else c)\<lparr>nx_mepc := Some (pc s)\<rparr>
                  else c);
            c2 = c1\<lparr>nx_mcause := Some (trap_cause s)\<rparr>;
            c3 = (if reg_time_irq s then c2\<lparr>nx_reg_time_irq := Some False\<rparr>
                  else if reg_ext_irq s then c2\<lparr>nx_reg_ext_irq := Some False\<rparr>
                  else c2);
            is_int = bit (trap_cause s) 31;
            vec_mode = slice 0 2 (mtvec s);
            c4 = c3\<lparr>data_x_out := mtvec s AND 0xFFFFFFFC\<rparr>;
            c5 = (if is_int \<and> vec_mode = 1
                  then c4\<lparr>data_y_out := push_bit 2 (slice 0 30 (trap_cause s))\<rparr>
                  else c4\<lparr>data_y_out := 0\<rparr>)
        in c5\<lparr>alu_op_to_z := AluOp_ADD, z_to_memaddr := True, next_instr_phase := 1\<rparr>
      else if exception s then c\<lparr>next_instr_phase := 1, fatal := True\<rparr>
      else c\<lparr>mem_rd := True, memdata_to_pc := True, memdata_to_memaddr := True,
             nx_exception := Some False, nx_trap_cause := Some 0,
             nx_trap := Some False, nx_trap_svc := Some True,
             nx_mstatus_MPIE := Some (bit (mstatus s) MStatus_MIE),
             nx_mstatus_MIE := Some False\<rparr>)"

subsection \<open>The instruction handlers\<close>

definition handle_lui :: "SequencerState \<Rightarrow> signals \<Rightarrow> signals" where
  "handle_lui s c =
     (set_imm_format s OpcodeFormat_U c)
       \<lparr>reg_to_x := True, x_reg := 0, imm_to_y := True, alu_op_to_z := AluOp_ADD,
        z_reg := rd (instr s), is_last_instr_cycle := True\<rparr>"

definition handle_auipc :: "SequencerState \<Rightarrow> signals \<Rightarrow> signals" where
  "handle_auipc s c =
     (set_imm_format s OpcodeFormat_U c)
       \<lparr>pc_to_x := True, imm_to_y := True, alu_op_to_z := AluOp_ADD,
        z_reg := rd (instr s), is_last_instr_cycle := True\<rparr>"

text \<open>The switch on \<open>alu_func\<close> shared by \<open>handle_op_imm\<close> and \<open>handle_op\<close>.\<close>

definition alu_func_switch :: "SequencerState \<Rightarrow> signals \<Rightarrow> signals" where
  "alu_func_switch s c =
     (let f = alu_func (instr s) in
      if f = AluFunc_ADD then c\<lparr>alu_op_to_z := AluOp_ADD\<rparr>
      else if f = AluFunc_SUB then c\<lparr>alu_op_to_z := AluOp_SUB\<rparr>
      else if f = AluFunc_SLL then c\<lparr>alu_op_to_z := AluOp_SLL\<rparr>
      else if f = AluFunc_SLT then c\<lparr>alu_op_to_z := AluOp_SLT\<rparr>
      else if f = AluFunc_SLTU then c\<lparr>alu_op_to_z := AluOp_SLTU\<rparr>
      else if f = AluFunc_XOR then c\<lparr>alu_op_to_z := AluOp_XOR\<rparr>
      else if f = AluFunc_SRL then c\<lparr>alu_op_to_z := AluOp_SRL\<rparr>
      else if f = AluFunc_SRA then c\<lparr>alu_op_to_z := AluOp_SRA\<rparr>
      else if f = AluFunc_OR then c\<lparr>alu_op_to_z := AluOp_OR\<rparr>
      else if f = AluFunc_AND then c\<lparr>alu_op_to_z := AluOp_AND\<rparr>
      else handle_illegal_instr s c)"

definition handle_op_imm :: "SequencerState \<Rightarrow> signals \<Rightarrow> signals" where
  "handle_op_imm s c =
     (alu_func_switch s
        ((set_imm_format s OpcodeFormat_I c)
           \<lparr>reg_to_x := True, x_reg := rs1 (instr s), imm_to_y := True, z_reg := rd (instr s)\<rparr>))
       \<lparr>is_last_instr_cycle := True\<rparr>"

definition handle_op :: "SequencerState \<Rightarrow> signals \<Rightarrow> signals" where
  "handle_op s c =
     (alu_func_switch s
        ((set_imm_format s OpcodeFormat_R c)
           \<lparr>reg_to_x := True, x_reg := rs1 (instr s), reg_to_y := True, y_reg := rs2 (instr s),
            z_reg := rd (instr s)\<rparr>))
       \<lparr>is_last_instr_cycle := True\<rparr>"

definition handle_jal :: "SequencerState \<Rightarrow> signals \<Rightarrow> signals" where
  "handle_jal s c =
     (let c0 = set_imm_format s OpcodeFormat_J c in
      if instr_phase s = 0 then
        c0\<lparr>pc_to_x := True, imm_to_y := True, alu_op_to_z := AluOp_ADD,
           z_to_memaddr := True, next_instr_phase := 1\<rparr>
      else
        let c1 = c0\<lparr>pc_plus_4_to_z := True, z_reg := rd (instr s), memaddr_to_pc := True\<rparr> in
        if bit (memaddr s) 1 then
          (set_exception s TrapCause_EXC_INSTR_ADDR_MISALIGN (memaddr s) c1)
            \<lparr>memaddr_to_pc := False\<rparr>
        else c1\<lparr>is_last_instr_cycle := True\<rparr>)"

definition handle_jalr :: "SequencerState \<Rightarrow> signals \<Rightarrow> signals" where
  "handle_jalr s c =
     (let c0 = set_imm_format s OpcodeFormat_J c in
      if instr_phase s = 0 then
        c0\<lparr>reg_to_x := True, x_reg := rs1 (instr s), imm_to_y := True, alu_op_to_z := AluOp_ADD,
           z_to_memaddr := True, next_instr_phase := 1\<rparr>
      else
        let c1 = c0\<lparr>pc_plus_4_to_z := True, z_reg := rd (instr s), memaddr_to_pc := True\<rparr> in
        if bit (memaddr s) 1 then
          (set_exception s TrapCause_EXC_INSTR_ADDR_MISALIGN (memaddr s AND 0xFFFFFFFE) c1)
            \<lparr>memaddr_to_pc := False\<rparr>
        else c1\<lparr>is_last_instr_cycle := True\<rparr>)"

text \<open>\<open>branch_cond\<close>: the local signal \<open>cond\<close> of \<open>handle_branch\<close>, zero when
  \<open>funct3\<close> is none of the six conditions.\<close>

definition branch_cond :: "SequencerState \<Rightarrow> bool" where
  "branch_cond s =
     (let f = funct3 (instr s) in
      if f = BranchCond_EQ then stored_alu_eq s
      else if f = BranchCond_NE then \<not> stored_alu_eq s
      else if f = BranchCond_LT then stored_alu_lt s
      else if f = BranchCond_GE then \<not> stored_alu_lt s
      else if f = BranchCond_LTU then stored_alu_ltu s
      else if f = BranchCond_GEU then \<not> stored_alu_ltu s
      else False)"

definition branch_funct3_legal :: "SequencerState \<Rightarrow> bool" where
  "branch_funct3_legal s =
     (funct3 (instr s) \<in> {BranchCond_EQ, BranchCond_NE, BranchCond_LT, BranchCond_GE,
                   BranchCond_LTU, BranchCond_GEU})"

definition handle_branch :: "SequencerState \<Rightarrow> card_in \<Rightarrow> signals \<Rightarrow> signals" where
  "handle_branch s i c =
     (let c0 = set_imm_format s OpcodeFormat_B c in
      if instr_phase s = 0 then
        c0\<lparr>reg_to_x := True, x_reg := rs1 (instr s), reg_to_y := True, y_reg := rs2 (instr s),
           alu_op_to_z := AluOp_SUB, next_instr_phase := 1\<rparr>
      else
        let c1 = (if branch_funct3_legal s then c0 else handle_illegal_instr s c0);
            c2 = (if branch_cond s then c1\<lparr>imm_to_y := True\<rparr>
                  else c1\<lparr>shamt := 4, shamt_to_y := True\<rparr>);
            c3 = c2\<lparr>pc_to_x := True, alu_op_to_z := AluOp_ADD, z_to_pc := True,
                    z_to_memaddr := True\<rparr>
        in if slice 0 2 (data_z_in i) \<noteq> 0 then
             (set_exception s TrapCause_EXC_INSTR_ADDR_MISALIGN (data_z_in i) c3)
               \<lparr>z_to_pc := False\<rparr>
           else c3\<lparr>is_last_instr_cycle := True\<rparr>)"

definition handle_load :: "SequencerState \<Rightarrow> signals \<Rightarrow> signals" where
  "handle_load s c =
     (let c0 = set_imm_format s OpcodeFormat_I c; f = funct3 (instr s); a = slice 0 2 (memaddr s) in
      if instr_phase s = 0 then
        c0\<lparr>reg_to_x := True, x_reg := rs1 (instr s), imm_to_y := True, alu_op_to_z := AluOp_ADD,
           z_to_memaddr := True, next_instr_phase := 1\<rparr>
      else if instr_phase s = 1 then
        let c1 = c0\<lparr>mem_rd := True, memdata_to_x := True, shamt_to_y := True,
                    alu_op_to_z := AluOp_SLL, z_reg := rd (instr s), next_instr_phase := 2\<rparr>
        in if f = MemAccessWidth_B \<or> f = MemAccessWidth_BU then
             (if a = 0 then c1\<lparr>shamt := 24\<rparr>
              else if a = 1 then c1\<lparr>shamt := 16\<rparr>
              else if a = 2 then c1\<lparr>shamt := 8\<rparr>
              else c1\<lparr>shamt := 0\<rparr>)
           else if f = MemAccessWidth_H \<or> f = MemAccessWidth_HU then
             (if a = 0 then c1\<lparr>shamt := 16\<rparr>
              else if a = 2 then c1\<lparr>shamt := 0\<rparr>
              else set_exception s TrapCause_EXC_LOAD_ADDR_MISALIGN (memaddr s) c1)
           else if f = MemAccessWidth_W then
             (if a = 0 then c1\<lparr>shamt := 0\<rparr>
              else set_exception s TrapCause_EXC_LOAD_ADDR_MISALIGN (memaddr s) c1)
           else handle_illegal_instr s c1
      else
        let c1 = c0\<lparr>reg_to_x := True, x_reg := rd (instr s), shamt_to_y := True, z_reg := rd (instr s)\<rparr>;
            c2 = (if f = MemAccessWidth_B then c1\<lparr>shamt := 24, alu_op_to_z := AluOp_SRA\<rparr>
                  else if f = MemAccessWidth_BU then c1\<lparr>shamt := 24, alu_op_to_z := AluOp_SRL\<rparr>
                  else if f = MemAccessWidth_H then c1\<lparr>shamt := 16, alu_op_to_z := AluOp_SRA\<rparr>
                  else if f = MemAccessWidth_HU then c1\<lparr>shamt := 16, alu_op_to_z := AluOp_SRL\<rparr>
                  else if f = MemAccessWidth_W then c1\<lparr>shamt := 0, alu_op_to_z := AluOp_SRL\<rparr>
                  else c1)
        in c2\<lparr>is_last_instr_cycle := True\<rparr>)"

definition handle_store :: "SequencerState \<Rightarrow> signals \<Rightarrow> signals" where
  "handle_store s c =
     (let c0 = set_imm_format s OpcodeFormat_S c; f = funct3 (instr s); a = slice 0 2 (memaddr s) in
      if instr_phase s = 0 then
        c0\<lparr>reg_to_x := True, x_reg := rs1 (instr s), imm_to_y := True, alu_op_to_z := AluOp_ADD,
           z_to_memaddr := True, next_instr_phase := 1\<rparr>
      else if instr_phase s = 1 then
        let c1 = c0\<lparr>reg_to_x := True, x_reg := rs2 (instr s), shamt_to_y := True,
                    alu_op_to_z := AluOp_SLL, z_to_memdata := True, next_instr_phase := 2\<rparr>
        in if f = MemAccessWidth_B then
             (if a = 0 then c1\<lparr>shamt := 0\<rparr>
              else if a = 1 then c1\<lparr>shamt := 8\<rparr>
              else if a = 2 then c1\<lparr>shamt := 16\<rparr>
              else c1\<lparr>shamt := 24\<rparr>)
           else if f = MemAccessWidth_H then
             (if a = 0 then c1\<lparr>shamt := 0\<rparr>
              else if a = 2 then c1\<lparr>shamt := 16\<rparr>
              else set_exception s TrapCause_EXC_STORE_AMO_ADDR_MISALIGN (memaddr s) c1)
           else if f = MemAccessWidth_W then
             (if a = 0 then c1\<lparr>shamt := 0\<rparr>
              else set_exception s TrapCause_EXC_STORE_AMO_ADDR_MISALIGN (memaddr s) c1)
           else handle_illegal_instr s c1
      else
        let c1 = (if f = MemAccessWidth_B then
                    (if a = 0 then c0\<lparr>mem_wr_mask := 1\<rparr>
                     else if a = 1 then c0\<lparr>mem_wr_mask := 2\<rparr>
                     else if a = 2 then c0\<lparr>mem_wr_mask := 4\<rparr>
                     else c0\<lparr>mem_wr_mask := 8\<rparr>)
                  else if f = MemAccessWidth_H then
                    (if a = 0 then c0\<lparr>mem_wr_mask := 3\<rparr>
                     else if a = 2 then c0\<lparr>mem_wr_mask := 12\<rparr>
                     else c0)
                  else if f = MemAccessWidth_W then
                    (if a = 0 then c0\<lparr>mem_wr_mask := 15\<rparr> else c0)
                  else c0)
        in c1\<lparr>mem_wr := True, is_last_instr_cycle := True\<rparr>)"

subsection \<open>The SYSTEM handlers\<close>

text \<open>The second phase of every CSR instruction: \<open>tmp\<close>, the old value of the CSR, goes
  to \<open>rd\<close> over Z.\<close>

definition csr_phase1 :: "SequencerState \<Rightarrow> signals \<Rightarrow> signals" where
  "csr_phase1 s c = c\<lparr>tmp_to_z := True, z_reg := rd (instr s), is_last_instr_cycle := True\<rparr>"

definition handle_CSRRW :: "SequencerState \<Rightarrow> signals \<Rightarrow> signals" where
  "handle_CSRRW s c =
     (let c0 = c\<lparr>funct12_to_csr_num := True\<rparr> in
      if instr_phase s = 0 then
        (if rd (instr s) = 0 then c0\<lparr>x_reg := 0, reg_to_x := True\<rparr> else c0\<lparr>csr_to_x := True\<rparr>)
          \<lparr>y_reg := rs1 (instr s), reg_to_y := True, alu_op_to_z := AluOp_Y, z_to_csr := True,
           x_to_tmp := True, next_instr_phase := 1\<rparr>
      else csr_phase1 s c0)"

definition handle_CSRRWI :: "SequencerState \<Rightarrow> signals \<Rightarrow> signals" where
  "handle_CSRRWI s c =
     (let c0 = c\<lparr>funct12_to_csr_num := True\<rparr> in
      if instr_phase s = 0 then
        (if rd (instr s) = 0 then c0\<lparr>x_reg := 0, reg_to_x := True\<rparr> else c0\<lparr>csr_to_x := True\<rparr>)
          \<lparr>imm_to_y := True, alu_op_to_z := AluOp_Y, z_to_csr := True,
           x_to_tmp := True, next_instr_phase := 1\<rparr>
      else csr_phase1 s c0)"

definition handle_CSRRS :: "SequencerState \<Rightarrow> signals \<Rightarrow> signals" where
  "handle_CSRRS s c =
     (let c0 = c\<lparr>funct12_to_csr_num := True\<rparr> in
      if instr_phase s = 0 then
        c0\<lparr>csr_to_x := True, y_reg := rs1 (instr s), reg_to_y := True, alu_op_to_z := AluOp_OR,
           z_to_csr := (rs1 (instr s) \<noteq> 0), x_to_tmp := True, next_instr_phase := 1\<rparr>
      else csr_phase1 s c0)"

definition handle_CSRRSI :: "SequencerState \<Rightarrow> signals \<Rightarrow> signals" where
  "handle_CSRRSI s c =
     (let c0 = c\<lparr>funct12_to_csr_num := True\<rparr> in
      if instr_phase s = 0 then
        c0\<lparr>csr_to_x := True, imm_to_y := True, alu_op_to_z := AluOp_OR,
           z_to_csr := (imm c \<noteq> 0), x_to_tmp := True, next_instr_phase := 1\<rparr>
      else csr_phase1 s c0)"

definition handle_CSRRC :: "SequencerState \<Rightarrow> signals \<Rightarrow> signals" where
  "handle_CSRRC s c =
     (let c0 = c\<lparr>funct12_to_csr_num := True\<rparr> in
      if instr_phase s = 0 then
        c0\<lparr>csr_to_x := True, y_reg := rs1 (instr s), reg_to_y := True, alu_op_to_z := AluOp_AND_NOT,
           z_to_csr := (rs1 (instr s) \<noteq> 0), x_to_tmp := True, next_instr_phase := 1\<rparr>
      else csr_phase1 s c0)"

definition handle_CSRRCI :: "SequencerState \<Rightarrow> signals \<Rightarrow> signals" where
  "handle_CSRRCI s c =
     (let c0 = c\<lparr>funct12_to_csr_num := True\<rparr> in
      if instr_phase s = 0 then
        c0\<lparr>csr_to_x := True, imm_to_y := True, alu_op_to_z := AluOp_AND_NOT,
           z_to_csr := (imm c \<noteq> 0), x_to_tmp := True, next_instr_phase := 1\<rparr>
      else csr_phase1 s c0)"

definition handle_MRET :: "SequencerState \<Rightarrow> signals \<Rightarrow> signals" where
  "handle_MRET s c =
     c\<lparr>mepc_num_to_csr_num := True, csr_to_x := True, x_to_pc := True,
       is_last_instr_cycle := True,
       nx_mstatus_MIE := Some (bit (mstatus s) MStatus_MPIE),
       nx_mstatus_MPIE := Some True\<rparr>"

definition handle_PRIV :: "SequencerState \<Rightarrow> signals \<Rightarrow> signals" where
  "handle_PRIV s c =
     (if funct12 (instr s) = PrivFunc_MRET then
        (if rd (instr s) = 0 \<and> rs1 (instr s) = 0 then handle_MRET s c else handle_illegal_instr s c)
      else handle_illegal_instr s c)"

definition handle_system :: "SequencerState \<Rightarrow> signals \<Rightarrow> signals" where
  "handle_system s c =
     (let c0 = set_imm_format s OpcodeFormat_SYS c; f = funct3 (instr s) in
      if f = SystemFunc_CSRRW then handle_CSRRW s c0
      else if f = SystemFunc_CSRRWI then handle_CSRRWI s c0
      else if f = SystemFunc_CSRRS then handle_CSRRS s c0
      else if f = SystemFunc_CSRRSI then handle_CSRRSI s c0
      else if f = SystemFunc_CSRRC then handle_CSRRC s c0
      else if f = SystemFunc_CSRRCI then handle_CSRRCI s c0
      else if f = SystemFunc_PRIV then handle_PRIV s c0
      else handle_illegal_instr s c0)"

subsection \<open>Elaboration: the settled signals of one cycle\<close>

definition instr_misalign :: "SequencerState \<Rightarrow> bool" where
  "instr_misalign s = (slice 0 2 (pc s) \<noteq> 0 \<and> \<not> trap s)"

text \<open>The dispatch at the end of \<open>elaborate\<close>: the trap handler when \<open>trap\<close> is set,
  else the handler of the opcode of a word that is neither of the two illegal patterns.\<close>

definition handlers :: "SequencerState \<Rightarrow> card_in \<Rightarrow> signals \<Rightarrow> signals" where
  "handlers s i c =
     (if trap s then handle_trap s c
      else if \<not> instr_misalign s then
        (if slice 0 16 (instr s) = 0 then handle_illegal_instr s c
         else if instr s = 0xFFFFFFFF then handle_illegal_instr s c
         else
           let op = opcode (instr s) in
           if op = Opcode_LUI then handle_lui s c
           else if op = Opcode_AUIPC then handle_auipc s c
           else if op = Opcode_OP_IMM then handle_op_imm s c
           else if op = Opcode_OP then handle_op s c
           else if op = Opcode_JAL then handle_jal s c
           else if op = Opcode_JALR then handle_jalr s c
           else if op = Opcode_BRANCH then handle_branch s i c
           else if op = Opcode_LOAD then handle_load s c
           else if op = Opcode_STORE then handle_store s c
           else if op = Opcode_SYSTEM then handle_system s c
           else handle_illegal_instr s c)
      else c)"

text \<open>The last cycle of an instruction: \<open>instr_complete\<close> follows \<open>mcycle_end\<close>, and PC
  and memaddr take PC + 4 unless another source is selected for them.\<close>

definition last_instr_cycle :: "bool \<Rightarrow> signals \<Rightarrow> signals" where
  "last_instr_cycle mcycle_end c =
     (if is_last_instr_cycle c then
        let c1 = c\<lparr>instr_complete := mcycle_end\<rparr>;
            c2 = (if \<not> x_to_pc c1 \<and> \<not> z_to_pc c1 \<and> \<not> memaddr_to_pc c1 \<and> \<not> memdata_to_pc c1
                  then c1\<lparr>pc_plus_4_to_pc := True\<rparr> else c1)
        in if \<not> x_to_memaddr c2 \<and> \<not> z_to_memaddr c2 \<and> \<not> memdata_to_memaddr c2
           then c2\<lparr>pc_plus_4_to_memaddr := True\<rparr> else c2
      else c)"

definition is_interrupted :: "SequencerState \<Rightarrow> card_in \<Rightarrow> signals \<Rightarrow> bool" where
  "is_interrupted s i c =
     (instr_complete c \<and> \<not> trap s \<and> \<not> trap_svc s \<and> (time_irq i \<or> ext_irq i)
      \<and> bit (mstatus s) MStatus_MIE)"

text \<open>The chain \<open>If(instr_misalign) / Elif(is_interrupted) / Elif(phase 0, no trap)\<close>:
  a misaligned PC raises the exception, an interrupt restarts at phase 0, and otherwise
  phase 0 fetches the instruction. (The register writes of the interrupt branch are in
  \<open>commit_ph1\<close>.)\<close>

definition fetch_or_interrupt :: "SequencerState \<Rightarrow> card_in \<Rightarrow> signals \<Rightarrow> signals" where
  "fetch_or_interrupt s i c =
     (if instr_misalign s then set_exception s TrapCause_EXC_INSTR_ADDR_MISALIGN (pc s) c
      else if is_interrupted s i c then c\<lparr>next_instr_phase := 0\<rparr>
      else if instr_phase s = 0 \<and> \<not> trap s then c\<lparr>load_instr := True, mem_rd := True\<rparr>
      else c)"

text \<open>The multiplexers onto \<open>csr_num\<close>, X, Y and Z. A CSR number outside the five cases
  of the switch leaves X at its default.\<close>

definition csr_num_mux :: "SequencerState \<Rightarrow> signals \<Rightarrow> signals" where
  "csr_num_mux s c =
     (if funct12_to_csr_num c then c\<lparr>csr_num := funct12 (instr s)\<rparr>
      else if mepc_num_to_csr_num c then c\<lparr>csr_num := CSRAddr_MEPC\<rparr>
      else c)"

definition csr_to_x_switch :: "SequencerState \<Rightarrow> signals \<Rightarrow> signals" where
  "csr_to_x_switch s c =
     (let n = csr_num c in
      if n = CSRAddr_MCAUSE then c\<lparr>data_x_out := mcause s\<rparr>
      else if n = CSRAddr_MTVEC then c\<lparr>data_x_out := mtvec s\<rparr>
      else if n = CSRAddr_MEPC then c\<lparr>data_x_out := mepc s\<rparr>
      else if n = CSRAddr_MTVAL then c\<lparr>data_x_out := mtval s\<rparr>
      else if n = CSRAddr_MSTATUS then c\<lparr>data_x_out := mstatus s\<rparr>
      else c)"

definition x_mux :: "SequencerState \<Rightarrow> card_in \<Rightarrow> signals \<Rightarrow> signals" where
  "x_mux s i c =
     (if pc_to_x c then c\<lparr>data_x_out := pc s\<rparr>
      else if memdata_to_x c then c\<lparr>data_x_out := memdata_rd i\<rparr>
      else if csr_to_x c then csr_to_x_switch s c
      else c)"

definition y_mux :: "signals \<Rightarrow> signals" where
  "y_mux c =
     (if imm_to_y c then c\<lparr>data_y_out := imm c\<rparr>
      else if shamt_to_y c then c\<lparr>data_y_out := ucast (shamt c)\<rparr>
      else c)"

definition z_mux :: "SequencerState \<Rightarrow> signals \<Rightarrow> signals" where
  "z_mux s c =
     (if pc_plus_4_to_z c then c\<lparr>data_z_out := pc s + 4\<rparr>
      else if tmp_to_z c then c\<lparr>data_z_out := tmp s\<rparr>
      else c)"

text \<open>\<open>elaborate\<close>: the settled value of every combinatorial signal, and the register
  writes requested, in a cycle with registers \<open>s\<close> and inputs \<open>i\<close>. The handlers read
  registers and inputs only, so they are evaluated first; the statements that read the
  selectors the handlers drive follow.\<close>

definition elaborate :: "SequencerState \<Rightarrow> card_in \<Rightarrow> bool \<Rightarrow> signals" where
  "elaborate s i mcycle_end =
     z_mux s (y_mux (x_mux s i (csr_num_mux s
       (fetch_or_interrupt s i (last_instr_cycle mcycle_end (handlers s i (defaults s)))))))"

subsection \<open>Clock edges\<close>

text \<open>The \<open>ph2\<close> registers.\<close>

definition commit_ph2 :: "signals \<Rightarrow> SequencerState \<Rightarrow> SequencerState" where
  "commit_ph2 c s =
     s\<lparr>exception := (case nx_exception c of Some b \<Rightarrow> b | None \<Rightarrow> exception s),
       trap_cause := (case nx_trap_cause c of Some v \<Rightarrow> v | None \<Rightarrow> trap_cause s)\<rparr>"

text \<open>The pending-interrupt latches: they follow the interrupt lines while no trap is
  being entered and MIE is set, and are cleared while MIE is clear.\<close>

definition latch_irq :: "SequencerState \<Rightarrow> bool \<Rightarrow> bool \<Rightarrow> bool" where
  "latch_irq s reg line =
     (if \<not> trap s then
        (if bit (mstatus s) MStatus_MIE then (if \<not> reg then line else reg) else False)
      else reg)"

definition assign_bit :: "nat \<Rightarrow> bool option \<Rightarrow> u32 \<Rightarrow> u32" where
  "assign_bit n b w =
     (case b of None \<Rightarrow> w | Some True \<Rightarrow> set_bit n w | Some False \<Rightarrow> unset_bit n w)"

text \<open>The \<open>ph1\<close> registers. Where several statements of \<open>elaborate\<close> write one register,
  the last active one wins: the writes of the handlers come last in the source, before
  them the write from Z to the CSR \<open>csr_num\<close> selects, before that the write of \<open>mtval\<close>
  and \<open>trap\<close> when an interrupt is taken.\<close>

definition z_to_csr_at :: "signals \<Rightarrow> 12 word \<Rightarrow> bool" where
  "z_to_csr_at c n = (z_to_csr c \<and> csr_num c = n)"

definition commit_ph1 :: "signals \<Rightarrow> card_in \<Rightarrow> SequencerState \<Rightarrow> SequencerState" where
  "commit_ph1 c i s =
     s\<lparr>reg_time_irq := (case nx_reg_time_irq c of Some b \<Rightarrow> b
                         | None \<Rightarrow> latch_irq s (reg_time_irq s) (time_irq i)),
       reg_ext_irq := (case nx_reg_ext_irq c of Some b \<Rightarrow> b
                         | None \<Rightarrow> latch_irq s (reg_ext_irq s) (ext_irq i)),
       instr_phase := next_instr_phase c,
       reg_page := next_reg_page c,
       stored_alu_eq := alu_eq i,
       stored_alu_lt := alu_lt i,
       stored_alu_ltu := alu_ltu i,
       pc := (if pc_plus_4_to_pc c then pc s + 4
              else if x_to_pc c then data_x_in i
              else if z_to_pc c then data_z_in i
              else if memaddr_to_pc c then push_bit 1 (drop_bit 1 (memaddr s))
              else if memdata_to_pc c then memdata_rd i
              else pc s),
       memaddr := (if pc_plus_4_to_memaddr c then pc s + 4
                   else if x_to_memaddr c then data_x_in i
                   else if z_to_memaddr c then data_z_in i
                   else if memdata_to_memaddr c then memdata_rd i
                   else memaddr s),
       memdata_wr := (if z_to_memdata c then data_z_in i else memdata_wr s),
       tmp := (if x_to_tmp c then data_x_in i else tmp s),
       mcause := (case nx_mcause c of Some v \<Rightarrow> v
                  | None \<Rightarrow> if z_to_csr_at c CSRAddr_MCAUSE then data_z_in i else mcause s),
       mtvec := (if z_to_csr_at c CSRAddr_MTVEC then data_z_in i else mtvec s),
       mepc := (case nx_mepc c of Some v \<Rightarrow> v
                | None \<Rightarrow> if z_to_csr_at c CSRAddr_MEPC then data_z_in i else mepc s),
       mtval := (case nx_mtval c of Some v \<Rightarrow> v
                 | None \<Rightarrow> if z_to_csr_at c CSRAddr_MTVAL then data_z_in i
                           else if is_interrupted s i c then pc s else mtval s),
       mstatus := assign_bit MStatus_MIE (nx_mstatus_MIE c)
                    (assign_bit MStatus_MPIE (nx_mstatus_MPIE c)
                       (if z_to_csr_at c CSRAddr_MSTATUS then data_z_in i else mstatus s)),
       trap := (case nx_trap c of Some b \<Rightarrow> b
                | None \<Rightarrow> if is_interrupted s i c then True else trap s),
       trap_svc := (case nx_trap_svc c of Some b \<Rightarrow> b | None \<Rightarrow> trap_svc s)\<rparr>"

subsection \<open>One machine cycle\<close>

text \<open>Modelled from the spec: the transparent latch (transparent_latch.py) is not among
  the sources. While its enable \<open>load_instr\<close> is high during the read pulse, \<open>instr\<close>
  follows \<open>memdata_rd\<close>; otherwise it holds its value. \<open>mcycle_end\<close> is low then.\<close>

definition latch_instr :: "card_in \<Rightarrow> SequencerState \<Rightarrow> SequencerState" where
  "latch_instr i s = (if load_instr (elaborate s i False) then s\<lparr>instr := memdata_rd i\<rparr> else s)"

text \<open>A machine cycle, with the inputs held stable as the clock generator of \<open>formal\<close>
  assumes: the instruction latch settles, \<open>ph2\<close> rises inside the cycle (twice, with the
  same effect) and loads \<open>exception\<close> and \<open>trap_cause\<close>; \<open>ph1\<close> rises at the end of the
  cycle, when \<open>mcycle_end\<close> is high, and loads every other register.\<close>

definition after_ph2 :: "card_in \<Rightarrow> SequencerState \<Rightarrow> SequencerState" where
  "after_ph2 i s = (let s1 = latch_instr i s in commit_ph2 (elaborate s1 i False) s1)"

definition card_signals :: "card_in \<Rightarrow> SequencerState \<Rightarrow> signals" where
  "card_signals i s = elaborate (after_ph2 i s) i True"

definition card_cycle :: "card_in \<Rightarrow> SequencerState \<Rightarrow> SequencerState" where
  "card_cycle i s = commit_ph1 (card_signals i s) i (after_ph2 i s)"

text \<open>The instruction word the latch presents during the cycle.\<close>

definition cur_instr :: "card_in \<Rightarrow> SequencerState \<Rightarrow> u32" where
  "cur_instr i s = instr (latch_instr i s)"

text \<open>The value the switch under \<open>csr_to_x\<close> drives onto X for CSR number \<open>n\<close>;
  \<open>d\<close> is what X carries when no case of the switch matches.\<close>

definition csr_value :: "SequencerState \<Rightarrow> 12 word \<Rightarrow> u32 \<Rightarrow> u32" where
  "csr_value s n d =
     (if n = CSRAddr_MCAUSE then mcause s
      else if n = CSRAddr_MTVEC then mtvec s
      else if n = CSRAddr_MEPC then mepc s
      else if n = CSRAddr_MTVAL then mtval s
      else if n = CSRAddr_MSTATUS then mstatus s
      else d)"

subsection \<open>Concrete states and inputs\<close>

text \<open>The registers after reset, and a cycle in which every input line is low.\<close>

definition reset_state :: SequencerState where
  "reset_state = \<lparr>pc = 0, instr_phase = 0, instr = 0, stored_alu_eq = False,
     stored_alu_lt = False, stored_alu_ltu = False, memaddr = 0, memdata_wr = 0, tmp = 0,
     reg_page = False, reg_time_irq = False, reg_ext_irq = False, trap = False,
     trap_svc = False, exception = False, trap_cause = 0, mtvec = 0, mcause = 0, mepc = 0,
     mtval = 0, mstatus = 0\<rparr>"

definition quiet_in :: card_in where
  "quiet_in = \<lparr>alu_eq = False, alu_lt = False, alu_ltu = False, time_irq = False,
     ext_irq = False, data_x_in = 0, data_y_in = 0, data_z_in = 0, memdata_rd = 0\<rparr>"

text \<open>Trap entry pending with both interrupt latches set, and with the external one
  alone.\<close>

definition st_both_irqs :: SequencerState where
  "st_both_irqs = reset_state\<lparr>pc := 0x104, memaddr := 0x104, mstatus := 8, mtvec := 0x81,
     trap := True, reg_time_irq := True, reg_ext_irq := True\<rparr>"

definition st_ext_irq :: SequencerState where
  "st_ext_irq = st_both_irqs\<lparr>reg_time_irq := False\<rparr>"

section \<open>The sequencer ROM (sequencer_rom.py)\<close>

text \<open>The address lines of the ROM. \<open>rd0\<close>, \<open>rs1_0\<close>, \<open>imm0\<close> and
  \<open>data_z_in_2_lsb0\<close> say that the named quantity is zero. The four-bit \<open>opcode_select\<close>
  is a member of \<open>OpcodeSelect\<close>; \<open>NONE\<close> takes the default case of the switch.\<close>

record rom_in =
  enable_sequencer_rom :: bool
  memaddr_2_lsb :: "2 word"
  rom_branch_cond :: bool
  rom_instr_phase :: "2 word"
  data_z_in_2_lsb0 :: bool
  imm0 :: bool
  rd0 :: bool
  rs1_0 :: bool
  opcode_select :: OpcodeSelect
  rom_funct3 :: "3 word"
  rom_alu_func :: "4 word"

record rom_out =
  set_instr_complete :: bool
  save_trap_csrs :: bool
  rom_csr_to_x :: bool
  rom_z_to_csr :: bool
  rom_mem_rd :: bool
  rom_mem_wr :: bool
  rom_mem_wr_mask :: "4 word"
  rom_next_instr_phase :: "2 word"
  x_reg_select :: InstrReg
  y_reg_select :: InstrReg
  z_reg_select :: InstrReg
  x_mux_select :: SeqMuxSelect
  rom_reg_to_x :: bool
  y_mux_select :: SeqMuxSelect
  rom_reg_to_y :: bool
  z_mux_select :: SeqMuxSelect
  rom_alu_op_to_z :: AluOp
  pc_mux_select :: SeqMuxSelect
  tmp_mux_select :: SeqMuxSelect
  rom_funct12_to_csr_num :: bool
  rom_mepc_num_to_csr_num :: bool
  mcause_to_csr_num :: bool
  memaddr_mux_select :: SeqMuxSelect
  memdata_wr_mux_select :: SeqMuxSelect
  rom_const :: ConstSelect
  enter_trap :: bool
  exit_trap :: bool
  load_trap :: bool
  next_trap :: bool
  load_exception :: bool
  next_exception :: bool
  next_fatal :: bool

text \<open>The defaults: every bus multiplexer selects its own bus, which leaves the bus idle;
  constant 0 is \<open>EXC_INSTR_ADDR_MISALIGN\<close> and register selection 0 is \<open>ZERO\<close>.\<close>

definition rom_defaults :: rom_out where
  "rom_defaults = \<lparr>
     set_instr_complete = False, save_trap_csrs = False, rom_csr_to_x = False,
     rom_z_to_csr = False, rom_mem_rd = False, rom_mem_wr = False, rom_mem_wr_mask = 0,
     rom_next_instr_phase = 0, x_reg_select = InstrReg_ZERO, y_reg_select = InstrReg_ZERO,
     z_reg_select = InstrReg_ZERO, x_mux_select = SeqMuxSelect_X, rom_reg_to_x = False,
     y_mux_select = SeqMuxSelect_Y, rom_reg_to_y = False, z_mux_select = SeqMuxSelect_Z,
     rom_alu_op_to_z = AluOp_NONE, pc_mux_select = SeqMuxSelect_PC,
     tmp_mux_select = SeqMuxSelect_TMP, rom_funct12_to_csr_num = False,
     rom_mepc_num_to_csr_num = False, mcause_to_csr_num = False,
     memaddr_mux_select = SeqMuxSelect_MEMADDR,
     memdata_wr_mux_select = SeqMuxSelect_MEMDATA_WR,
     rom_const = ConstSelect_EXC_INSTR_ADDR_MISALIGN, enter_trap = False, exit_trap = False,
     load_trap = False, next_trap = False, load_exception = False, next_exception = False,
     next_fatal = False \<rparr>"

fun next_instr :: "NextPC \<Rightarrow> rom_out \<Rightarrow> rom_out" where
  "next_instr NextPC_PC_PLUS_4 c =
     c\<lparr>set_instr_complete := True, pc_mux_select := SeqMuxSelect_PC_PLUS_4,
       memaddr_mux_select := SeqMuxSelect_PC_PLUS_4\<rparr>"
| "next_instr NextPC_MEMADDR c =
     c\<lparr>set_instr_complete := True, pc_mux_select := SeqMuxSelect_MEMADDR\<rparr>"
| "next_instr NextPC_MEMADDR_NO_LSB c =
     c\<lparr>set_instr_complete := True, pc_mux_select := SeqMuxSelect_MEMADDR_LSB_MASKED\<rparr>"
| "next_instr NextPC_Z c =
     c\<lparr>set_instr_complete := True, pc_mux_select := SeqMuxSelect_Z,
       memaddr_mux_select := SeqMuxSelect_Z\<rparr>"
| "next_instr NextPC_X c =
     c\<lparr>set_instr_complete := True, pc_mux_select := SeqMuxSelect_X,
       memaddr_mux_select := SeqMuxSelect_X\<rparr>"

text \<open>\<open>set_exception\<close> of the ROM: the cause constant goes to X, PC (fatal) or PC + 4
  (not fatal) to Y, the \<open>mtval\<close> source to Z, and \<open>save_trap_csrs\<close> stores
  X, Y and Z in \<open>mcause\<close>, \<open>mepc\<close> and \<open>mtval\<close>. \<open>fatal\<close> is true unless the caller
  says otherwise.\<close>

definition rom_set_exception :: "ConstSelect \<Rightarrow> SeqMuxSelect \<Rightarrow> bool \<Rightarrow> rom_out \<Rightarrow> rom_out" where
  "rom_set_exception exc v is_fatal c =
     c\<lparr>load_exception := True, next_exception := True, next_fatal := is_fatal,
       rom_const := exc, x_mux_select := SeqMuxSelect_CONST, z_mux_select := v,
       y_mux_select := (if is_fatal then SeqMuxSelect_PC else SeqMuxSelect_PC_PLUS_4),
       save_trap_csrs := True, load_trap := True, next_trap := True,
       rom_next_instr_phase := 0\<rparr>"

definition rom_handle_illegal_instr :: "rom_out \<Rightarrow> rom_out" where
  "rom_handle_illegal_instr c =
     rom_set_exception ConstSelect_EXC_ILLEGAL_INSTR SeqMuxSelect_INSTR True c"

definition rom_handle_lui :: "rom_out \<Rightarrow> rom_out" where
  "rom_handle_lui c =
     next_instr NextPC_PC_PLUS_4
       (c\<lparr>rom_reg_to_x := True, x_reg_select := InstrReg_ZERO, y_mux_select := SeqMuxSelect_IMM,
          rom_alu_op_to_z := AluOp_ADD, z_reg_select := InstrReg_RD\<rparr>)"

definition rom_handle_auipc :: "rom_out \<Rightarrow> rom_out" where
  "rom_handle_auipc c =
     next_instr NextPC_PC_PLUS_4
       (c\<lparr>x_mux_select := SeqMuxSelect_PC, y_mux_select := SeqMuxSelect_IMM,
          rom_alu_op_to_z := AluOp_ADD, z_reg_select := InstrReg_RD\<rparr>)"

definition alu_func_legal :: "4 word \<Rightarrow> bool" where
  "alu_func_legal f =
     (f \<in> {AluFunc_ADD, AluFunc_SUB, AluFunc_SLL, AluFunc_SLT, AluFunc_SLTU, AluFunc_XOR,
            AluFunc_SRL, AluFunc_SRA, AluFunc_OR, AluFunc_AND})"

definition rom_alu_func_switch :: "4 word \<Rightarrow> rom_out \<Rightarrow> rom_out" where
  "rom_alu_func_switch f c =
     (if f = AluFunc_ADD then c\<lparr>rom_alu_op_to_z := AluOp_ADD\<rparr>
      else if f = AluFunc_SUB then c\<lparr>rom_alu_op_to_z := AluOp_SUB\<rparr>
      else if f = AluFunc_SLL then c\<lparr>rom_alu_op_to_z := AluOp_SLL\<rparr>
      else if f = AluFunc_SLT then c\<lparr>rom_alu_op_to_z := AluOp_SLT\<rparr>
      else if f = AluFunc_SLTU then c\<lparr>rom_alu_op_to_z := AluOp_SLTU\<rparr>
      else if f = AluFunc_XOR then c\<lparr>rom_alu_op_to_z := AluOp_XOR\<rparr>
      else if f = AluFunc_SRL then c\<lparr>rom_alu_op_to_z := AluOp_SRL\<rparr>
      else if f = AluFunc_SRA then c\<lparr>rom_alu_op_to_z := AluOp_SRA\<rparr>
      else if f = AluFunc_OR then c\<lparr>rom_alu_op_to_z := AluOp_OR\<rparr>
      else if f = AluFunc_AND then c\<lparr>rom_alu_op_to_z := AluOp_AND\<rparr>
      else c)"

definition rom_handle_op_imm :: "rom_in \<Rightarrow> rom_out \<Rightarrow> rom_out" where
  "rom_handle_op_imm r c =
     (if \<not> alu_func_legal (rom_alu_func r) then rom_handle_illegal_instr c
      else next_instr NextPC_PC_PLUS_4
             (rom_alu_func_switch (rom_alu_func r)
                (c\<lparr>rom_reg_to_x := True, x_reg_select := InstrReg_RS1,
                   y_mux_select := SeqMuxSelect_IMM, z_reg_select := InstrReg_RD\<rparr>)))"

definition rom_handle_op :: "rom_in \<Rightarrow> rom_out \<Rightarrow> rom_out" where
  "rom_handle_op r c =
     (if \<not> alu_func_legal (rom_alu_func r) then rom_handle_illegal_instr c
      else next_instr NextPC_PC_PLUS_4
             (rom_alu_func_switch (rom_alu_func r)
                (c\<lparr>rom_reg_to_x := True, x_reg_select := InstrReg_RS1, rom_reg_to_y := True,
                   y_reg_select := InstrReg_RS2, z_reg_select := InstrReg_RD\<rparr>)))"

definition rom_handle_jal :: "rom_in \<Rightarrow> rom_out \<Rightarrow> rom_out" where
  "rom_handle_jal r c =
     (if rom_instr_phase r = 0 then
        c\<lparr>x_mux_select := SeqMuxSelect_PC, y_mux_select := SeqMuxSelect_IMM,
          rom_alu_op_to_z := AluOp_ADD, memaddr_mux_select := SeqMuxSelect_Z,
          rom_next_instr_phase := 1\<rparr>
      else if bit (memaddr_2_lsb r) 1 then
        rom_set_exception ConstSelect_EXC_INSTR_ADDR_MISALIGN SeqMuxSelect_MEMADDR True c
      else next_instr NextPC_MEMADDR_NO_LSB
             (c\<lparr>z_mux_select := SeqMuxSelect_PC_PLUS_4, z_reg_select := InstrReg_RD\<rparr>))"

definition rom_handle_jalr :: "rom_in \<Rightarrow> rom_out \<Rightarrow> rom_out" where
  "rom_handle_jalr r c =
     (if rom_instr_phase r = 0 then
        c\<lparr>rom_reg_to_x := True, x_reg_select := InstrReg_RS1, y_mux_select := SeqMuxSelect_IMM,
          rom_alu_op_to_z := AluOp_ADD, memaddr_mux_select := SeqMuxSelect_Z,
          rom_next_instr_phase := 1\<rparr>
      else if bit (memaddr_2_lsb r) 1 then
        rom_set_exception ConstSelect_EXC_INSTR_ADDR_MISALIGN SeqMuxSelect_MEMADDR_LSB_MASKED
          True c
      else next_instr NextPC_MEMADDR_NO_LSB
             (c\<lparr>z_mux_select := SeqMuxSelect_PC_PLUS_4, z_reg_select := InstrReg_RD\<rparr>))"

definition rom_handle_branch :: "rom_in \<Rightarrow> rom_out \<Rightarrow> rom_out" where
  "rom_handle_branch r c =
     (if rom_instr_phase r = 0 then
        c\<lparr>rom_reg_to_x := True, x_reg_select := InstrReg_RS1, rom_reg_to_y := True,
          y_reg_select := InstrReg_RS2, rom_alu_op_to_z := AluOp_SUB,
          rom_next_instr_phase := 1\<rparr>
      else if rom_instr_phase r = 1 then
        (if rom_funct3 r \<notin> {BranchCond_EQ, BranchCond_NE, BranchCond_LT, BranchCond_GE,
                               BranchCond_LTU, BranchCond_GEU}
         then rom_handle_illegal_instr c
         else
           let c1 = (if rom_branch_cond r then c\<lparr>y_mux_select := SeqMuxSelect_IMM\<rparr>
                     else c\<lparr>rom_const := ConstSelect_SHAMT_4,
                            y_mux_select := SeqMuxSelect_CONST\<rparr>);
               c2 = c1\<lparr>x_mux_select := SeqMuxSelect_PC, rom_alu_op_to_z := AluOp_ADD\<rparr>
           in if data_z_in_2_lsb0 r then next_instr NextPC_Z c2
              else c2\<lparr>rom_next_instr_phase := 2, tmp_mux_select := SeqMuxSelect_Z\<rparr>)
      else rom_set_exception ConstSelect_EXC_INSTR_ADDR_MISALIGN SeqMuxSelect_TMP True c)"

definition rom_handle_load :: "rom_in \<Rightarrow> rom_out \<Rightarrow> rom_out" where
  "rom_handle_load r c =
     (let f = rom_funct3 r; a = memaddr_2_lsb r in
      if rom_instr_phase r = 0 then
        c\<lparr>rom_reg_to_x := True, x_reg_select := InstrReg_RS1, y_mux_select := SeqMuxSelect_IMM,
          rom_alu_op_to_z := AluOp_ADD, memaddr_mux_select := SeqMuxSelect_Z,
          rom_next_instr_phase := 1\<rparr>
      else if rom_instr_phase r = 1 then
        (if (f = MemAccessWidth_H \<or> f = MemAccessWidth_HU) \<and> bit a 0 then
           rom_set_exception ConstSelect_EXC_LOAD_ADDR_MISALIGN SeqMuxSelect_MEMADDR True c
         else if f = MemAccessWidth_W \<and> a \<noteq> 0 then
           rom_set_exception ConstSelect_EXC_LOAD_ADDR_MISALIGN SeqMuxSelect_MEMADDR True c
         else if f \<notin> {MemAccessWidth_B, MemAccessWidth_BU, MemAccessWidth_H,
                        MemAccessWidth_HU, MemAccessWidth_W} then
           rom_handle_illegal_instr c
         else
           let c1 = c\<lparr>rom_mem_rd := True, x_mux_select := SeqMuxSelect_MEMDATA_RD,
                       y_mux_select := SeqMuxSelect_CONST, rom_alu_op_to_z := AluOp_SLL,
                       z_reg_select := InstrReg_RD, rom_next_instr_phase := 2\<rparr>
           in if f = MemAccessWidth_B \<or> f = MemAccessWidth_BU then
                (if a = 0 then c1\<lparr>rom_const := ConstSelect_SHAMT_24\<rparr>
                 else if a = 1 then c1\<lparr>rom_const := ConstSelect_SHAMT_16\<rparr>
                 else if a = 2 then c1\<lparr>rom_const := ConstSelect_SHAMT_8\<rparr>
                 else c1\<lparr>rom_const := ConstSelect_SHAMT_0\<rparr>)
              else if f = MemAccessWidth_H \<or> f = MemAccessWidth_HU then
                (if a = 0 then c1\<lparr>rom_const := ConstSelect_SHAMT_16\<rparr>
                 else if a = 2 then c1\<lparr>rom_const := ConstSelect_SHAMT_0\<rparr>
                 else c1)
              else c1\<lparr>rom_const := ConstSelect_SHAMT_0\<rparr>)
      else
        let c1 = c\<lparr>rom_reg_to_x := True, x_reg_select := InstrReg_RD,
                    y_mux_select := SeqMuxSelect_CONST, z_reg_select := InstrReg_RD\<rparr>;
            c2 = (if f = MemAccessWidth_B then
                    c1\<lparr>rom_const := ConstSelect_SHAMT_24, rom_alu_op_to_z := AluOp_SRA\<rparr>
                  else if f = MemAccessWidth_BU then
                    c1\<lparr>rom_const := ConstSelect_SHAMT_24, rom_alu_op_to_z := AluOp_SRL\<rparr>
                  else if f = MemAccessWidth_H then
                    c1\<lparr>rom_const := ConstSelect_SHAMT_16, rom_alu_op_to_z := AluOp_SRA\<rparr>
                  else if f = MemAccessWidth_HU then
                    c1\<lparr>rom_const := ConstSelect_SHAMT_16, rom_alu_op_to_z := AluOp_SRL\<rparr>
                  else if f = MemAccessWidth_W then
                    c1\<lparr>rom_const := ConstSelect_SHAMT_0, rom_alu_op_to_z := AluOp_SRL\<rparr>
                  else c1)
        in next_instr NextPC_PC_PLUS_4 c2)"

definition rom_handle_store :: "rom_in \<Rightarrow> rom_out \<Rightarrow> rom_out" where
  "rom_handle_store r c =
     (let f = rom_funct3 r; a = memaddr_2_lsb r in
      if rom_instr_phase r = 0 then
        c\<lparr>rom_reg_to_x := True, x_reg_select := InstrReg_RS1, y_mux_select := SeqMuxSelect_IMM,
          rom_alu_op_to_z := AluOp_ADD, memaddr_mux_select := SeqMuxSelect_Z,
          rom_next_instr_phase := 1\<rparr>
      else if rom_instr_phase r = 1 then
        (if f = MemAccessWidth_H \<and> bit a 0 then
           rom_set_exception ConstSelect_EXC_STORE_AMO_ADDR_MISALIGN SeqMuxSelect_MEMADDR True c
         else if f = MemAccessWidth_W \<and> a \<noteq> 0 then
           rom_set_exception ConstSelect_EXC_STORE_AMO_ADDR_MISALIGN SeqMuxSelect_MEMADDR True c
         else if f \<notin> {MemAccessWidth_B, MemAccessWidth_H, MemAccessWidth_W} then
           rom_handle_illegal_instr c
         else
           let c1 = c\<lparr>rom_reg_to_x := True, x_reg_select := InstrReg_RS2,
                       y_mux_select := SeqMuxSelect_CONST, rom_alu_op_to_z := AluOp_SLL,
                       memdata_wr_mux_select := SeqMuxSelect_Z, rom_next_instr_phase := 2\<rparr>
           in if f = MemAccessWidth_B then
                (if a = 0 then c1\<lparr>rom_const := ConstSelect_SHAMT_0\<rparr>
                 else if a = 1 then c1\<lparr>rom_const := ConstSelect_SHAMT_8\<rparr>
                 else if a = 2 then c1\<lparr>rom_const := ConstSelect_SHAMT_16\<rparr>
                 else c1\<lparr>rom_const := ConstSelect_SHAMT_24\<rparr>)
              else if f = MemAccessWidth_H then
                (if a = 0 then c1\<lparr>rom_const := ConstSelect_SHAMT_0\<rparr>
                 else if a = 2 then c1\<lparr>rom_const := ConstSelect_SHAMT_16\<rparr>
                 else c1)
              else c1\<lparr>rom_const := ConstSelect_SHAMT_0\<rparr>)
      else
        let c1 = (if f = MemAccessWidth_B then
                    (if a = 0 then c\<lparr>rom_mem_wr_mask := 1\<rparr>
                     else if a = 1 then c\<lparr>rom_mem_wr_mask := 2\<rparr>
                     else if a = 2 then c\<lparr>rom_mem_wr_mask := 4\<rparr>
                     else c\<lparr>rom_mem_wr_mask := 8\<rparr>)
                  else if f = MemAccessWidth_H then
                    (if a = 0 then c\<lparr>rom_mem_wr_mask := 3\<rparr>
                     else if a = 2 then c\<lparr>rom_mem_wr_mask := 12\<rparr>
                     else c)
                  else if f = MemAccessWidth_W then c\<lparr>rom_mem_wr_mask := 15\<rparr>
                  else c)
        in next_instr NextPC_PC_PLUS_4 (c1\<lparr>rom_mem_wr := True\<rparr>))"

text \<open>The second phase of every CSR instruction of the ROM.\<close>

definition rom_csr_phase1 :: "rom_out \<Rightarrow> rom_out" where
  "rom_csr_phase1 c =
     next_instr NextPC_PC_PLUS_4
       (c\<lparr>z_mux_select := SeqMuxSelect_TMP, z_reg_select := InstrReg_RD\<rparr>)"

definition rom_handle_CSRRW :: "rom_in \<Rightarrow> rom_out \<Rightarrow> rom_out" where
  "rom_handle_CSRRW r c =
     (let c0 = c\<lparr>rom_funct12_to_csr_num := True\<rparr> in
      if rom_instr_phase r = 0 then
        (if rd0 r then c0\<lparr>x_reg_select := InstrReg_ZERO, rom_reg_to_x := True\<rparr>
         else c0\<lparr>rom_csr_to_x := True\<rparr>)
          \<lparr>y_reg_select := InstrReg_RS1, rom_reg_to_y := True, rom_alu_op_to_z := AluOp_Y,
           rom_z_to_csr := True, tmp_mux_select := SeqMuxSelect_X, rom_next_instr_phase := 1\<rparr>
      else rom_csr_phase1 c0)"

definition rom_handle_CSRRWI :: "rom_in \<Rightarrow> rom_out \<Rightarrow> rom_out" where
  "rom_handle_CSRRWI r c =
     (let c0 = c\<lparr>rom_funct12_to_csr_num := True\<rparr> in
      if rom_instr_phase r = 0 then
        (if rd0 r then c0\<lparr>x_reg_select := InstrReg_ZERO, rom_reg_to_x := True\<rparr>
         else c0\<lparr>rom_csr_to_x := True\<rparr>)
          \<lparr>y_mux_select := SeqMuxSelect_IMM, rom_alu_op_to_z := AluOp_Y,
           rom_z_to_csr := True, tmp_mux_select := SeqMuxSelect_X, rom_next_instr_phase := 1\<rparr>
      else rom_csr_phase1 c0)"

definition rom_handle_CSRRS :: "rom_in \<Rightarrow> rom_out \<Rightarrow> rom_out" where
  "rom_handle_CSRRS r c =
     (let c0 = c\<lparr>rom_funct12_to_csr_num := True\<rparr> in
      if rom_instr_phase r = 0 then
        c0\<lparr>rom_csr_to_x := True, y_reg_select := InstrReg_RS1, rom_reg_to_y := True,
           rom_alu_op_to_z := AluOp_OR, rom_z_to_csr := (\<not> rs1_0 r),
           tmp_mux_select := SeqMuxSelect_X, rom_next_instr_phase := 1\<rparr>
      else rom_csr_phase1 c0)"

definition rom_handle_CSRRSI :: "rom_in \<Rightarrow> rom_out \<Rightarrow> rom_out" where
  "rom_handle_CSRRSI r c =
     (let c0 = c\<lparr>rom_funct12_to_csr_num := True\<rparr> in
      if rom_instr_phase r = 0 then
        c0\<lparr>rom_csr_to_x := True, y_mux_select := SeqMuxSelect_IMM,
           rom_alu_op_to_z := AluOp_OR, rom_z_to_csr := (\<not> imm0 r),
           tmp_mux_select := SeqMuxSelect_X, rom_next_instr_phase := 1\<rparr>
      else rom_csr_phase1 c0)"

definition rom_handle_CSRRC :: "rom_in \<Rightarrow> rom_out \<Rightarrow> rom_out" where
  "rom_handle_CSRRC r c =
     (let c0 = c\<lparr>rom_funct12_to_csr_num := True\<rparr> in
      if rom_instr_phase r = 0 then
        c0\<lparr>rom_csr_to_x := True, y_reg_select := InstrReg_RS1, rom_reg_to_y := True,
           rom_alu_op_to_z := AluOp_AND_NOT, rom_z_to_csr := (\<not> rs1_0 r),
           tmp_mux_select := SeqMuxSelect_X, rom_next_instr_phase := 1\<rparr>
      else rom_csr_phase1 c0)"

definition rom_handle_CSRRCI :: "rom_in \<Rightarrow> rom_out \<Rightarrow> rom_out" where
  "rom_handle_CSRRCI r c =
     (let c0 = c\<lparr>rom_funct12_to_csr_num := True\<rparr> in
      if rom_instr_phase r = 0 then
        c0\<lparr>rom_csr_to_x := True, y_mux_select := SeqMuxSelect_IMM,
           rom_alu_op_to_z := AluOp_AND_NOT, rom_z_to_csr := (\<not> imm0 r),
           tmp_mux_select := SeqMuxSelect_X, rom_next_instr_phase := 1\<rparr>
      else rom_csr_phase1 c0)"

definition rom_handle_csrs :: "rom_in \<Rightarrow> rom_out \<Rightarrow> rom_out" where
  "rom_handle_csrs r c =
     (let f = rom_funct3 r in
      if f = SystemFunc_CSRRW then rom_handle_CSRRW r c
      else if f = SystemFunc_CSRRWI then rom_handle_CSRRWI r c
      else if f = SystemFunc_CSRRS then rom_handle_CSRRS r c
      else if f = SystemFunc_CSRRSI then rom_handle_CSRRSI r c
      else if f = SystemFunc_CSRRC then rom_handle_CSRRC r c
      else if f = SystemFunc_CSRRCI then rom_handle_CSRRCI r c
      else rom_handle_illegal_instr c)"

definition rom_handle_MRET :: "rom_out \<Rightarrow> rom_out" where
  "rom_handle_MRET c =
     next_instr NextPC_X
       (c\<lparr>rom_mepc_num_to_csr_num := True, rom_csr_to_x := True, exit_trap := True\<rparr>)"

definition rom_handle_ECALL :: "rom_out \<Rightarrow> rom_out" where
  "rom_handle_ECALL c =
     rom_set_exception ConstSelect_EXC_ECALL_FROM_MACH_MODE SeqMuxSelect_PC False c"

definition rom_handle_EBREAK :: "rom_out \<Rightarrow> rom_out" where
  "rom_handle_EBREAK c =
     rom_set_exception ConstSelect_EXC_BREAKPOINT SeqMuxSelect_PC False c"

text \<open>\<open>elaborate\<close> of the ROM: the outputs for one address.\<close>

definition rom :: "rom_in \<Rightarrow> rom_out" where
  "rom r =
     (if enable_sequencer_rom r then
        (case opcode_select r of
           OpcodeSelect_LUI \<Rightarrow> rom_handle_lui rom_defaults
         | OpcodeSelect_AUIPC \<Rightarrow> rom_handle_auipc rom_defaults
         | OpcodeSelect_OP_IMM \<Rightarrow> rom_handle_op_imm r rom_defaults
         | OpcodeSelect_OP \<Rightarrow> rom_handle_op r rom_defaults
         | OpcodeSelect_JAL \<Rightarrow> rom_handle_jal r rom_defaults
         | OpcodeSelect_JALR \<Rightarrow> rom_handle_jalr r rom_defaults
         | OpcodeSelect_BRANCH \<Rightarrow> rom_handle_branch r rom_defaults
         | OpcodeSelect_LOAD \<Rightarrow> rom_handle_load r rom_defaults
         | OpcodeSelect_STORE \<Rightarrow> rom_handle_store r rom_defaults
         | OpcodeSelect_CSRS \<Rightarrow> rom_handle_csrs r rom_defaults
         | OpcodeSelect_MRET \<Rightarrow> rom_handle_MRET rom_defaults
         | OpcodeSelect_ECALL \<Rightarrow> rom_handle_ECALL rom_defaults
         | OpcodeSelect_EBREAK \<Rightarrow> rom_handle_EBREAK rom_defaults
         | OpcodeSelect_NONE \<Rightarrow> rom_handle_illegal_instr rom_defaults)
      else rom_defaults)"

section \<open>The cards around the sequencer\<close>

text \<open>Modelled from the spec: the ALU card is not among the sources. It consumes the
  operation tag \<open>alu_op_to_z\<close> and the operands on X and Y and produces the result on Z:
  \<open>ADD\<close>, \<open>SUB\<close>, the shifts (by the low five bits of Y), the comparisons, the logic
  operations, \<open>X\<close> and \<open>Y\<close> (pass an operand) and \<open>AND_NOT\<close> (\<open>X & ~Y\<close>).\<close>

fun alu :: "AluOp \<Rightarrow> u32 \<Rightarrow> u32 \<Rightarrow> u32" where
  "alu AluOp_NONE x y = 0"
| "alu AluOp_ADD x y = x + y"
| "alu AluOp_SUB x y = x - y"
| "alu AluOp_SLL x y = push_bit (unat (take_bit 5 y)) x"
| "alu AluOp_SLT x y = (if sint x < sint y then 1 else 0)"
| "alu AluOp_SLTU x y = (if x < y then 1 else 0)"
| "alu AluOp_XOR x y = x XOR y"
| "alu AluOp_SRL x y = drop_bit (unat (take_bit 5 y)) x"
| "alu AluOp_SRA x y = signed_drop_bit (unat (take_bit 5 y)) x"
| "alu AluOp_OR x y = x OR y"
| "alu AluOp_AND x y = x AND y"
| "alu AluOp_X x y = x"
| "alu AluOp_Y x y = y"
| "alu AluOp_AND_NOT x y = x AND NOT y"

text \<open>Modelled from the spec: the register file and the buses are not among the sources.
  X and Y carry the register the sequencer selects (\<open>reg_to_x\<close>, \<open>reg_to_y\<close>) or else what
  the sequencer drives; Z carries the result of the ALU when an operation is selected and
  else what the sequencer drives. \<open>wired i s regs\<close> says that the inputs \<open>i\<close> of a cycle
  are the values of the buses for the signals of that cycle and the registers \<open>regs\<close>.\<close>

definition buses_wired :: "signals \<Rightarrow> card_in \<Rightarrow> (5 word \<Rightarrow> u32) \<Rightarrow> bool" where
  "buses_wired c i regs =
     (data_x_in i = (if reg_to_x c then regs (x_reg c) else data_x_out c)
      \<and> data_y_in i = (if reg_to_y c then regs (y_reg c) else data_y_out c)
      \<and> data_z_in i = (if alu_op_to_z c = AluOp_NONE then data_z_out c
                        else alu (alu_op_to_z c) (data_x_in i) (data_y_in i)))"

definition wired :: "card_in \<Rightarrow> SequencerState \<Rightarrow> (5 word \<Rightarrow> u32) \<Rightarrow> bool" where
  "wired i s regs = buses_wired (card_signals i s) i regs"

text \<open>Modelled from the spec: the register file takes the value on Z into register
  \<open>z_reg\<close> at the end of the cycle; \<open>z_reg = 0\<close> writes nothing, register 0 being the
  zero sink.\<close>

definition regfile_write :: "signals \<Rightarrow> card_in \<Rightarrow> (5 word \<Rightarrow> u32) \<Rightarrow> (5 word \<Rightarrow> u32)" where
  "regfile_write c i regs = (if z_reg c = 0 then regs else regs(z_reg c := data_z_in i))"

text \<open>Modelled from the spec: the multiplexer cards the ROM steers are not among the
  sources. Each member of \<open>SeqMuxSelect\<close> names the register or constant it puts on the
  bus; X, Y and Z stand for the bus itself.\<close>

record datapath =
  dp_pc :: u32
  dp_memaddr :: u32
  dp_memdata_rd :: u32
  dp_memdata_wr :: u32
  dp_tmp :: u32
  dp_imm :: u32
  dp_instr :: u32
  dp_mtvec :: u32
  dp_x :: u32
  dp_y :: u32
  dp_z :: u32

fun mux_value :: "datapath \<Rightarrow> ConstSelect \<Rightarrow> SeqMuxSelect \<Rightarrow> u32" where
  "mux_value d k SeqMuxSelect_MEMDATA_WR = dp_memdata_wr d"
| "mux_value d k SeqMuxSelect_MEMDATA_RD = dp_memdata_rd d"
| "mux_value d k SeqMuxSelect_MEMADDR = dp_memaddr d"
| "mux_value d k SeqMuxSelect_MEMADDR_LSB_MASKED = dp_memaddr d AND 0xFFFFFFFE"
| "mux_value d k SeqMuxSelect_PC = dp_pc d"
| "mux_value d k SeqMuxSelect_PC_PLUS_4 = dp_pc d + 4"
| "mux_value d k SeqMuxSelect_MTVEC = dp_mtvec d"
| "mux_value d k SeqMuxSelect_MTVEC_LSR2 = drop_bit 2 (dp_mtvec d)"
| "mux_value d k SeqMuxSelect_TMP = dp_tmp d"
| "mux_value d k SeqMuxSelect_IMM = dp_imm d"
| "mux_value d k SeqMuxSelect_INSTR = dp_instr d"
| "mux_value d k SeqMuxSelect_X = dp_x d"
| "mux_value d k SeqMuxSelect_Y = dp_y d"
| "mux_value d k SeqMuxSelect_Z = dp_z d"
| "mux_value d k SeqMuxSelect_Z_LSL2 = push_bit 2 (dp_z d)"
| "mux_value d k SeqMuxSelect_CONST = const_value k"

text \<open>Modelled from the spec: the exception card is not among the sources. When
  \<open>save_trap_csrs\<close> is raised it stores X in \<open>mcause\<close>, Y in \<open>mepc\<close> and Z in \<open>mtval\<close>,
  as the comment in \<open>set_exception\<close> of the ROM says.\<close>

record trap_csrs =
  saved_mcause :: u32
  saved_mepc :: u32
  saved_mtval :: u32

definition save_trap :: "datapath \<Rightarrow> rom_out \<Rightarrow> trap_csrs \<Rightarrow> trap_csrs" where
  "save_trap d c t =
     (if save_trap_csrs c then
        \<lparr>saved_mcause = mux_value d (rom_const c) (x_mux_select c),
         saved_mepc = mux_value d (rom_const c) (y_mux_select c),
         saved_mtval = mux_value d (rom_const c) (z_mux_select c)\<rparr>
      else t)"

section \<open>Notions used in the statements\<close>

text \<open>\<open>executes i s w\<close>: in the cycle with registers \<open>s\<close> and inputs \<open>i\<close> the card
  executes the instruction word \<open>w\<close>: no trap is being entered, the PC is aligned, the
  latch presents \<open>w\<close>, and \<open>w\<close> is neither of the two patterns \<open>elaborate\<close> rejects
  before it looks at the opcode.\<close>

definition executes :: "card_in \<Rightarrow> SequencerState \<Rightarrow> u32 \<Rightarrow> bool" where
  "executes i s w =
     (\<not> trap s \<and> slice 0 2 (pc s) = 0 \<and> cur_instr i s = w
      \<and> slice 0 16 w \<noteq> 0 \<and> w \<noteq> 0xFFFFFFFF)"

text \<open>\<open>fatal_by_cause c\<close>: when the ROM raises an exception, it is marked fatal exactly
  when its cause is neither ECALL nor BREAKPOINT.\<close>

definition fatal_by_cause :: "rom_out \<Rightarrow> bool" where
  "fatal_by_cause c = (next_exception c \<longrightarrow>
     next_fatal c = (rom_const c \<noteq> ConstSelect_EXC_ECALL_FROM_MACH_MODE
                     \<and> rom_const c \<noteq> ConstSelect_EXC_BREAKPOINT))"

text \<open>\<open>csr_read_only w\<close>: \<open>w\<close> is CSRRS or CSRRC with \<open>rs1 = x0\<close>, or CSRRSI or CSRRCI
  with a zero immediate. \<open>rom_csr_read_only r\<close>: the same for the address lines of the ROM.\<close>

definition csr_read_only :: "u32 \<Rightarrow> bool" where
  "csr_read_only w =
     (opcode w = Opcode_SYSTEM
      \<and> ((funct3 w \<in> {SystemFunc_CSRRS, SystemFunc_CSRRC} \<and> rs1 w = 0)
         \<or> (funct3 w \<in> {SystemFunc_CSRRSI, SystemFunc_CSRRCI}
            \<and> decode_imm OpcodeFormat_SYS w = 0)))"

definition rom_csr_read_only :: "rom_in \<Rightarrow> bool" where
  "rom_csr_read_only r =
     (enable_sequencer_rom r \<and> opcode_select r = OpcodeSelect_CSRS
      \<and> ((rom_funct3 r \<in> {SystemFunc_CSRRS, SystemFunc_CSRRC} \<and> rs1_0 r)
         \<or> (rom_funct3 r \<in> {SystemFunc_CSRRSI, SystemFunc_CSRRCI} \<and> imm0 r)))"

text \<open>\<open>csrrs x1, mtvec, x0\<close> (\<open>0x305020F3\<close>) fetched at PC \<open>0x100\<close> with
  \<open>mtvec = 0x80\<close>, in its two phases, and the address lines of the ROM for it.\<close>

definition st_csrrs :: SequencerState where
  "st_csrrs = reset_state\<lparr>pc := 0x100, memaddr := 0x100, mtvec := 0x80\<rparr>"

definition in_csrrs :: card_in where
  "in_csrrs = quiet_in\<lparr>memdata_rd := 0x305020F3, data_x_in := 0x80, data_z_in := 0x80\<rparr>"

definition st_csrrs1 :: SequencerState where
  "st_csrrs1 = st_csrrs\<lparr>instr := 0x305020F3, instr_phase := 1, tmp := 0x80\<rparr>"

definition in_csrrs1 :: card_in where
  "in_csrrs1 = quiet_in\<lparr>data_z_in := 0x80\<rparr>"

definition rom_in_csrrs :: rom_in where
  "rom_in_csrrs = \<lparr>enable_sequencer_rom = True, memaddr_2_lsb = 0, rom_branch_cond = False,
     rom_instr_phase = 0, data_z_in_2_lsb0 = True, imm0 = True, rd0 = False, rs1_0 = True,
     opcode_select = OpcodeSelect_CSRS, rom_funct3 = SystemFunc_CSRRS, rom_alu_func = 2\<rparr>"

text \<open>\<open>lw x5, 1(x0)\<close> (\<open>0x00102283\<close>) in phase 1, its address 1 in \<open>memaddr\<close>; the two
  cycles of trap entry that follow it; and the inputs of those cycles: the vector address
  \<open>0x80\<close> on X and Z, then the word \<open>0x400\<close> read from memory.\<close>

definition st_lw1 :: SequencerState where
  "st_lw1 = reset_state\<lparr>pc := 0x100, memaddr := 1, instr := 0x00102283, instr_phase := 1,
     mtvec := 0x80\<rparr>"

definition in_vec :: card_in where
  "in_vec = quiet_in\<lparr>data_x_in := 0x80, data_z_in := 0x80\<rparr>"

definition in_handler :: card_in where
  "in_handler = quiet_in\<lparr>memdata_rd := 0x400\<rparr>"

definition st_lw_trap0 :: SequencerState where
  "st_lw_trap0 = card_cycle quiet_in st_lw1"

definition st_lw_trap1 :: SequencerState where
  "st_lw_trap1 = card_cycle in_vec st_lw_trap0"

text \<open>The inputs of phase 0 of the entry of a timer interrupt with \<open>mtvec = 0x81\<close>: the
  base \<open>0x80\<close> on X, the offset \<open>4 * 7\<close> on Y, their sum on Z.\<close>

definition in_vec_timer :: card_in where
  "in_vec_timer = quiet_in\<lparr>data_x_in := 0x80, data_y_in := 0x1C, data_z_in := 0x9C\<rparr>"

text \<open>The address lines of the ROM for a word load in phase 1 with \<open>memaddr[1:0] = 1\<close>.\<close>

definition rom_in_lw_misaligned :: rom_in where
  "rom_in_lw_misaligned = \<lparr>enable_sequencer_rom = True, memaddr_2_lsb = 1,
     rom_branch_cond = False, rom_instr_phase = 1, data_z_in_2_lsb0 = True, imm0 = False,
     rd0 = False, rs1_0 = True, opcode_select = OpcodeSelect_LOAD,
     rom_funct3 = MemAccessWidth_W, rom_alu_func = 2\<rparr>"

text \<open>MRET (\<open>0x30200073\<close>) fetched at \<open>0x400\<close> inside a trap handler, with
  \<open>mepc = 0x104\<close> and MPIE set; and ECALL (\<open>0x00000073\<close>) fetched at \<open>0x300\<close>. The
  address lines of the ROM and the data path for the same two instructions.\<close>

definition st_mret :: SequencerState where
  "st_mret = reset_state\<lparr>pc := 0x400, memaddr := 0x400, mepc := 0x104, mstatus := 0x80,
     trap_svc := True\<rparr>"

definition in_mret :: card_in where
  "in_mret = quiet_in\<lparr>memdata_rd := 0x30200073, data_x_in := 0x104\<rparr>"

definition st_ecall :: SequencerState where
  "st_ecall = reset_state\<lparr>pc := 0x300, memaddr := 0x300, mtvec := 0x80\<rparr>"

definition in_ecall :: card_in where
  "in_ecall = quiet_in\<lparr>memdata_rd := 0x00000073\<rparr>"

definition rom_in_mret :: rom_in where
  "rom_in_mret = \<lparr>enable_sequencer_rom = True, memaddr_2_lsb = 0, rom_branch_cond = False,
     rom_instr_phase = 0, data_z_in_2_lsb0 = True, imm0 = True, rd0 = True, rs1_0 = True,
     opcode_select = OpcodeSelect_MRET, rom_funct3 = 0, rom_alu_func = 0\<rparr>"

definition rom_in_ecall :: rom_in where
  "rom_in_ecall = rom_in_mret\<lparr>opcode_select := OpcodeSelect_ECALL\<rparr>"

definition rom_in_ebreak :: rom_in where
  "rom_in_ebreak = rom_in_mret\<lparr>opcode_select := OpcodeSelect_EBREAK\<rparr>"

definition dp_ecall :: datapath where
  "dp_ecall = \<lparr>dp_pc = 0x300, dp_memaddr = 0x300, dp_memdata_rd = 0x00000073,
     dp_memdata_wr = 0, dp_tmp = 0, dp_imm = 0, dp_instr = 0x00000073, dp_mtvec = 0x80,
     dp_x = 0, dp_y = 0, dp_z = 0\<rparr>"

definition no_trap_csrs :: trap_csrs where
  "no_trap_csrs = \<lparr>saved_mcause = 0, saved_mepc = 0, saved_mtval = 0\<rparr>"

text \<open>\<open>jalr x0, 0(x1)\<close> (\<open>0x00008067\<close>) fetched at \<open>0x100\<close> with \<open>x1 = 0x200\<close>: X
  carries \<open>x1\<close>, Y the immediate the card decodes, Z their sum.\<close>

definition st_jalr :: SequencerState where
  "st_jalr = reset_state\<lparr>pc := 0x100, memaddr := 0x100\<rparr>"

definition in_jalr :: card_in where
  "in_jalr = quiet_in\<lparr>memdata_rd := 0x00008067, data_x_in := 0x200, data_y_in := 0x8000,
     data_z_in := 0x8200\<rparr>"

definition regs_ra :: "5 word \<Rightarrow> u32" where
  "regs_ra r = (if r = 1 then 0x200 else 0)"

text \<open>Phase 1 of \<open>lw x5, 1(x0)\<close> with the word \<open>0x11223344\<close> on the memory bus, and of
  \<open>sw x5, 1(x0)\<close> (\<open>0x005020A3\<close>), both with \<open>memaddr = 1\<close>.\<close>

definition in_lw1 :: card_in where
  "in_lw1 = quiet_in\<lparr>memdata_rd := 0x11223344, data_x_in := 0x11223344,
     data_z_in := 0x11223344\<rparr>"

definition st_sw1 :: SequencerState where
  "st_sw1 = st_lw1\<lparr>instr := 0x005020A3\<rparr>"

definition rom_in_sw_misaligned :: rom_in where
  "rom_in_sw_misaligned = rom_in_lw_misaligned\<lparr>opcode_select := OpcodeSelect_STORE\<rparr>"

text \<open>Phase 1 of \<open>beq x0, x0, +2\<close> (\<open>0x00000163\<close>) at \<open>0x100\<close>, the comparison of phase 0
  having found equality: X carries the PC, Y the immediate, Z the target \<open>0x102\<close>. The
  address lines of the ROM in phases 1 and 2 of the same branch, and the data path in
  phase 2, with the target in \<open>tmp\<close>.\<close>

definition st_beq1 :: SequencerState where
  "st_beq1 = reset_state\<lparr>pc := 0x100, memaddr := 0x100, instr := 0x00000163,
     instr_phase := 1, stored_alu_eq := True\<rparr>"

definition in_beq1 :: card_in where
  "in_beq1 = quiet_in\<lparr>data_x_in := 0x100, data_y_in := 2, data_z_in := 0x102\<rparr>"

definition rom_in_beq1 :: rom_in where
  "rom_in_beq1 = \<lparr>enable_sequencer_rom = True, memaddr_2_lsb = 0, rom_branch_cond = True,
     rom_instr_phase = 1, data_z_in_2_lsb0 = False, imm0 = False, rd0 = False, rs1_0 = True,
     opcode_select = OpcodeSelect_BRANCH, rom_funct3 = BranchCond_EQ, rom_alu_func = 0\<rparr>"

definition rom_in_beq2 :: rom_in where
  "rom_in_beq2 = rom_in_beq1\<lparr>rom_instr_phase := 2\<rparr>"

definition dp_beq2 :: datapath where
  "dp_beq2 = \<lparr>dp_pc = 0x100, dp_memaddr = 0x100, dp_memdata_rd = 0,
     dp_memdata_wr = 0, dp_tmp = 0x102, dp_imm = 2, dp_instr = 0x00000163, dp_mtvec = 0x80,
     dp_x = 0, dp_y = 0, dp_z = 0\<rparr>"

text \<open>\<open>csrrw x2, mie, x1\<close> (\<open>0x30409173\<close>) with \<open>x1 = 5\<close>, fetched at \<open>0x100\<close>,
  and \<open>csrrs x3, mie, x0\<close> (\<open>0x304021F3\<close>), which reads \<open>mie\<close> back after the first
  one has completed.\<close>

definition regs_x1 :: "5 word \<Rightarrow> u32" where
  "regs_x1 r = (if r = 1 then 5 else 0)"

text \<open>A state with a different value in each CSR, and the inputs of phase 0 of the
  CSRRW \<open>w\<close> that finds \<open>x\<close> on X and writes 5.\<close>

definition st_csrs :: SequencerState where
  "st_csrs = reset_state\<lparr>pc := 0x100, memaddr := 0x100, mtvec := 0x80, mcause := 0x42,
     mepc := 0x41, mtval := 0x43, mstatus := 0x80\<rparr>"

definition in_csrrw :: "u32 \<Rightarrow> u32 \<Rightarrow> card_in" where
  "in_csrrw w x = quiet_in\<lparr>memdata_rd := w, data_x_in := x, data_y_in := 5, data_z_in := 5\<rparr>"

definition in_csrrw_mie :: card_in where
  "in_csrrw_mie = quiet_in\<lparr>memdata_rd := 0x30409173, data_y_in := 5, data_z_in := 5\<rparr>"

definition st_mie_written :: SequencerState where
  "st_mie_written = card_cycle quiet_in (card_cycle in_csrrw_mie st_csrrs)"

definition in_csrrs_mie :: card_in where
  "in_csrrs_mie = quiet_in\<lparr>memdata_rd := 0x304021F3\<rparr>"

text \<open>\<open>csrrs x1, mtval, x0\<close> (\<open>0x343020F3\<close>) fetched at \<open>0x100\<close> with \<open>mtval = 0x55\<close> and
  MIE set; the timer interrupt line rises during its second phase.\<close>

definition st_csrrs_mtval :: SequencerState where
  "st_csrrs_mtval = reset_state\<lparr>pc := 0x100, memaddr := 0x100, mtval := 0x55, mstatus := 8\<rparr>"

definition in_csrrs_mtval :: card_in where
  "in_csrrs_mtval = quiet_in\<lparr>memdata_rd := 0x343020F3, data_x_in := 0x55, data_z_in := 0x55\<rparr>"

definition st_csrrs_mtval1 :: SequencerState where
  "st_csrrs_mtval1 = card_cycle in_csrrs_mtval st_csrrs_mtval"

definition in_csrrs_irq :: card_in where
  "in_csrrs_irq = quiet_in\<lparr>time_irq := True, data_z_in := 0x55\<rparr>"

section \<open>Properties of the sequencer card\<close>

subsection \<open>The stages of elaboration as record updates\<close>

lemma z_mux_upd: "z_mux s c = c\<lparr>data_z_out :=
   (if pc_plus_4_to_z c then pc s + 4 else if tmp_to_z c then tmp s else data_z_out c)\<rparr>"
  by (simp add: z_mux_def)

lemma y_mux_upd: "y_mux c = c\<lparr>data_y_out :=
   (if imm_to_y c then imm c else if shamt_to_y c then ucast (shamt c) else data_y_out c)\<rparr>"
  by (simp add: y_mux_def)

lemma csr_to_x_switch_upd:
  "csr_to_x_switch s c = c\<lparr>data_x_out := csr_value s (csr_num c) (data_x_out c)\<rparr>"
  by (simp add: csr_to_x_switch_def csr_value_def Let_def)

lemma x_mux_upd: "x_mux s i c = c\<lparr>data_x_out :=
   (if pc_to_x c then pc s else if memdata_to_x c then memdata_rd i
    else if csr_to_x c then csr_value s (csr_num c) (data_x_out c) else data_x_out c)\<rparr>"
  by (simp add: x_mux_def csr_to_x_switch_upd)

lemma csr_num_mux_upd: "csr_num_mux s c = c\<lparr>csr_num :=
   (if funct12_to_csr_num c then funct12 (instr s)
    else if mepc_num_to_csr_num c then CSRAddr_MEPC else csr_num c)\<rparr>"
  by (simp add: csr_num_mux_def)

lemma last_instr_cycle_upd: "last_instr_cycle m c = c\<lparr>
   instr_complete := (if is_last_instr_cycle c then m else instr_complete c),
   pc_plus_4_to_pc := (if is_last_instr_cycle c \<and> \<not> x_to_pc c \<and> \<not> z_to_pc c
                          \<and> \<not> memaddr_to_pc c \<and> \<not> memdata_to_pc c
                       then True else pc_plus_4_to_pc c),
   pc_plus_4_to_memaddr := (if is_last_instr_cycle c \<and> \<not> x_to_memaddr c
                          \<and> \<not> z_to_memaddr c \<and> \<not> memdata_to_memaddr c
                       then True else pc_plus_4_to_memaddr c)\<rparr>"
  by (simp add: last_instr_cycle_def Let_def)

lemma fetch_or_interrupt_upd:
  "\<not> instr_misalign s \<Longrightarrow> fetch_or_interrupt s i c = c\<lparr>
     next_instr_phase := (if is_interrupted s i c then 0 else next_instr_phase c),
     load_instr := (if \<not> is_interrupted s i c \<and> instr_phase s = 0 \<and> \<not> trap s then True
                    else load_instr c),
     mem_rd := (if \<not> is_interrupted s i c \<and> instr_phase s = 0 \<and> \<not> trap s then True
                else mem_rd c)\<rparr>"
  by (simp add: fetch_or_interrupt_def)

lemmas elaborate_upd = elaborate_def z_mux_upd y_mux_upd x_mux_upd csr_num_mux_upd
  last_instr_cycle_upd fetch_or_interrupt_upd

lemma handlers_trap: "trap s \<Longrightarrow> handlers s i c = handle_trap s c"
  by (simp add: handlers_def)

lemma not_misalign_trap: "trap s \<Longrightarrow> \<not> instr_misalign s"
  by (simp add: instr_misalign_def)

text \<open>Inside a cycle only \<open>instr\<close>, \<open>exception\<close> and \<open>trap_cause\<close> change.\<close>

lemma after_ph2_frame:
  "pc (after_ph2 i s) = pc s"
  "instr_phase (after_ph2 i s) = instr_phase s"
  "instr (after_ph2 i s) = cur_instr i s"
  "stored_alu_eq (after_ph2 i s) = stored_alu_eq s"
  "stored_alu_lt (after_ph2 i s) = stored_alu_lt s"
  "stored_alu_ltu (after_ph2 i s) = stored_alu_ltu s"
  "memaddr (after_ph2 i s) = memaddr s"
  "memdata_wr (after_ph2 i s) = memdata_wr s"
  "tmp (after_ph2 i s) = tmp s"
  "reg_page (after_ph2 i s) = reg_page s"
  "reg_time_irq (after_ph2 i s) = reg_time_irq s"
  "reg_ext_irq (after_ph2 i s) = reg_ext_irq s"
  "trap (after_ph2 i s) = trap s"
  "trap_svc (after_ph2 i s) = trap_svc s"
  "mtvec (after_ph2 i s) = mtvec s"
  "mcause (after_ph2 i s) = mcause s"
  "mepc (after_ph2 i s) = mepc s"
  "mtval (after_ph2 i s) = mtval s"
  "mstatus (after_ph2 i s) = mstatus s"
  by (simp_all add: after_ph2_def commit_ph2_def latch_instr_def cur_instr_def Let_def)

lemma latch_instr_frame:
  "pc (latch_instr i s) = pc s"
  "instr_phase (latch_instr i s) = instr_phase s"
  "memaddr (latch_instr i s) = memaddr s"
  "reg_time_irq (latch_instr i s) = reg_time_irq s"
  "reg_ext_irq (latch_instr i s) = reg_ext_irq s"
  "trap (latch_instr i s) = trap s"
  "exception (latch_instr i s) = exception s"
  "trap_cause (latch_instr i s) = trap_cause s"
  "mtvec (latch_instr i s) = mtvec s"
  "stored_alu_eq (latch_instr i s) = stored_alu_eq s"
  "stored_alu_lt (latch_instr i s) = stored_alu_lt s"
  "stored_alu_ltu (latch_instr i s) = stored_alu_ltu s"
  "instr (latch_instr i s) = cur_instr i s"
  by (simp_all add: latch_instr_def cur_instr_def)

lemma after_ph2_ph2:
  "exception (after_ph2 i s) =
     (case nx_exception (elaborate (latch_instr i s) i False) of Some b \<Rightarrow> b
      | None \<Rightarrow> exception s)"
  "trap_cause (after_ph2 i s) =
     (case nx_trap_cause (elaborate (latch_instr i s) i False) of Some v \<Rightarrow> v
      | None \<Rightarrow> trap_cause s)"
  by (simp_all add: after_ph2_def commit_ph2_def latch_instr_frame Let_def split: option.split)




subsection \<open>Trap entry\<close>

lemma handle_trap_phase0:
  assumes "instr_phase s = 0"
  shows "handle_trap s c = c\<lparr>
     nx_trap_cause := (if exception s then nx_trap_cause c
                       else if reg_time_irq s then Some TrapCause_INT_MACH_TIMER
                       else if reg_ext_irq s then Some TrapCause_INT_MACH_EXTERNAL
                       else nx_trap_cause c),
     nx_mepc := (if exception s then nx_mepc c else Some (pc s)),
     nx_mcause := Some (trap_cause s),
     nx_reg_time_irq := (if reg_time_irq s then Some False else nx_reg_time_irq c),
     nx_reg_ext_irq := (if \<not> reg_time_irq s \<and> reg_ext_irq s then Some False
                        else nx_reg_ext_irq c),
     data_x_out := mtvec s AND 0xFFFFFFFC,
     data_y_out := (if bit (trap_cause s) 31 \<and> slice 0 2 (mtvec s) = 1
                    then push_bit 2 (slice 0 30 (trap_cause s)) else 0),
     alu_op_to_z := AluOp_ADD, z_to_memaddr := True, next_instr_phase := 1\<rparr>"
  using assms by (simp add: handle_trap_def Let_def)

lemma handle_trap_phase1:
  assumes "instr_phase s \<noteq> 0"
  shows "handle_trap s c =
     (if exception s then c\<lparr>next_instr_phase := 1, fatal := True\<rparr>
      else c\<lparr>mem_rd := True, memdata_to_pc := True, memdata_to_memaddr := True,
             nx_exception := Some False, nx_trap_cause := Some 0,
             nx_trap := Some False, nx_trap_svc := Some True,
             nx_mstatus_MPIE := Some (bit (mstatus s) MStatus_MIE),
             nx_mstatus_MIE := Some False\<rparr>)"
  using assms by (simp add: handle_trap_def)

lemmas trap0_simps = elaborate_upd handlers_trap not_misalign_trap handle_trap_phase0 defaults_def

lemma elaborate_trap0:
  assumes "trap s" "instr_phase s = 0"
  shows "nx_exception (elaborate s i m) = None"
    and "nx_trap_cause (elaborate s i m) =
           (if exception s then None
            else if reg_time_irq s then Some TrapCause_INT_MACH_TIMER
            else if reg_ext_irq s then Some TrapCause_INT_MACH_EXTERNAL else None)"
    and "nx_mcause (elaborate s i m) = Some (trap_cause s)"
    and "nx_mepc (elaborate s i m) = (if exception s then None else Some (pc s))"
    and "nx_trap (elaborate s i m) = None"
    and "z_to_memaddr (elaborate s i m)"
    and "\<not> pc_plus_4_to_memaddr (elaborate s i m)"
    and "\<not> x_to_memaddr (elaborate s i m)"
    and "\<not> reg_to_x (elaborate s i m)"
    and "\<not> reg_to_y (elaborate s i m)"
    and "alu_op_to_z (elaborate s i m) = AluOp_ADD"
    and "data_x_out (elaborate s i m) = mtvec s AND 0xFFFFFFFC"
    and "data_y_out (elaborate s i m) =
           (if bit (trap_cause s) 31 \<and> slice 0 2 (mtvec s) = 1
            then push_bit 2 (slice 0 30 (trap_cause s)) else 0)"
    and "next_instr_phase (elaborate s i m) = 1"
    and "\<not> fatal (elaborate s i m)"
    and "\<not> pc_plus_4_to_pc (elaborate s i m)"
    and "\<not> x_to_pc (elaborate s i m)"
    and "\<not> z_to_pc (elaborate s i m)"
    and "\<not> memaddr_to_pc (elaborate s i m)"
    and "\<not> memdata_to_pc (elaborate s i m)"
    and "\<not> is_interrupted s i (elaborate s i m)"
  using assms by (simp_all add: trap0_simps is_interrupted_def)

lemmas trap1_simps = elaborate_upd handlers_trap not_misalign_trap handle_trap_phase1 defaults_def

lemma elaborate_trap1:
  assumes "trap s" "instr_phase s \<noteq> 0"
  shows "nx_exception (elaborate s i m) = (if exception s then None else Some False)"
    and "nx_trap_cause (elaborate s i m) = (if exception s then None else Some 0)"
    and "nx_trap (elaborate s i m) = (if exception s then None else Some False)"
    and "nx_trap_svc (elaborate s i m) = (if exception s then None else Some True)"
    and "nx_mstatus_MIE (elaborate s i m) = (if exception s then None else Some False)"
    and "nx_mstatus_MPIE (elaborate s i m) =
           (if exception s then None else Some (bit (mstatus s) MStatus_MIE))"
    and "fatal (elaborate s i m) = exception s"
    and "mem_rd (elaborate s i m) = (\<not> exception s)"
    and "memdata_to_pc (elaborate s i m) = (\<not> exception s)"
    and "memdata_to_memaddr (elaborate s i m) = (\<not> exception s)"
    and "next_instr_phase (elaborate s i m) = (if exception s then 1 else 0)"
    and "\<not> pc_plus_4_to_pc (elaborate s i m)"
    and "\<not> x_to_pc (elaborate s i m)"
    and "\<not> z_to_pc (elaborate s i m)"
    and "\<not> memaddr_to_pc (elaborate s i m)"
    and "\<not> pc_plus_4_to_memaddr (elaborate s i m)"
    and "\<not> x_to_memaddr (elaborate s i m)"
    and "\<not> z_to_memaddr (elaborate s i m)"
    and "\<not> z_to_csr (elaborate s i m)"
    and "\<not> is_interrupted s i (elaborate s i m)"
  using assms by (simp_all add: trap1_simps is_interrupted_def)

lemma after_ph2_trap0:
  assumes "trap s" "instr_phase s = 0"
  shows "exception (after_ph2 i s) = exception s"
    and "trap_cause (after_ph2 i s) =
           (if exception s then trap_cause s
            else if reg_time_irq s then TrapCause_INT_MACH_TIMER
            else if reg_ext_irq s then TrapCause_INT_MACH_EXTERNAL else trap_cause s)"
proof -
  have t: "trap (latch_instr i s)" "instr_phase (latch_instr i s) = 0"
    using assms by (simp_all add: latch_instr_frame)
  show "exception (after_ph2 i s) = exception s"
    by (simp add: after_ph2_ph2 elaborate_trap0 [OF t])
  show "trap_cause (after_ph2 i s) =
           (if exception s then trap_cause s
            else if reg_time_irq s then TrapCause_INT_MACH_TIMER
            else if reg_ext_irq s then TrapCause_INT_MACH_EXTERNAL else trap_cause s)"
    by (simp add: after_ph2_ph2 elaborate_trap0 [OF t] latch_instr_frame)
qed

lemma after_ph2_trap1:
  assumes "trap s" "instr_phase s \<noteq> 0"
  shows "exception (after_ph2 i s) = exception s"
proof -
  have t: "trap (latch_instr i s)" "instr_phase (latch_instr i s) \<noteq> 0"
    using assms by (simp_all add: latch_instr_frame)
  show ?thesis
    by (simp add: after_ph2_ph2 elaborate_trap1 [OF t] latch_instr_frame)
qed

lemma commit_ph1_sel:
  "pc (commit_ph1 c i s) =
     (if pc_plus_4_to_pc c then pc s + 4
      else if x_to_pc c then data_x_in i
      else if z_to_pc c then data_z_in i
      else if memaddr_to_pc c then push_bit 1 (drop_bit 1 (memaddr s))
      else if memdata_to_pc c then memdata_rd i
      else pc s)"
  "memaddr (commit_ph1 c i s) =
     (if pc_plus_4_to_memaddr c then pc s + 4
      else if x_to_memaddr c then data_x_in i
      else if z_to_memaddr c then data_z_in i
      else if memdata_to_memaddr c then memdata_rd i
      else memaddr s)"
  "instr_phase (commit_ph1 c i s) = next_instr_phase c"
  "tmp (commit_ph1 c i s) = (if x_to_tmp c then data_x_in i else tmp s)"
  "exception (commit_ph1 c i s) = exception s"
  "trap_cause (commit_ph1 c i s) = trap_cause s"
  "instr (commit_ph1 c i s) = instr s"
  "mcause (commit_ph1 c i s) =
     (case nx_mcause c of Some v \<Rightarrow> v
      | None \<Rightarrow> if z_to_csr_at c CSRAddr_MCAUSE then data_z_in i else mcause s)"
  "mtvec (commit_ph1 c i s) = (if z_to_csr_at c CSRAddr_MTVEC then data_z_in i else mtvec s)"
  "mepc (commit_ph1 c i s) =
     (case nx_mepc c of Some v \<Rightarrow> v
      | None \<Rightarrow> if z_to_csr_at c CSRAddr_MEPC then data_z_in i else mepc s)"
  "mtval (commit_ph1 c i s) =
     (case nx_mtval c of Some v \<Rightarrow> v
      | None \<Rightarrow> if z_to_csr_at c CSRAddr_MTVAL then data_z_in i
                else if is_interrupted s i c then pc s else mtval s)"
  "mstatus (commit_ph1 c i s) =
     assign_bit MStatus_MIE (nx_mstatus_MIE c)
       (assign_bit MStatus_MPIE (nx_mstatus_MPIE c)
          (if z_to_csr_at c CSRAddr_MSTATUS then data_z_in i else mstatus s))"
  "trap (commit_ph1 c i s) =
     (case nx_trap c of Some b \<Rightarrow> b
      | None \<Rightarrow> if is_interrupted s i c then True else trap s)"
  "trap_svc (commit_ph1 c i s) = (case nx_trap_svc c of Some b \<Rightarrow> b | None \<Rightarrow> trap_svc s)"
  by (simp_all add: commit_ph1_def)

subsection \<open>Interrupt latches at trap entry\<close>

lemma elaborate_trap0_irq:
  assumes "trap s" "instr_phase s = 0"
  shows "nx_reg_time_irq (elaborate s i m) = (if reg_time_irq s then Some False else None)"
    and "nx_reg_ext_irq (elaborate s i m) =
          (if \<not> reg_time_irq s \<and> reg_ext_irq s then Some False else None)"
  using assms
  by (simp_all add: elaborate_upd handlers_trap not_misalign_trap handle_trap_def
        defaults_def Let_def)

lemma elaborate_trap1_irq:
  assumes "trap s" "instr_phase s \<noteq> 0"
  shows "nx_reg_time_irq (elaborate s i m) = None"
    and "nx_reg_ext_irq (elaborate s i m) = None"
  using assms
  by (simp_all add: elaborate_upd handlers_trap not_misalign_trap handle_trap_def
        defaults_def Let_def)

lemma commit_ph1_irq:
  "reg_time_irq (commit_ph1 c i s) =
     (case nx_reg_time_irq c of Some b \<Rightarrow> b
      | None \<Rightarrow> latch_irq s (reg_time_irq s) (time_irq i))"
  "reg_ext_irq (commit_ph1 c i s) =
     (case nx_reg_ext_irq c of Some b \<Rightarrow> b
      | None \<Rightarrow> latch_irq s (reg_ext_irq s) (ext_irq i))"
  by (simp_all add: commit_ph1_def)

text \<open>Claim C10. In phase 0 of trap entry at most one pending-interrupt latch is cleared:
  when \<open>reg_time_irq\<close> is set it is cleared and \<open>reg_ext_irq\<close> keeps its value; only when
  \<open>reg_time_irq\<close> is clear is \<open>reg_ext_irq\<close> cleared. In the later phase of trap entry
  neither latch changes, so an external interrupt pending together with the timer
  interrupt stays latched across the entry of the timer trap.\<close>

theorem trap_entry_clears_one_irq_latch:
  assumes "trap s"
  shows "(instr_phase s = 0 \<and> reg_time_irq s \<longrightarrow>
           \<not> reg_time_irq (card_cycle i s) \<and> reg_ext_irq (card_cycle i s) = reg_ext_irq s)
       \<and> (instr_phase s = 0 \<and> \<not> reg_time_irq s \<longrightarrow>
           \<not> reg_time_irq (card_cycle i s) \<and> \<not> reg_ext_irq (card_cycle i s))
       \<and> (instr_phase s \<noteq> 0 \<longrightarrow>
           reg_time_irq (card_cycle i s) = reg_time_irq s
           \<and> reg_ext_irq (card_cycle i s) = reg_ext_irq s)"
proof -
  let ?s2 = "after_ph2 i s"
  have t: "trap ?s2" using assms by (simp add: after_ph2_frame)
  show ?thesis
  proof (cases "instr_phase s = 0")
    case True
    then have p: "instr_phase ?s2 = 0" by (simp add: after_ph2_frame)
    show ?thesis using True t
      by (simp add: card_cycle_def card_signals_def commit_ph1_irq elaborate_trap0_irq [OF t p]
            after_ph2_frame latch_irq_def)
  next
    case False
    then have p: "instr_phase ?s2 \<noteq> 0" by (simp add: after_ph2_frame)
    show ?thesis using False t
      by (simp add: card_cycle_def card_signals_def commit_ph1_irq elaborate_trap1_irq [OF t p]
            after_ph2_frame latch_irq_def)
  qed
qed

theorem trap_entry_clears_one_irq_latch_witness:
  "trap st_both_irqs \<and> instr_phase st_both_irqs = 0 \<and> reg_time_irq st_both_irqs
   \<and> \<not> reg_time_irq (card_cycle quiet_in st_both_irqs)
   \<and> reg_ext_irq (card_cycle quiet_in st_both_irqs)
   \<and> trap st_ext_irq \<and> instr_phase st_ext_irq = 0 \<and> \<not> reg_time_irq st_ext_irq
   \<and> \<not> reg_ext_irq (card_cycle quiet_in st_ext_irq)
   \<and> trap (st_both_irqs\<lparr>instr_phase := 1\<rparr>) \<and> instr_phase (st_both_irqs\<lparr>instr_phase := 1\<rparr>) \<noteq> 0
   \<and> reg_ext_irq (card_cycle quiet_in (st_both_irqs\<lparr>instr_phase := 1\<rparr>))"
proof -
  have h1: "trap st_both_irqs" and h2: "trap st_ext_irq"
    and h3: "trap (st_both_irqs\<lparr>instr_phase := 1\<rparr>)"
    by (simp_all add: st_both_irqs_def st_ext_irq_def reset_state_def)
  show ?thesis
    using trap_entry_clears_one_irq_latch [OF h1, of quiet_in]
      trap_entry_clears_one_irq_latch [OF h2, of quiet_in]
      trap_entry_clears_one_irq_latch [OF h3, of quiet_in]
    by (simp add: st_both_irqs_def st_ext_irq_def reset_state_def)
qed


section \<open>Properties of the sequencer ROM\<close>

lemma fatal_by_cause_if:
  "fatal_by_cause (if b then x else y) = (if b then fatal_by_cause x else fatal_by_cause y)"
  by simp

lemma fatal_by_cause_exc:
  "fatal_by_cause (rom_set_exception k v f c) =
     (f = (k \<noteq> ConstSelect_EXC_ECALL_FROM_MACH_MODE \<and> k \<noteq> ConstSelect_EXC_BREAKPOINT))"
  by (simp add: fatal_by_cause_def rom_set_exception_def)

lemma fatal_by_cause_frame:
  "\<not> next_exception c \<Longrightarrow> fatal_by_cause c"
  by (simp add: fatal_by_cause_def)

lemma next_instr_exc: "next_exception (next_instr n c) = next_exception c"
  by (cases n) simp_all

lemma rom_fatal: "fatal_by_cause (rom r)"
  unfolding rom_def
  by (cases "opcode_select r")
     (simp_all add: rom_handle_illegal_instr_def rom_handle_lui_def
        rom_handle_auipc_def rom_handle_op_imm_def rom_handle_op_def rom_alu_func_switch_def
        rom_handle_jal_def rom_handle_jalr_def rom_handle_branch_def rom_handle_load_def
        rom_handle_store_def rom_csr_phase1_def rom_handle_CSRRW_def rom_handle_CSRRWI_def
        rom_handle_CSRRS_def rom_handle_CSRRSI_def rom_handle_CSRRC_def rom_handle_CSRRCI_def
        rom_handle_csrs_def rom_handle_MRET_def rom_handle_ECALL_def rom_handle_EBREAK_def
        fatal_by_cause_if fatal_by_cause_exc fatal_by_cause_frame next_instr_exc
        rom_defaults_def Let_def)

lemma rom_ecall:
  assumes "enable_sequencer_rom r" "opcode_select r = OpcodeSelect_ECALL"
  shows "save_trap d (rom r) t =
           \<lparr>saved_mcause = 0xB, saved_mepc = dp_pc d + 4, saved_mtval = dp_pc d\<rparr>
    \<and> \<not> next_fatal (rom r) \<and> next_trap (rom r) \<and> load_trap (rom r) \<and> next_exception (rom r)"
  using assms by (simp add: rom_def rom_handle_ECALL_def rom_set_exception_def save_trap_def)

lemma rom_ebreak:
  assumes "enable_sequencer_rom r" "opcode_select r = OpcodeSelect_EBREAK"
  shows "save_trap d (rom r) t =
           \<lparr>saved_mcause = 3, saved_mepc = dp_pc d + 4, saved_mtval = dp_pc d\<rparr>
    \<and> \<not> next_fatal (rom r) \<and> next_trap (rom r) \<and> load_trap (rom r) \<and> next_exception (rom r)"
  using assms by (simp add: rom_def rom_handle_EBREAK_def rom_set_exception_def save_trap_def)

lemma rom_load_misaligned:
  assumes "enable_sequencer_rom r" "opcode_select r = OpcodeSelect_LOAD" "rom_instr_phase r = 1"
    and "(rom_funct3 r \<in> {MemAccessWidth_H, MemAccessWidth_HU} \<and> bit (memaddr_2_lsb r) 0)
         \<or> (rom_funct3 r = MemAccessWidth_W \<and> memaddr_2_lsb r \<noteq> 0)"
  shows "rom r = rom_set_exception ConstSelect_EXC_LOAD_ADDR_MISALIGN SeqMuxSelect_MEMADDR True
                   rom_defaults"
  using assms by (auto simp add: rom_def rom_handle_load_def Let_def)

lemma rom_store_misaligned:
  assumes "enable_sequencer_rom r" "opcode_select r = OpcodeSelect_STORE" "rom_instr_phase r = 1"
    and "(rom_funct3 r = MemAccessWidth_H \<and> bit (memaddr_2_lsb r) 0)
         \<or> (rom_funct3 r = MemAccessWidth_W \<and> memaddr_2_lsb r \<noteq> 0)"
  shows "rom r = rom_set_exception ConstSelect_EXC_STORE_AMO_ADDR_MISALIGN SeqMuxSelect_MEMADDR
                   True rom_defaults"
  using assms by (auto simp add: rom_def rom_handle_store_def Let_def)

lemma rom_branch_phase1:
  assumes "enable_sequencer_rom r" "opcode_select r = OpcodeSelect_BRANCH" "rom_instr_phase r = 1"
    and "rom_funct3 r \<in> {BranchCond_EQ, BranchCond_NE, BranchCond_LT, BranchCond_GE,
                           BranchCond_LTU, BranchCond_GEU}"
    and "\<not> data_z_in_2_lsb0 r"
  shows "rom_next_instr_phase (rom r) = 2 \<and> tmp_mux_select (rom r) = SeqMuxSelect_Z
     \<and> pc_mux_select (rom r) = SeqMuxSelect_PC
     \<and> memaddr_mux_select (rom r) = SeqMuxSelect_MEMADDR
     \<and> \<not> next_trap (rom r) \<and> \<not> set_instr_complete (rom r)
     \<and> rom_alu_op_to_z (rom r) = AluOp_ADD \<and> x_mux_select (rom r) = SeqMuxSelect_PC"
  using assms by (simp add: rom_def rom_handle_branch_def Let_def rom_defaults_def)

lemma rom_branch_phase2:
  assumes "enable_sequencer_rom r" "opcode_select r = OpcodeSelect_BRANCH"
    "rom_instr_phase r \<noteq> 0" "rom_instr_phase r \<noteq> 1"
  shows "rom r = rom_set_exception ConstSelect_EXC_INSTR_ADDR_MISALIGN SeqMuxSelect_TMP True
                   rom_defaults"
  using assms by (simp add: rom_def rom_handle_branch_def)

lemma rom_csr_no_write:
  assumes "enable_sequencer_rom r" "opcode_select r = OpcodeSelect_CSRS"
    and "(rom_funct3 r \<in> {SystemFunc_CSRRS, SystemFunc_CSRRC} \<and> rs1_0 r)
         \<or> (rom_funct3 r \<in> {SystemFunc_CSRRSI, SystemFunc_CSRRCI} \<and> imm0 r)"
  shows "\<not> rom_z_to_csr (rom r)"
    and "rom_instr_phase r = 0 \<longrightarrow> rom_csr_to_x (rom r) \<and> rom_funct12_to_csr_num (rom r)
           \<and> tmp_mux_select (rom r) = SeqMuxSelect_X \<and> rom_next_instr_phase (rom r) = 1"
    and "rom_instr_phase r \<noteq> 0 \<longrightarrow> z_mux_select (rom r) = SeqMuxSelect_TMP
           \<and> z_reg_select (rom r) = InstrReg_RD \<and> set_instr_complete (rom r)"
  using assms
  by (auto simp add: rom_def rom_handle_csrs_def rom_handle_CSRRS_def rom_handle_CSRRC_def
        rom_handle_CSRRSI_def rom_handle_CSRRCI_def rom_csr_phase1_def Let_def rom_defaults_def)

lemma rom_mret:
  assumes "enable_sequencer_rom r" "opcode_select r = OpcodeSelect_MRET"
  shows "exit_trap (rom r) \<and> rom_csr_to_x (rom r) \<and> rom_mepc_num_to_csr_num (rom r)
     \<and> pc_mux_select (rom r) = SeqMuxSelect_X \<and> memaddr_mux_select (rom r) = SeqMuxSelect_X
     \<and> set_instr_complete (rom r)"
  using assms by (simp add: rom_def rom_handle_MRET_def rom_defaults_def)


section \<open>Instructions on the sequencer card\<close>

text \<open>Record selectors distribute over conditionals.\<close>

lemmas sig_if =
  if_distrib [of next_instr_phase]
  if_distrib [of reg_to_x]
  if_distrib [of pc_to_x]
  if_distrib [of memdata_to_x]
  if_distrib [of reg_to_y]
  if_distrib [of imm_to_y]
  if_distrib [of shamt_to_y]
  if_distrib [of alu_op_to_z]
  if_distrib [of pc_plus_4_to_z]
  if_distrib [of tmp_to_z]
  if_distrib [of pc_plus_4_to_pc]
  if_distrib [of x_to_pc]
  if_distrib [of z_to_pc]
  if_distrib [of memaddr_to_pc]
  if_distrib [of memdata_to_pc]
  if_distrib [of x_to_tmp]
  if_distrib [of pc_plus_4_to_memaddr]
  if_distrib [of x_to_memaddr]
  if_distrib [of z_to_memaddr]
  if_distrib [of memdata_to_memaddr]
  if_distrib [of z_to_memdata]
  if_distrib [of mem_rd]
  if_distrib [of load_instr]
  if_distrib [of mem_wr]
  if_distrib [of mem_wr_mask]
  if_distrib [of shamt]
  if_distrib [of data_x_out]
  if_distrib [of data_y_out]
  if_distrib [of data_z_out]
  if_distrib [of is_last_instr_cycle]
  if_distrib [of instr_complete]
  if_distrib [of csr_to_x]
  if_distrib [of z_to_csr]
  if_distrib [of x_reg]
  if_distrib [of y_reg]
  if_distrib [of z_reg]
  if_distrib [of funct12_to_csr_num]
  if_distrib [of mepc_num_to_csr_num]
  if_distrib [of csr_num]
  if_distrib [of next_reg_page]
  if_distrib [of fatal]
  if_distrib [of imm_format]
  if_distrib [of imm]
  if_distrib [of nx_exception]
  if_distrib [of nx_trap_cause]
  if_distrib [of nx_mtval]
  if_distrib [of nx_mepc]
  if_distrib [of nx_mcause]
  if_distrib [of nx_trap]
  if_distrib [of nx_trap_svc]
  if_distrib [of nx_reg_time_irq]
  if_distrib [of nx_reg_ext_irq]
  if_distrib [of nx_mstatus_MIE]
  if_distrib [of nx_mstatus_MPIE]

lemma executes_after_ph2:
  assumes "executes i s w"
  shows "\<not> trap (after_ph2 i s)" "\<not> instr_misalign (after_ph2 i s)"
    "instr (after_ph2 i s) = w" "slice 0 16 (instr (after_ph2 i s)) \<noteq> 0"
    "instr (after_ph2 i s) \<noteq> 0xFFFFFFFF"
  using assms by (simp_all add: executes_def after_ph2_frame instr_misalign_def)

lemma executes_latch:
  assumes "executes i s w"
  shows "\<not> trap (latch_instr i s)" "\<not> instr_misalign (latch_instr i s)"
    "instr (latch_instr i s) = w" "slice 0 16 (instr (latch_instr i s)) \<noteq> 0"
    "instr (latch_instr i s) \<noteq> 0xFFFFFFFF"
  using assms by (simp_all add: executes_def latch_instr_frame instr_misalign_def)

lemma handlers_opcode:
  assumes "\<not> trap s" "\<not> instr_misalign s" "slice 0 16 (instr s) \<noteq> 0" "instr s \<noteq> 0xFFFFFFFF"
  shows "opcode (instr s) = Opcode_SYSTEM \<Longrightarrow> handlers s i c = handle_system s c"
    and "opcode (instr s) = Opcode_JALR \<Longrightarrow> handlers s i c = handle_jalr s c"
    and "opcode (instr s) = Opcode_BRANCH \<Longrightarrow> handlers s i c = handle_branch s i c"
    and "opcode (instr s) = Opcode_LOAD \<Longrightarrow> handlers s i c = handle_load s c"
    and "opcode (instr s) = Opcode_STORE \<Longrightarrow> handlers s i c = handle_store s c"
  using assms by (simp_all add: handlers_def)

subsection \<open>CSR instructions that only read\<close>

lemma handle_system_read_only:
  assumes "csr_read_only (instr s)"
  shows "handle_system s c =
     (if instr_phase s = 0 then
        c\<lparr>imm_format := OpcodeFormat_SYS, imm := decode_imm OpcodeFormat_SYS (instr s),
          funct12_to_csr_num := True, csr_to_x := True,
          y_reg := (if funct3 (instr s) \<in> {SystemFunc_CSRRS, SystemFunc_CSRRC}
                    then rs1 (instr s) else y_reg c),
          reg_to_y := (if funct3 (instr s) \<in> {SystemFunc_CSRRS, SystemFunc_CSRRC}
                       then True else reg_to_y c),
          imm_to_y := (if funct3 (instr s) \<in> {SystemFunc_CSRRS, SystemFunc_CSRRC}
                       then imm_to_y c else True),
          alu_op_to_z := (if funct3 (instr s) \<in> {SystemFunc_CSRRS, SystemFunc_CSRRSI}
                          then AluOp_OR else AluOp_AND_NOT),
          z_to_csr := False, x_to_tmp := True, next_instr_phase := 1\<rparr>
      else
        c\<lparr>imm_format := OpcodeFormat_SYS, imm := decode_imm OpcodeFormat_SYS (instr s),
          funct12_to_csr_num := True, tmp_to_z := True, z_reg := rd (instr s),
          is_last_instr_cycle := True\<rparr>)"
proof -
  consider (rs) "funct3 (instr s) = SystemFunc_CSRRS" "rs1 (instr s) = 0"
    | (rc) "funct3 (instr s) = SystemFunc_CSRRC" "rs1 (instr s) = 0"
    | (rsi) "funct3 (instr s) = SystemFunc_CSRRSI" "decode_imm OpcodeFormat_SYS (instr s) = 0"
    | (rci) "funct3 (instr s) = SystemFunc_CSRRCI" "decode_imm OpcodeFormat_SYS (instr s) = 0"
    using assms unfolding csr_read_only_def by blast
  then show ?thesis
  proof cases
    case rs
    then show ?thesis
      by (simp add: handle_system_def handle_CSRRS_def csr_phase1_def set_imm_format_def Let_def)
  next
    case rc
    then show ?thesis
      by (simp add: handle_system_def handle_CSRRC_def csr_phase1_def set_imm_format_def Let_def)
  next
    case rsi
    then show ?thesis
      by (simp add: handle_system_def handle_CSRRSI_def csr_phase1_def set_imm_format_def Let_def)
  next
    case rci
    then show ?thesis
      by (simp add: handle_system_def handle_CSRRCI_def csr_phase1_def set_imm_format_def Let_def)
  qed
qed

lemma elaborate_read_only0:
  assumes "\<not> trap s" "\<not> instr_misalign s" "slice 0 16 (instr s) \<noteq> 0" "instr s \<noteq> 0xFFFFFFFF"
    "csr_read_only (instr s)" "instr_phase s = 0"
  shows "\<not> z_to_csr (elaborate s i m)"
    and "x_to_tmp (elaborate s i m)"
    and "csr_to_x (elaborate s i m)"
    and "\<not> reg_to_x (elaborate s i m)"
    and "csr_num (elaborate s i m) = funct12 (instr s)"
    and "data_x_out (elaborate s i m) = csr_value s (funct12 (instr s)) 0"
    and "next_instr_phase (elaborate s i m) = 1"
    and "nx_mcause (elaborate s i m) = None"
    and "nx_mepc (elaborate s i m) = None"
    and "nx_mtval (elaborate s i m) = None"
    and "nx_mstatus_MIE (elaborate s i m) = None"
    and "nx_mstatus_MPIE (elaborate s i m) = None"
    and "\<not> is_interrupted s i (elaborate s i m)"
    and "z_reg (elaborate s i m) = 0"
proof -
  have o: "opcode (instr s) = Opcode_SYSTEM" using assms(5) by (simp add: csr_read_only_def)
  note h = handlers_opcode(1) [OF assms(1-4) o] handle_system_read_only [OF assms(5)]
  show "\<not> z_to_csr (elaborate s i m)"
    and "x_to_tmp (elaborate s i m)"
    and "csr_to_x (elaborate s i m)"
    and "\<not> reg_to_x (elaborate s i m)"
    and "csr_num (elaborate s i m) = funct12 (instr s)"
    and "data_x_out (elaborate s i m) = csr_value s (funct12 (instr s)) 0"
    and "next_instr_phase (elaborate s i m) = 1"
    and "nx_mcause (elaborate s i m) = None"
    and "nx_mepc (elaborate s i m) = None"
    and "nx_mtval (elaborate s i m) = None"
    and "nx_mstatus_MIE (elaborate s i m) = None"
    and "nx_mstatus_MPIE (elaborate s i m) = None"
    and "\<not> is_interrupted s i (elaborate s i m)"
    and "z_reg (elaborate s i m) = 0"
    using assms(1,2,6) by (simp_all add: elaborate_upd h defaults_def is_interrupted_def)
qed

lemma elaborate_read_only1:
  assumes "\<not> trap s" "\<not> instr_misalign s" "slice 0 16 (instr s) \<noteq> 0" "instr s \<noteq> 0xFFFFFFFF"
    "csr_read_only (instr s)" "instr_phase s \<noteq> 0"
  shows "\<not> z_to_csr (elaborate s i m)"
    and "alu_op_to_z (elaborate s i m) = AluOp_NONE"
    and "data_z_out (elaborate s i m) = tmp s"
    and "z_reg (elaborate s i m) = rd (instr s)"
    and "is_last_instr_cycle (elaborate s i m)"
proof -
  have o: "opcode (instr s) = Opcode_SYSTEM" using assms(5) by (simp add: csr_read_only_def)
  note h = handlers_opcode(1) [OF assms(1-4) o] handle_system_read_only [OF assms(5)]
  show "\<not> z_to_csr (elaborate s i m)"
    and "alu_op_to_z (elaborate s i m) = AluOp_NONE"
    and "data_z_out (elaborate s i m) = tmp s"
    and "z_reg (elaborate s i m) = rd (instr s)"
    and "is_last_instr_cycle (elaborate s i m)"
    using assms(1,2,6) by (simp_all add: elaborate_upd h defaults_def)
qed

lemma elaborate_read_only1_frame:
  assumes "\<not> trap s" "\<not> instr_misalign s" "slice 0 16 (instr s) \<noteq> 0" "instr s \<noteq> 0xFFFFFFFF"
    "csr_read_only (instr s)" "instr_phase s \<noteq> 0"
  shows "nx_mcause (elaborate s i m) = None"
    and "nx_mepc (elaborate s i m) = None"
    and "nx_mtval (elaborate s i m) = None"
    and "nx_mstatus_MIE (elaborate s i m) = None"
    and "nx_mstatus_MPIE (elaborate s i m) = None"
    and "is_interrupted s i (elaborate s i m) =
           (m \<and> \<not> trap_svc s \<and> (time_irq i \<or> ext_irq i) \<and> bit (mstatus s) MStatus_MIE)"
proof -
  have o: "opcode (instr s) = Opcode_SYSTEM" using assms(5) by (simp add: csr_read_only_def)
  note h = handlers_opcode(1) [OF assms(1-4) o] handle_system_read_only [OF assms(5)]
  show "nx_mcause (elaborate s i m) = None"
    and "nx_mepc (elaborate s i m) = None"
    and "nx_mtval (elaborate s i m) = None"
    and "nx_mstatus_MIE (elaborate s i m) = None"
    and "nx_mstatus_MPIE (elaborate s i m) = None"
    and "is_interrupted s i (elaborate s i m) =
           (m \<and> \<not> trap_svc s \<and> (time_irq i \<or> ext_irq i) \<and> bit (mstatus s) MStatus_MIE)"
    using assms(1,2,6) by (simp_all add: elaborate_upd h defaults_def is_interrupted_def)
qed

lemma assign_bit_None [simp]: "assign_bit n None w = w"
  by (simp add: assign_bit_def)

text \<open>Claim C9, as stated, fails when an interrupt is taken as the instruction
  completes: the \<open>Elif(is_interrupted)\<close> branch of \<open>elaborate\<close> loads \<open>mtval\<close> with the
  PC. \<open>csrrs x1, mtval, x0\<close> at \<open>0x100\<close> with \<open>mtval = 0x55\<close>, MIE set and the timer line
  rising in its second phase sends \<open>0x55\<close> to \<open>x1\<close> and leaves \<open>mtval = 0x100\<close>.\<close>

theorem csr_read_only_counterexample:
  "executes in_csrrs_mtval st_csrrs_mtval 0x343020F3 \<and> csr_read_only 0x343020F3
   \<and> funct12 (0x343020F3::u32) = CSRAddr_MTVAL \<and> mtval st_csrrs_mtval = 0x55
   \<and> wired in_csrrs_mtval st_csrrs_mtval (\<lambda>_. 0)
   \<and> mtval st_csrrs_mtval1 = 0x55 \<and> tmp st_csrrs_mtval1 = 0x55
   \<and> executes in_csrrs_irq st_csrrs_mtval1 0x343020F3
   \<and> instr_phase st_csrrs_mtval1 = 1
   \<and> wired in_csrrs_irq st_csrrs_mtval1 (\<lambda>_. 0)
   \<and> \<not> z_to_csr (card_signals in_csrrs_irq st_csrrs_mtval1)
   \<and> z_reg (card_signals in_csrrs_irq st_csrrs_mtval1) = 1
   \<and> data_z_in in_csrrs_irq = 0x55
   \<and> mtval (card_cycle in_csrrs_irq st_csrrs_mtval1) = 0x100
   \<and> mtval (card_cycle in_csrrs_irq st_csrrs_mtval1) \<noteq> mtval st_csrrs_mtval"
  by code_simp

text \<open>Claim C9, amended. A CSRRS or CSRRC whose \<open>rs1\<close> is \<open>x0\<close>, and a CSRRSI or CSRRCI
  whose immediate is zero, writes no CSR. In phase 0 \<open>z_to_csr\<close> stays low, every CSR
  keeps its value and no register is written, while the value of the addressed CSR, read
  onto X, is saved in \<open>tmp\<close>. In phase 1 \<open>z_to_csr\<close> is low again, \<open>tmp\<close>, the old value
  of the CSR, goes over Z to \<open>rd\<close>, and every CSR keeps its value, with one exception:
  when an interrupt is taken as the instruction completes (an interrupt line high, MIE
  set, \<open>trap_svc\<close> clear), the interrupt entry loads \<open>mtval\<close> with the PC. The ROM keeps
  \<open>z_to_csr\<close> low in both phases; phase 0 routes the CSR over X to \<open>tmp\<close> and phase 1
  routes \<open>tmp\<close> over Z to \<open>rd\<close>.\<close>

theorem csr_read_only_no_write:
  assumes "executes i s w" "csr_read_only w"
  shows "(instr_phase s = 0 \<longrightarrow>
            \<not> z_to_csr (card_signals i s)
            \<and> mstatus (card_cycle i s) = mstatus s \<and> mtvec (card_cycle i s) = mtvec s
            \<and> mepc (card_cycle i s) = mepc s \<and> mcause (card_cycle i s) = mcause s
            \<and> mtval (card_cycle i s) = mtval s
            \<and> z_reg (card_signals i s) = 0
            \<and> (wired i s regs \<longrightarrow> tmp (card_cycle i s) = csr_value s (funct12 w) 0)
            \<and> instr_phase (card_cycle i s) = 1)
       \<and> (instr_phase s \<noteq> 0 \<longrightarrow>
            \<not> z_to_csr (card_signals i s)
            \<and> z_reg (card_signals i s) = rd w
            \<and> (wired i s regs \<longrightarrow> data_z_in i = tmp s)
            \<and> mstatus (card_cycle i s) = mstatus s \<and> mtvec (card_cycle i s) = mtvec s
            \<and> mepc (card_cycle i s) = mepc s \<and> mcause (card_cycle i s) = mcause s
            \<and> mtval (card_cycle i s) =
                 (if \<not> trap_svc s \<and> (time_irq i \<or> ext_irq i) \<and> bit (mstatus s) MStatus_MIE
                  then pc s else mtval s))
       \<and> (rom_csr_read_only r \<longrightarrow>
            \<not> rom_z_to_csr (rom r)
            \<and> (rom_instr_phase r = 0 \<longrightarrow>
                  rom_csr_to_x (rom r) \<and> rom_funct12_to_csr_num (rom r)
                  \<and> tmp_mux_select (rom r) = SeqMuxSelect_X
                  \<and> rom_next_instr_phase (rom r) = 1)
            \<and> (rom_instr_phase r \<noteq> 0 \<longrightarrow>
                  z_mux_select (rom r) = SeqMuxSelect_TMP
                  \<and> z_reg_select (rom r) = InstrReg_RD \<and> set_instr_complete (rom r)))"
proof -
  let ?s2 = "after_ph2 i s"
  note x = executes_after_ph2 [OF assms(1)]
  have r: "csr_read_only (instr ?s2)" using assms(2) x(3) by simp
  have rom_part: "rom_csr_read_only r \<longrightarrow>
            \<not> rom_z_to_csr (rom r)
            \<and> (rom_instr_phase r = 0 \<longrightarrow>
                  rom_csr_to_x (rom r) \<and> rom_funct12_to_csr_num (rom r)
                  \<and> tmp_mux_select (rom r) = SeqMuxSelect_X
                  \<and> rom_next_instr_phase (rom r) = 1)
            \<and> (rom_instr_phase r \<noteq> 0 \<longrightarrow>
                  z_mux_select (rom r) = SeqMuxSelect_TMP
                  \<and> z_reg_select (rom r) = InstrReg_RD \<and> set_instr_complete (rom r))"
    using rom_csr_no_write [of r] unfolding rom_csr_read_only_def by blast
  show ?thesis
  proof (cases "instr_phase s = 0")
    case True
    then have p: "instr_phase ?s2 = 0" by (simp add: after_ph2_frame)
    note e = elaborate_read_only0 [OF x(1,2,4,5) r p, of i True]
    have "\<not> z_to_csr (card_signals i s)
            \<and> mstatus (card_cycle i s) = mstatus s \<and> mtvec (card_cycle i s) = mtvec s
            \<and> mepc (card_cycle i s) = mepc s \<and> mcause (card_cycle i s) = mcause s
            \<and> mtval (card_cycle i s) = mtval s
            \<and> z_reg (card_signals i s) = 0
            \<and> (wired i s regs \<longrightarrow> tmp (card_cycle i s) = csr_value s (funct12 w) 0)
            \<and> instr_phase (card_cycle i s) = 1"
      using x(3)
      by (simp add: card_cycle_def card_signals_def commit_ph1_sel wired_def buses_wired_def
            e z_to_csr_at_def after_ph2_frame csr_value_def)
    with True rom_part show ?thesis by blast
  next
    case False
    then have p: "instr_phase ?s2 \<noteq> 0" by (simp add: after_ph2_frame)
    note e = elaborate_read_only1 [OF x(1,2,4,5) r p, of i True]
    note g = elaborate_read_only1_frame [OF x(1,2,4,5) r p, of i True]
    have a: "\<not> z_to_csr (card_signals i s)
            \<and> z_reg (card_signals i s) = rd w
            \<and> (wired i s regs \<longrightarrow> data_z_in i = tmp s)"
      using x(3)
      by (simp add: card_signals_def wired_def buses_wired_def e after_ph2_frame)
    have b: "mstatus (card_cycle i s) = mstatus s \<and> mtvec (card_cycle i s) = mtvec s
            \<and> mepc (card_cycle i s) = mepc s \<and> mcause (card_cycle i s) = mcause s
            \<and> mtval (card_cycle i s) =
                 (if \<not> trap_svc s \<and> (time_irq i \<or> ext_irq i) \<and> bit (mstatus s) MStatus_MIE
                  then pc s else mtval s)"
      by (simp add: card_cycle_def card_signals_def commit_ph1_sel e(1) g z_to_csr_at_def
            after_ph2_frame)
    from a b False rom_part show ?thesis by blast
  qed
qed

theorem csr_read_only_no_write_witness:
  "executes in_csrrs st_csrrs 0x305020F3 \<and> csr_read_only 0x305020F3
   \<and> instr_phase st_csrrs = 0 \<and> wired in_csrrs st_csrrs (\<lambda>_. 0)
   \<and> mtvec (card_cycle in_csrrs st_csrrs) = 0x80 \<and> tmp (card_cycle in_csrrs st_csrrs) = 0x80
   \<and> executes in_csrrs1 st_csrrs1 0x305020F3 \<and> instr_phase st_csrrs1 \<noteq> 0
   \<and> wired in_csrrs1 st_csrrs1 (\<lambda>_. 0)
   \<and> z_reg (card_signals in_csrrs1 st_csrrs1) = 1 \<and> data_z_in in_csrrs1 = 0x80
   \<and> mtvec (card_cycle in_csrrs1 st_csrrs1) = 0x80
   \<and> mtval (card_cycle in_csrrs1 st_csrrs1) = 0
   \<and> executes in_csrrs_irq st_csrrs_mtval1 0x343020F3 \<and> csr_read_only 0x343020F3
   \<and> instr_phase st_csrrs_mtval1 \<noteq> 0 \<and> time_irq in_csrrs_irq
   \<and> z_reg (card_signals in_csrrs_irq st_csrrs_mtval1) = 1
   \<and> mstatus (card_cycle in_csrrs_irq st_csrrs_mtval1) = 8
   \<and> mtval (card_cycle in_csrrs_irq st_csrrs_mtval1) = 0x100
   \<and> rom_csr_read_only rom_in_csrrs \<and> \<not> rom_z_to_csr (rom rom_in_csrrs)"
proof -
  have h1: "executes in_csrrs st_csrrs 0x305020F3" by code_simp
  have h2: "csr_read_only 0x305020F3" by code_simp
  have h3: "wired in_csrrs st_csrrs (\<lambda>_. 0)" by code_simp
  have h4: "executes in_csrrs1 st_csrrs1 0x305020F3" by code_simp
  have h5: "wired in_csrrs1 st_csrrs1 (\<lambda>_. 0)" by code_simp
  have h6: "rom_csr_read_only rom_in_csrrs" by code_simp
  have h7: "executes in_csrrs_irq st_csrrs_mtval1 0x343020F3" by code_simp
  have h8: "csr_read_only 0x343020F3" by code_simp
  have p0: "instr_phase st_csrrs = 0" and p1: "instr_phase st_csrrs1 \<noteq> 0"
    and m: "mtvec st_csrrs = 0x80" and t: "tmp st_csrrs1 = 0x80"
    and z: "data_z_in in_csrrs1 = 0x80"
    and m1: "mtvec st_csrrs1 = 0x80" "mtval st_csrrs1 = 0" "\<not> time_irq in_csrrs1"
      "\<not> ext_irq in_csrrs1"
    by (simp_all add: st_csrrs_def st_csrrs1_def in_csrrs1_def quiet_in_def reset_state_def)
  have q: "instr_phase st_csrrs_mtval1 \<noteq> 0" "time_irq in_csrrs_irq"
    "\<not> trap_svc st_csrrs_mtval1" "bit (mstatus st_csrrs_mtval1) MStatus_MIE"
    "pc st_csrrs_mtval1 = 0x100" "mstatus st_csrrs_mtval1 = 8"
    by code_simp+
  have f: "funct12 (0x305020F3 :: u32) = CSRAddr_MTVEC" and d: "rd (0x305020F3 :: u32) = 1"
    and d': "rd (0x343020F3 :: u32) = 1"
    by (simp_all add: funct12_def rd_def slice_def)
  have A: "mtvec (card_cycle in_csrrs st_csrrs) = mtvec st_csrrs
      \<and> (wired in_csrrs st_csrrs (\<lambda>_. 0) \<longrightarrow>
           tmp (card_cycle in_csrrs st_csrrs) = csr_value st_csrrs (funct12 (0x305020F3::u32)) 0)
      \<and> \<not> rom_z_to_csr (rom rom_in_csrrs)"
    using csr_read_only_no_write [OF h1 h2, of "\<lambda>_. 0" rom_in_csrrs] p0 h6 by blast
  have A': "mtvec (card_cycle in_csrrs st_csrrs) = 0x80"
    "tmp (card_cycle in_csrrs st_csrrs) = 0x80"
    using A h3 by (simp_all add: f csr_value_def m)
  have B: "z_reg (card_signals in_csrrs1 st_csrrs1) = rd (0x305020F3::u32)
      \<and> mtvec (card_cycle in_csrrs1 st_csrrs1) = mtvec st_csrrs1
      \<and> mtval (card_cycle in_csrrs1 st_csrrs1) =
           (if \<not> trap_svc st_csrrs1 \<and> (time_irq in_csrrs1 \<or> ext_irq in_csrrs1)
               \<and> bit (mstatus st_csrrs1) MStatus_MIE
            then pc st_csrrs1 else mtval st_csrrs1)"
    using csr_read_only_no_write [OF h4 h2, of "\<lambda>_. 0" rom_in_csrrs] p1 by blast
  have B': "z_reg (card_signals in_csrrs1 st_csrrs1) = 1"
    "mtvec (card_cycle in_csrrs1 st_csrrs1) = 0x80"
    "mtval (card_cycle in_csrrs1 st_csrrs1) = 0"
    using B by (simp_all add: d m1)
  have C: "z_reg (card_signals in_csrrs_irq st_csrrs_mtval1) = rd (0x343020F3::u32)
      \<and> mstatus (card_cycle in_csrrs_irq st_csrrs_mtval1) = mstatus st_csrrs_mtval1
      \<and> mtval (card_cycle in_csrrs_irq st_csrrs_mtval1) =
           (if \<not> trap_svc st_csrrs_mtval1 \<and> (time_irq in_csrrs_irq \<or> ext_irq in_csrrs_irq)
               \<and> bit (mstatus st_csrrs_mtval1) MStatus_MIE
            then pc st_csrrs_mtval1 else mtval st_csrrs_mtval1)"
    using csr_read_only_no_write [OF h7 h8, of "\<lambda>_. 0" rom_in_csrrs] q(1) by blast
  have C': "z_reg (card_signals in_csrrs_irq st_csrrs_mtval1) = 1"
    "mstatus (card_cycle in_csrrs_irq st_csrrs_mtval1) = 8"
    "mtval (card_cycle in_csrrs_irq st_csrrs_mtval1) = 0x100"
    using C q(2,3,4) by (simp_all add: d' q(5,6))
  show ?thesis
    using h1 h2 p0 h3 A' h4 p1 h5 B' z h7 h8 q(1,2) C' h6 A by blast
qed

subsection \<open>Trap entry: the vector address, and which traps are fatal\<close>

lemma trap_phase0_step:
  assumes "trap s" "instr_phase s = 0" "wired i s regs"
  shows "memaddr (card_cycle i s) =
           (mtvec s AND 0xFFFFFFFC)
           + (if slice 0 2 (mtvec s) = 1 \<and> bit (mcause (card_cycle i s)) 31
              then 4 * slice 0 30 (mcause (card_cycle i s)) else 0)"
    and "instr_phase (card_cycle i s) = 1" and "trap (card_cycle i s)"
    and "exception (card_cycle i s) = exception s"
    and "pc (card_cycle i s) = pc s"
proof -
  let ?s2 = "after_ph2 i s"
  have t: "trap ?s2" "instr_phase ?s2 = 0" using assms by (simp_all add: after_ph2_frame)
  note e = elaborate_trap0 [OF t, of i True]
  have z: "data_z_in i = data_x_out (elaborate ?s2 i True) + data_y_out (elaborate ?s2 i True)"
    using assms(3) e(9,10,11) by (simp add: wired_def buses_wired_def card_signals_def)
  have mc: "mcause (card_cycle i s) = trap_cause ?s2"
    by (simp add: card_cycle_def card_signals_def commit_ph1_sel e)
  have ma: "memaddr (card_cycle i s) = data_z_in i"
    by (simp add: card_cycle_def card_signals_def commit_ph1_sel e)
  show "memaddr (card_cycle i s) =
           (mtvec s AND 0xFFFFFFFC)
           + (if slice 0 2 (mtvec s) = 1 \<and> bit (mcause (card_cycle i s)) 31
              then 4 * slice 0 30 (mcause (card_cycle i s)) else 0)"
    unfolding mc ma z e(12,13)
    by (simp add: after_ph2_frame push_bit_eq_mult cong: if_cong)
  show "instr_phase (card_cycle i s) = 1" "trap (card_cycle i s)" "pc (card_cycle i s) = pc s"
    using assms
    by (simp_all add: card_cycle_def card_signals_def commit_ph1_sel e after_ph2_frame)
  show "exception (card_cycle i s) = exception s"
    using assms
    by (simp add: card_cycle_def card_signals_def commit_ph1_sel after_ph2_trap0)
qed

lemma trap_phase1_step:
  assumes "trap s" "instr_phase s \<noteq> 0"
  shows "fatal (card_signals i s) = exception s"
    and "exception s \<longrightarrow> instr_phase (card_cycle i s) = 1 \<and> trap (card_cycle i s)
           \<and> exception (card_cycle i s) \<and> pc (card_cycle i s) = pc s
           \<and> memaddr (card_cycle i s) = memaddr s"
    and "\<not> exception s \<longrightarrow> mem_rd (card_signals i s) \<and> pc (card_cycle i s) = memdata_rd i
           \<and> memaddr (card_cycle i s) = memdata_rd i \<and> \<not> trap (card_cycle i s)
           \<and> trap_svc (card_cycle i s) \<and> instr_phase (card_cycle i s) = 0"
proof -
  let ?s2 = "after_ph2 i s"
  have t: "trap ?s2" "instr_phase ?s2 \<noteq> 0" using assms by (simp_all add: after_ph2_frame)
  note e = elaborate_trap1 [OF t, of i True]
  have x: "exception ?s2 = exception s" using assms by (rule after_ph2_trap1)
  show "fatal (card_signals i s) = exception s" by (simp add: card_signals_def e x)
  show "exception s \<longrightarrow> instr_phase (card_cycle i s) = 1 \<and> trap (card_cycle i s)
           \<and> exception (card_cycle i s) \<and> pc (card_cycle i s) = pc s
           \<and> memaddr (card_cycle i s) = memaddr s"
    using assms by (simp add: card_cycle_def card_signals_def commit_ph1_sel e x after_ph2_frame)
  show "\<not> exception s \<longrightarrow> mem_rd (card_signals i s) \<and> pc (card_cycle i s) = memdata_rd i
           \<and> memaddr (card_cycle i s) = memdata_rd i \<and> \<not> trap (card_cycle i s)
           \<and> trap_svc (card_cycle i s) \<and> instr_phase (card_cycle i s) = 0"
    using assms by (simp add: card_cycle_def card_signals_def commit_ph1_sel e x after_ph2_frame)
qed

text \<open>Claim C6, as stated, fails: phase 1 of trap entry does not always load PC and
  memaddr from memory. After the misaligned \<open>lw x5, 1(x0)\<close> has raised its exception and
  phase 0 has put the vector address \<open>0x80\<close> in memaddr, phase 1 raises \<open>fatal\<close> and leaves
  PC at \<open>0x100\<close> although memory answers \<open>0x400\<close>.\<close>

theorem trap_entry_vector_counterexample:
  "trap st_lw_trap1 \<and> instr_phase st_lw_trap1 = 1 \<and> memaddr st_lw_trap1 = 0x80
   \<and> memdata_rd in_handler = 0x400
   \<and> pc (card_cycle in_handler st_lw_trap1) = 0x100
   \<and> memaddr (card_cycle in_handler st_lw_trap1) = 0x80
   \<and> \<not> (pc (card_cycle in_handler st_lw_trap1) = memdata_rd in_handler
         \<and> memaddr (card_cycle in_handler st_lw_trap1) = memdata_rd in_handler)"
  by code_simp

text \<open>Claim C6, amended. In phase 0 of trap entry the vector address written to memaddr is
  \<open>(mtvec & ~3) + 4 * (low 30 bits of the cause)\<close> when \<open>mtvec[1:0] = 1\<close> and the cause
  written to \<open>mcause\<close> has bit 31 set, and \<open>mtvec & ~3\<close> otherwise. Phase 1 then loads PC
  and memaddr from the word memory returns for that address when the exception flag is
  clear; when it is set, phase 1 raises \<open>fatal\<close> and loads neither.\<close>

theorem trap_entry_vector:
  assumes "trap s" "instr_phase s = 0" "wired i s regs"
  shows "memaddr (card_cycle i s) =
           (mtvec s AND 0xFFFFFFFC)
           + (if slice 0 2 (mtvec s) = 1 \<and> bit (mcause (card_cycle i s)) 31
              then 4 * slice 0 30 (mcause (card_cycle i s)) else 0)
       \<and> trap (card_cycle i s) \<and> instr_phase (card_cycle i s) = 1
       \<and> (\<not> exception s \<longrightarrow>
            mem_rd (card_signals j (card_cycle i s))
            \<and> pc (card_cycle j (card_cycle i s)) = memdata_rd j
            \<and> memaddr (card_cycle j (card_cycle i s)) = memdata_rd j)
       \<and> (exception s \<longrightarrow>
            fatal (card_signals j (card_cycle i s))
            \<and> pc (card_cycle j (card_cycle i s)) = pc s
            \<and> memaddr (card_cycle j (card_cycle i s)) = memaddr (card_cycle i s))"
proof -
  note p0 = trap_phase0_step [OF assms]
  have n: "instr_phase (card_cycle i s) \<noteq> 0" using p0(2) by simp
  note p1 = trap_phase1_step [OF p0(3) n, of j]
  show ?thesis using p0 p1 by simp
qed

theorem trap_entry_vector_witness:
  "trap st_both_irqs \<and> instr_phase st_both_irqs = 0 \<and> wired in_vec_timer st_both_irqs (\<lambda>_. 0)
   \<and> \<not> exception st_both_irqs
   \<and> mcause (card_cycle in_vec_timer st_both_irqs) = TrapCause_INT_MACH_TIMER
   \<and> memaddr (card_cycle in_vec_timer st_both_irqs) = 0x9C
   \<and> pc (card_cycle in_handler (card_cycle in_vec_timer st_both_irqs)) = 0x400
   \<and> trap st_lw_trap0 \<and> instr_phase st_lw_trap0 = 0 \<and> wired in_vec st_lw_trap0 (\<lambda>_. 0)
   \<and> exception st_lw_trap0
   \<and> memaddr (card_cycle in_vec st_lw_trap0) = 0x80
   \<and> fatal (card_signals in_handler (card_cycle in_vec st_lw_trap0))"
proof -
  have h1: "trap st_both_irqs" and h2: "instr_phase st_both_irqs = 0"
    and h3: "wired in_vec_timer st_both_irqs (\<lambda>_. 0)" and h4: "\<not> exception st_both_irqs"
    and h5: "mcause (card_cycle in_vec_timer st_both_irqs) = TrapCause_INT_MACH_TIMER"
    and m1: "mtvec st_both_irqs = 0x81"
    by code_simp+
  have g1: "trap st_lw_trap0" and g2: "instr_phase st_lw_trap0 = 0"
    and g3: "wired in_vec st_lw_trap0 (\<lambda>_. 0)" and g4: "exception st_lw_trap0"
    and g5: "mcause (card_cycle in_vec st_lw_trap0) = TrapCause_EXC_LOAD_ADDR_MISALIGN"
    and m2: "mtvec st_lw_trap0 = 0x80"
    by code_simp+
  have d: "memdata_rd in_handler = 0x400" by (simp add: in_handler_def quiet_in_def)
  show ?thesis
    using trap_entry_vector [OF h1 h2 h3, of in_handler]
      trap_entry_vector [OF g1 g2 g3, of in_handler] h1 h2 h3 h4 h5 g1 g2 g3 g4
    by (simp add: g5 m1 m2 d slice_def)
qed

text \<open>Claim C1, as stated, fails: a trap whose cause is not \<open>EXC_ILLEGAL_INSTR\<close> raises
  \<open>fatal\<close>. The misaligned \<open>lw x5, 1(x0)\<close> enters a trap with cause
  \<open>EXC_LOAD_ADDR_MISALIGN\<close>, and phase 1 of the entry raises \<open>fatal\<close> and stalls instead
  of fetching the handler; the ROM marks the same exception fatal.\<close>

theorem only_illegal_instr_fatal_counterexample:
  "trap st_lw_trap1 \<and> mcause st_lw_trap1 = TrapCause_EXC_LOAD_ADDR_MISALIGN
   \<and> mcause st_lw_trap1 \<noteq> TrapCause_EXC_ILLEGAL_INSTR
   \<and> fatal (card_signals in_handler st_lw_trap1)
   \<and> card_cycle in_handler (card_cycle in_handler st_lw_trap1)
       = card_cycle in_handler st_lw_trap1
   \<and> rom_const (rom rom_in_lw_misaligned) = ConstSelect_EXC_LOAD_ADDR_MISALIGN
   \<and> next_exception (rom rom_in_lw_misaligned) \<and> next_fatal (rom rom_in_lw_misaligned)"
  by code_simp

text \<open>Claim C1, amended. In the ROM an exception is fatal unless its cause is ECALL or
  BREAKPOINT: illegal instruction and the three address-misaligned exceptions are raised
  with \<open>next_fatal = 1\<close>. In the card \<open>set_exception\<close> sets the exception flag and \<open>trap\<close>
  whatever the cause, and phase 1 of trap entry raises \<open>fatal\<close> exactly when the
  exception flag is set: it then stalls in phase 1 with PC unchanged. Only with the flag
  clear, as for the two interrupts, does it read the first instruction of the handler
  into PC and memaddr, clear \<open>trap\<close> and set \<open>trap_svc\<close>.\<close>

theorem fatal_traps:
  "fatal_by_cause (rom r)
   \<and> nx_exception (set_exception s k v c) = Some True
   \<and> nx_trap (set_exception s k v c) = Some True
   \<and> nx_trap_cause (set_exception s k v c) = Some k
   \<and> (trap s \<and> instr_phase s \<noteq> 0 \<longrightarrow>
        fatal (card_signals i s) = exception s
        \<and> (exception s \<longrightarrow>
             instr_phase (card_cycle i s) = 1 \<and> trap (card_cycle i s)
             \<and> exception (card_cycle i s) \<and> pc (card_cycle i s) = pc s)
        \<and> (\<not> exception s \<longrightarrow>
             mem_rd (card_signals i s) \<and> pc (card_cycle i s) = memdata_rd i
             \<and> memaddr (card_cycle i s) = memdata_rd i \<and> \<not> trap (card_cycle i s)
             \<and> trap_svc (card_cycle i s)))"
  using trap_phase1_step [of s i] rom_fatal [of r]
  by (simp add: set_exception_def)

theorem fatal_traps_witness:
  "trap st_lw_trap1 \<and> instr_phase st_lw_trap1 \<noteq> 0 \<and> exception st_lw_trap1
   \<and> fatal (card_signals in_handler st_lw_trap1)
   \<and> pc (card_cycle in_handler st_lw_trap1) = 0x100
   \<and> trap (st_both_irqs\<lparr>instr_phase := 1\<rparr>) \<and> instr_phase (st_both_irqs\<lparr>instr_phase := 1\<rparr>) \<noteq> 0
   \<and> \<not> exception (st_both_irqs\<lparr>instr_phase := 1\<rparr>)
   \<and> \<not> fatal (card_signals in_handler (st_both_irqs\<lparr>instr_phase := 1\<rparr>))
   \<and> pc (card_cycle in_handler (st_both_irqs\<lparr>instr_phase := 1\<rparr>)) = 0x400
   \<and> next_exception (rom rom_in_lw_misaligned) \<and> next_fatal (rom rom_in_lw_misaligned)"
proof -
  have h1: "trap st_lw_trap1" and h2: "instr_phase st_lw_trap1 \<noteq> 0"
    and h3: "exception st_lw_trap1" and h4: "pc st_lw_trap1 = 0x100"
    by code_simp+
  have g1: "trap (st_both_irqs\<lparr>instr_phase := 1\<rparr>)"
    and g2: "instr_phase (st_both_irqs\<lparr>instr_phase := 1\<rparr>) \<noteq> 0"
    and g3: "\<not> exception (st_both_irqs\<lparr>instr_phase := 1\<rparr>)"
    by code_simp+
  have d: "memdata_rd in_handler = 0x400" by (simp add: in_handler_def quiet_in_def)
  have r: "next_exception (rom rom_in_lw_misaligned)"
    and k: "rom_const (rom rom_in_lw_misaligned) = ConstSelect_EXC_LOAD_ADDR_MISALIGN"
    by code_simp+
  show ?thesis
    using fatal_traps [of rom_in_lw_misaligned st_lw_trap1 0 0 "defaults st_lw_trap1" in_handler]
      fatal_traps [of rom_in_lw_misaligned "st_both_irqs\<lparr>instr_phase := 1\<rparr>" 0 0
         "defaults st_lw_trap1" in_handler]
      h1 h2 h3 g1 g2 g3 r
    by (simp add: h4 d k fatal_by_cause_def)
qed

subsection \<open>The instructions of the SYSTEM opcode with \<open>funct3 = 0\<close>\<close>

text \<open>What the stages after the handlers leave alone, with \<open>h\<close> the signals the handlers
  produce.\<close>

lemma elaborate_frame:
  assumes "\<not> instr_misalign s" "h = handlers s i (defaults s)"
  shows "nx_exception (elaborate s i m) = nx_exception h"
    and "nx_trap_cause (elaborate s i m) = nx_trap_cause h"
    and "nx_mtval (elaborate s i m) = nx_mtval h"
    and "nx_mepc (elaborate s i m) = nx_mepc h"
    and "nx_mcause (elaborate s i m) = nx_mcause h"
    and "nx_trap (elaborate s i m) = nx_trap h"
    and "nx_trap_svc (elaborate s i m) = nx_trap_svc h"
    and "nx_mstatus_MIE (elaborate s i m) = nx_mstatus_MIE h"
    and "nx_mstatus_MPIE (elaborate s i m) = nx_mstatus_MPIE h"
    and "z_reg (elaborate s i m) = z_reg h"
    and "x_reg (elaborate s i m) = x_reg h"
    and "y_reg (elaborate s i m) = y_reg h"
    and "alu_op_to_z (elaborate s i m) = alu_op_to_z h"
    and "reg_to_x (elaborate s i m) = reg_to_x h"
    and "reg_to_y (elaborate s i m) = reg_to_y h"
    and "x_to_tmp (elaborate s i m) = x_to_tmp h"
    and "z_to_csr (elaborate s i m) = z_to_csr h"
    and "x_to_pc (elaborate s i m) = x_to_pc h"
    and "z_to_pc (elaborate s i m) = z_to_pc h"
    and "memaddr_to_pc (elaborate s i m) = memaddr_to_pc h"
    and "memdata_to_pc (elaborate s i m) = memdata_to_pc h"
    and "x_to_memaddr (elaborate s i m) = x_to_memaddr h"
    and "z_to_memaddr (elaborate s i m) = z_to_memaddr h"
    and "memdata_to_memaddr (elaborate s i m) = memdata_to_memaddr h"
    and "imm_format (elaborate s i m) = imm_format h"
    and "imm (elaborate s i m) = imm h"
    and "fatal (elaborate s i m) = fatal h"
    and "csr_num (elaborate s i m) =
           (if funct12_to_csr_num h then funct12 (instr s)
            else if mepc_num_to_csr_num h then CSRAddr_MEPC else csr_num h)"
    and "data_x_out (elaborate s i m) =
           (if pc_to_x h then pc s else if memdata_to_x h then memdata_rd i
            else if csr_to_x h then
              csr_value s (if funct12_to_csr_num h then funct12 (instr s)
                           else if mepc_num_to_csr_num h then CSRAddr_MEPC else csr_num h)
                (data_x_out h)
            else data_x_out h)"
    and "data_y_out (elaborate s i m) =
           (if imm_to_y h then imm h else if shamt_to_y h then ucast (shamt h)
            else data_y_out h)"
    and "pc_plus_4_to_pc (elaborate s i m) =
           (if is_last_instr_cycle h \<and> \<not> x_to_pc h \<and> \<not> z_to_pc h \<and> \<not> memaddr_to_pc h
               \<and> \<not> memdata_to_pc h then True else pc_plus_4_to_pc h)"
    and "pc_plus_4_to_memaddr (elaborate s i m) =
           (if is_last_instr_cycle h \<and> \<not> x_to_memaddr h \<and> \<not> z_to_memaddr h
               \<and> \<not> memdata_to_memaddr h then True else pc_plus_4_to_memaddr h)"
    and "instr_complete (elaborate s i m) =
           (if is_last_instr_cycle h then m else instr_complete h)"
  using assms by (simp_all add: elaborate_upd)

lemma elaborate_not_last:
  assumes "\<not> instr_misalign s" "h = handlers s i (defaults s)"
    "\<not> is_last_instr_cycle h" "\<not> instr_complete h"
  shows "\<not> is_interrupted s i (elaborate s i m)"
    and "next_instr_phase (elaborate s i m) = next_instr_phase h"
  using assms by (simp_all add: elaborate_upd is_interrupted_def)

lemma decode_mret:
  "opcode (0x30200073::u32) = Opcode_SYSTEM" "funct3 (0x30200073::u32) = SystemFunc_PRIV"
  "funct12 (0x30200073::u32) = PrivFunc_MRET" "rd (0x30200073::u32) = 0"
  "rs1 (0x30200073::u32) = 0" "slice 0 16 (0x30200073::u32) \<noteq> 0"
  by (simp_all add: opcode_def funct3_def funct12_def rd_def rs1_def slice_def)

lemma decode_ecall:
  "opcode (0x00000073::u32) = Opcode_SYSTEM" "funct3 (0x00000073::u32) = SystemFunc_PRIV"
  "funct12 (0x00000073::u32) = PrivFunc_ECALL" "slice 0 16 (0x00000073::u32) \<noteq> 0"
  by (simp_all add: opcode_def funct3_def funct12_def slice_def)

lemma decode_ebreak:
  "opcode (0x00100073::u32) = Opcode_SYSTEM" "funct3 (0x00100073::u32) = SystemFunc_PRIV"
  "funct12 (0x00100073::u32) = PrivFunc_EBREAK" "slice 0 16 (0x00100073::u32) \<noteq> 0"
  by (simp_all add: opcode_def funct3_def funct12_def slice_def)

lemma handle_system_priv:
  "funct3 (instr s) = SystemFunc_PRIV \<Longrightarrow>
   handle_system s c = handle_PRIV s (set_imm_format s OpcodeFormat_SYS c)"
  by (simp add: handle_system_def Let_def)

lemma handlers_system:
  assumes "\<not> trap s" "\<not> instr_misalign s" "slice 0 16 (instr s) \<noteq> 0" "instr s \<noteq> 0xFFFFFFFF"
    "opcode (instr s) = Opcode_SYSTEM"
  shows "handlers s i c = handle_system s c"
  using assms by (simp add: handlers_def)

lemma handlers_mret:
  assumes "\<not> trap s" "\<not> instr_misalign s" "instr s = 0x30200073"
  shows "handlers s i c = handle_MRET s (set_imm_format s OpcodeFormat_SYS c)"
proof -
  have "handlers s i c = handle_system s c"
    using assms(1,2) by (intro handlers_system) (simp_all add: assms(3) decode_mret)
  also have "\<dots> = handle_PRIV s (set_imm_format s OpcodeFormat_SYS c)"
    by (rule handle_system_priv) (simp add: assms(3) decode_mret)
  also have "\<dots> = handle_MRET s (set_imm_format s OpcodeFormat_SYS c)"
    by (simp add: handle_PRIV_def assms(3) decode_mret)
  finally show ?thesis .
qed

lemma handlers_ecall_ebreak:
  assumes "\<not> trap s" "\<not> instr_misalign s" "instr s = 0x00000073 \<or> instr s = 0x00100073"
  shows "handlers s i c = handle_illegal_instr s (set_imm_format s OpcodeFormat_SYS c)"
proof -
  have d: "opcode (instr s) = Opcode_SYSTEM" "funct3 (instr s) = SystemFunc_PRIV"
    "funct12 (instr s) \<noteq> PrivFunc_MRET" "slice 0 16 (instr s) \<noteq> 0" "instr s \<noteq> 0xFFFFFFFF"
    using assms(3) decode_ecall decode_ebreak by auto
  have "handlers s i c = handle_system s c"
    using assms(1,2) d by (intro handlers_system)
  also have "\<dots> = handle_PRIV s (set_imm_format s OpcodeFormat_SYS c)"
    by (rule handle_system_priv) (rule d)
  also have "\<dots> = handle_illegal_instr s (set_imm_format s OpcodeFormat_SYS c)"
    using d(3) by (simp add: handle_PRIV_def)
  finally show ?thesis .
qed

lemma bit_assign_bit:
  "n < 32 \<Longrightarrow> bit (assign_bit n (Some b) w) k = (if k = n then b else bit w k)"
  "bit (assign_bit n None w) k = bit w k"
  by (auto simp add: assign_bit_def bit_set_bit_iff bit_unset_bit_iff
        dest: bit_imp_le_length split: bool.split)

lemma mret_step:
  assumes "executes i s 0x30200073" "wired i s regs"
  shows "pc (card_cycle i s) = mepc s
       \<and> bit (mstatus (card_cycle i s)) MStatus_MIE = bit (mstatus s) MStatus_MPIE
       \<and> bit (mstatus (card_cycle i s)) MStatus_MPIE
       \<and> trap_svc (card_cycle i s) = trap_svc s"
proof -
  let ?s2 = "after_ph2 i s"
  note x = executes_after_ph2 [OF assms(1)]
  define h where "h = handlers ?s2 i (defaults ?s2)"
  have hh: "h = handle_MRET ?s2 (set_imm_format ?s2 OpcodeFormat_SYS (defaults ?s2))"
    unfolding h_def by (rule handlers_mret [OF x(1,2,3)])
  note f = elaborate_frame [OF x(2) h_def, of True]
  have hs: "x_to_pc h" "csr_to_x h" "\<not> pc_to_x h" "\<not> memdata_to_x h" "\<not> reg_to_x h"
    "\<not> funct12_to_csr_num h" "mepc_num_to_csr_num h" "is_last_instr_cycle h"
    "nx_mstatus_MIE h = Some (bit (mstatus s) MStatus_MPIE)" "nx_mstatus_MPIE h = Some True"
    "nx_trap_svc h = None" "\<not> z_to_csr h" "\<not> pc_plus_4_to_pc h"
    by (simp_all add: hh handle_MRET_def set_imm_format_def defaults_def after_ph2_frame)
  have xin: "data_x_in i = mepc s"
    using assms(2)
    by (simp add: wired_def buses_wired_def card_signals_def f hs csr_value_def after_ph2_frame)
  show ?thesis
    by (simp add: card_cycle_def card_signals_def commit_ph1_sel f hs xin z_to_csr_at_def
          after_ph2_frame bit_assign_bit)
qed


text \<open>Claim C2 is right and the card is wrong. MRET does load PC with \<open>mepc\<close>, copy MPIE
  to MIE and set MPIE, but the card never clears \<open>trap_svc\<close>: \<open>handle_MRET\<close> has no
  statement for it, so after MRET it keeps the value it had, and inside a trap handler
  that is 1. The ROM raises \<open>exit_trap\<close> for MRET. The theorem is what the card does.\<close>

theorem mret_keeps_trap_svc:
  assumes "executes i s 0x30200073" "wired i s regs"
  shows "pc (card_cycle i s) = mepc s
       \<and> bit (mstatus (card_cycle i s)) MStatus_MIE = bit (mstatus s) MStatus_MPIE
       \<and> bit (mstatus (card_cycle i s)) MStatus_MPIE
       \<and> trap_svc (card_cycle i s) = trap_svc s
       \<and> (enable_sequencer_rom r \<and> opcode_select r = OpcodeSelect_MRET \<longrightarrow>
            exit_trap (rom r) \<and> pc_mux_select (rom r) = SeqMuxSelect_X
            \<and> rom_csr_to_x (rom r) \<and> rom_mepc_num_to_csr_num (rom r))"
  using mret_step [OF assms] rom_mret [of r] by simp

theorem mret_keeps_trap_svc_witness:
  "executes in_mret st_mret 0x30200073 \<and> wired in_mret st_mret (\<lambda>_. 0)
   \<and> trap_svc st_mret \<and> mepc st_mret = 0x104
   \<and> pc (card_cycle in_mret st_mret) = 0x104
   \<and> trap_svc (card_cycle in_mret st_mret)
   \<and> exit_trap (rom rom_in_mret)"
proof -
  have h1: "executes in_mret st_mret 0x30200073" and h2: "wired in_mret st_mret (\<lambda>_. 0)"
    and h3: "trap_svc st_mret" and h4: "mepc st_mret = 0x104"
    and h5: "enable_sequencer_rom rom_in_mret"
    and h6: "opcode_select rom_in_mret = OpcodeSelect_MRET"
    by code_simp+
  show ?thesis
    using mret_keeps_trap_svc [OF h1 h2, of rom_in_mret] h1 h2 h3 h5 h6 by (simp add: h4)
qed

lemma illegal_step:
  assumes "executes i s w"
    and "\<And>s' c. \<not> trap s' \<Longrightarrow> \<not> instr_misalign s' \<Longrightarrow> instr s' = w \<Longrightarrow>
           \<exists>c'. handlers s' i c = handle_illegal_instr s' c'"
  shows "trap (card_cycle i s) \<and> exception (card_cycle i s)
       \<and> trap_cause (card_cycle i s) = TrapCause_EXC_ILLEGAL_INSTR
       \<and> mepc (card_cycle i s) = pc s \<and> mtval (card_cycle i s) = w"
proof -
  let ?s1 = "latch_instr i s" and ?s2 = "after_ph2 i s"
  note x = executes_after_ph2 [OF assms(1)] and y = executes_latch [OF assms(1)]
  obtain c1 where h1: "handlers ?s1 i (defaults ?s1) = handle_illegal_instr ?s1 c1"
    using assms(2) [OF y(1,2,3)] by blast
  obtain c2 where h2: "handlers ?s2 i (defaults ?s2) = handle_illegal_instr ?s2 c2"
    using assms(2) [OF x(1,2,3)] by blast
  note f1 = elaborate_frame [OF y(2) refl, of i False]
  note f2 = elaborate_frame [OF x(2) refl, of i True]
  have ph2: "exception ?s2" "trap_cause ?s2 = TrapCause_EXC_ILLEGAL_INSTR"
    by (simp_all add: after_ph2_ph2 f1 h1 handle_illegal_instr_def set_exception_def)
  show ?thesis
    using x(3)
    by (simp add: card_cycle_def card_signals_def commit_ph1_sel f2 h2 ph2
          handle_illegal_instr_def set_exception_def after_ph2_frame)
qed

lemma ecall_ebreak_card:
  assumes "executes i s w" "w = 0x00000073 \<or> w = 0x00100073"
  shows "trap (card_cycle i s) \<and> exception (card_cycle i s)
       \<and> trap_cause (card_cycle i s) = TrapCause_EXC_ILLEGAL_INSTR
       \<and> mepc (card_cycle i s) = pc s \<and> mtval (card_cycle i s) = w"
proof (rule illegal_step [OF assms(1)])
  fix s' c assume "\<not> trap s'" "\<not> instr_misalign s'" "instr s' = w"
  then show "\<exists>c'. handlers s' i c = handle_illegal_instr s' c'"
    using handlers_ecall_ebreak [of s' i c] assms(2) by blast
qed


text \<open>Claim C3, as stated, fails on the card: its \<open>handle_PRIV\<close> knows MRET only, and
  ECALL takes the default branch to \<open>handle_illegal_instr\<close>. ECALL at \<open>0x300\<close> leaves
  cause 2 (not \<open>0xB\<close>), \<open>mepc = 0x300\<close> (not PC + 4) and \<open>mtval\<close> the instruction word
  (not PC), and the trap entry that follows ends in \<open>fatal\<close>.\<close>

theorem ecall_ebreak_counterexample:
  "executes in_ecall st_ecall 0x00000073 \<and> pc st_ecall = 0x300
   \<and> trap (card_cycle in_ecall st_ecall)
   \<and> trap_cause (card_cycle in_ecall st_ecall) = TrapCause_EXC_ILLEGAL_INSTR
   \<and> trap_cause (card_cycle in_ecall st_ecall) \<noteq> TrapCause_EXC_ECALL_FROM_MACH_MODE
   \<and> mepc (card_cycle in_ecall st_ecall) = 0x300
   \<and> mepc (card_cycle in_ecall st_ecall) \<noteq> pc st_ecall + 4
   \<and> mtval (card_cycle in_ecall st_ecall) = 0x00000073
   \<and> mtval (card_cycle in_ecall st_ecall) \<noteq> pc st_ecall
   \<and> mcause (card_cycle in_vec (card_cycle in_ecall st_ecall)) = TrapCause_EXC_ILLEGAL_INSTR
   \<and> fatal (card_signals in_handler (card_cycle in_vec (card_cycle in_ecall st_ecall)))"
  by code_simp

text \<open>Claim C3, amended. In the ROM, ECALL raises a non-fatal trap with cause
  \<open>EXC_ECALL_FROM_MACH_MODE\<close> (\<open>0xB\<close>) and EBREAK one with cause \<open>EXC_BREAKPOINT\<close>
  (\<open>0x3\<close>), in both cases saving PC + 4 in \<open>mepc\<close> and the PC of the instruction in
  \<open>mtval\<close>. The sequencer card has no case for either: it raises the illegal-instruction
  exception for them, with \<open>mepc\<close> the PC and \<open>mtval\<close> the instruction word.\<close>

theorem ecall_ebreak_traps:
  "(enable_sequencer_rom r \<and> opcode_select r = OpcodeSelect_ECALL \<longrightarrow>
      save_trap d (rom r) t =
        \<lparr>saved_mcause = TrapCause_EXC_ECALL_FROM_MACH_MODE, saved_mepc = dp_pc d + 4,
         saved_mtval = dp_pc d\<rparr>
      \<and> \<not> next_fatal (rom r) \<and> next_trap (rom r) \<and> next_exception (rom r))
   \<and> (enable_sequencer_rom r \<and> opcode_select r = OpcodeSelect_EBREAK \<longrightarrow>
      save_trap d (rom r) t =
        \<lparr>saved_mcause = TrapCause_EXC_BREAKPOINT, saved_mepc = dp_pc d + 4,
         saved_mtval = dp_pc d\<rparr>
      \<and> \<not> next_fatal (rom r) \<and> next_trap (rom r) \<and> next_exception (rom r))
   \<and> (executes i s w \<and> (w = 0x00000073 \<or> w = 0x00100073) \<longrightarrow>
      trap (card_cycle i s) \<and> exception (card_cycle i s)
      \<and> trap_cause (card_cycle i s) = TrapCause_EXC_ILLEGAL_INSTR
      \<and> mepc (card_cycle i s) = pc s \<and> mtval (card_cycle i s) = w)"
  using rom_ecall [of r d t] rom_ebreak [of r d t] ecall_ebreak_card [of i s w]
  by blast

theorem ecall_ebreak_traps_witness:
  "enable_sequencer_rom rom_in_ecall \<and> opcode_select rom_in_ecall = OpcodeSelect_ECALL
   \<and> save_trap dp_ecall (rom rom_in_ecall) no_trap_csrs =
        \<lparr>saved_mcause = 0xB, saved_mepc = 0x304, saved_mtval = 0x300\<rparr>
   \<and> enable_sequencer_rom rom_in_ebreak \<and> opcode_select rom_in_ebreak = OpcodeSelect_EBREAK
   \<and> save_trap dp_ecall (rom rom_in_ebreak) no_trap_csrs =
        \<lparr>saved_mcause = 3, saved_mepc = 0x304, saved_mtval = 0x300\<rparr>
   \<and> executes in_ecall st_ecall 0x00000073
   \<and> trap_cause (card_cycle in_ecall st_ecall) = TrapCause_EXC_ILLEGAL_INSTR
   \<and> mepc (card_cycle in_ecall st_ecall) = 0x300"
proof -
  have h1: "enable_sequencer_rom rom_in_ecall"
    and h2: "opcode_select rom_in_ecall = OpcodeSelect_ECALL"
    and h3: "enable_sequencer_rom rom_in_ebreak"
    and h4: "opcode_select rom_in_ebreak = OpcodeSelect_EBREAK"
    and h5: "executes in_ecall st_ecall 0x00000073"
    and h6: "dp_pc dp_ecall = 0x300" and h7: "pc st_ecall = 0x300"
    by code_simp+
  show ?thesis
    using ecall_ebreak_traps [of rom_in_ecall dp_ecall no_trap_csrs in_ecall st_ecall "0x00000073"]
      ecall_ebreak_traps [of rom_in_ebreak dp_ecall no_trap_csrs in_ecall st_ecall "0x00000073"]
      h1 h2 h3 h4 h5
    by (simp add: h6 h7)
qed

subsection \<open>Exceptions raised by an instruction\<close>

lemma executes_stage:
  assumes "executes i s w" "s' = latch_instr i s \<or> s' = after_ph2 i s"
  shows "\<not> trap s'" "\<not> instr_misalign s'" "instr s' = w" "slice 0 16 (instr s') \<noteq> 0"
    "instr s' \<noteq> 0xFFFFFFFF" "pc s' = pc s" "instr_phase s' = instr_phase s"
    "memaddr s' = memaddr s" "stored_alu_eq s' = stored_alu_eq s"
    "stored_alu_lt s' = stored_alu_lt s" "stored_alu_ltu s' = stored_alu_ltu s"
  using assms executes_latch [OF assms(1)] executes_after_ph2 [OF assms(1)]
  by (auto simp add: latch_instr_frame after_ph2_frame)

lemma elaborate_next_phase:
  "\<not> instr_misalign s \<Longrightarrow> next_instr_phase (handlers s i (defaults s)) = 0 \<Longrightarrow>
   next_instr_phase (elaborate s i m) = 0"
  by (simp add: elaborate_upd)

lemma exception_step:
  assumes "executes i s w"
    and "\<And>s'. s' = latch_instr i s \<or> s' = after_ph2 i s \<Longrightarrow>
           nx_exception (handlers s' i (defaults s')) = Some True
         \<and> nx_trap_cause (handlers s' i (defaults s')) = Some cause
         \<and> nx_mtval (handlers s' i (defaults s')) = Some v
         \<and> nx_mepc (handlers s' i (defaults s')) = Some (pc s')
         \<and> nx_trap (handlers s' i (defaults s')) = Some True
         \<and> next_instr_phase (handlers s' i (defaults s')) = 0"
  shows "trap (card_cycle i s) \<and> exception (card_cycle i s)
       \<and> trap_cause (card_cycle i s) = cause
       \<and> mepc (card_cycle i s) = pc s \<and> mtval (card_cycle i s) = v
       \<and> instr_phase (card_cycle i s) = 0"
proof -
  let ?s1 = "latch_instr i s" and ?s2 = "after_ph2 i s"
  note x = executes_after_ph2 [OF assms(1)] and y = executes_latch [OF assms(1)]
  have h1: "nx_exception (handlers ?s1 i (defaults ?s1)) = Some True"
    "nx_trap_cause (handlers ?s1 i (defaults ?s1)) = Some cause"
    using assms(2) [of ?s1] by simp_all
  have h2: "nx_mtval (handlers ?s2 i (defaults ?s2)) = Some v"
    "nx_mepc (handlers ?s2 i (defaults ?s2)) = Some (pc ?s2)"
    "nx_trap (handlers ?s2 i (defaults ?s2)) = Some True"
    "next_instr_phase (handlers ?s2 i (defaults ?s2)) = 0"
    using assms(2) [of ?s2] by simp_all
  note f1 = elaborate_frame [OF y(2) refl, of i False]
  note f2 = elaborate_frame [OF x(2) refl, of i True]
  have ph2: "exception ?s2" "trap_cause ?s2 = cause"
    by (simp_all add: after_ph2_ph2 f1 h1)
  have np: "next_instr_phase (elaborate ?s2 i True) = 0"
    by (rule elaborate_next_phase [OF x(2) h2(4)])
  show ?thesis
    by (simp add: card_cycle_def card_signals_def commit_ph1_sel f2 h2 ph2 np after_ph2_frame)
qed

subsection \<open>Misaligned loads and stores\<close>

lemma slice_bit0:
  assumes "bit (a::u32) 0"
  shows "slice 0 2 a \<noteq> 0" "slice 0 2 a \<noteq> 2"
proof -
  have b: "bit (slice 0 2 a) 0" using assms by (simp add: slice_def bit_take_bit_iff)
  show "slice 0 2 a \<noteq> 0" using b by auto
  show "slice 0 2 a \<noteq> 2" using b by auto
qed

lemma handle_load_misaligned:
  assumes "instr_phase s = 1"
    and "(funct3 (instr s) \<in> {MemAccessWidth_H, MemAccessWidth_HU} \<and> bit (memaddr s) 0)
         \<or> (funct3 (instr s) = MemAccessWidth_W \<and> slice 0 2 (memaddr s) \<noteq> 0)"
  shows "handle_load s c =
     set_exception s TrapCause_EXC_LOAD_ADDR_MISALIGN (memaddr s)
       ((set_imm_format s OpcodeFormat_I c)\<lparr>mem_rd := True, memdata_to_x := True,
          shamt_to_y := True, alu_op_to_z := AluOp_SLL, z_reg := rd (instr s),
          next_instr_phase := 2\<rparr>)"
proof -
  consider (h) "funct3 (instr s) = MemAccessWidth_H" "bit (memaddr s) 0"
    | (hu) "funct3 (instr s) = MemAccessWidth_HU" "bit (memaddr s) 0"
    | (w) "funct3 (instr s) = MemAccessWidth_W" "slice 0 2 (memaddr s) \<noteq> 0"
    using assms(2) by blast
  then show ?thesis
  proof cases
    case h
    then show ?thesis using assms(1) slice_bit0 [of "memaddr s"]
      by (simp add: handle_load_def Let_def)
  next
    case hu
    then show ?thesis using assms(1) slice_bit0 [of "memaddr s"]
      by (simp add: handle_load_def Let_def)
  next
    case w
    then show ?thesis using assms(1)
      by (simp add: handle_load_def Let_def)
  qed
qed

lemma handle_store_misaligned:
  assumes "instr_phase s = 1"
    and "(funct3 (instr s) = MemAccessWidth_H \<and> bit (memaddr s) 0)
         \<or> (funct3 (instr s) = MemAccessWidth_W \<and> slice 0 2 (memaddr s) \<noteq> 0)"
  shows "handle_store s c =
     set_exception s TrapCause_EXC_STORE_AMO_ADDR_MISALIGN (memaddr s)
       ((set_imm_format s OpcodeFormat_S c)\<lparr>reg_to_x := True, x_reg := rs2 (instr s),
          shamt_to_y := True, alu_op_to_z := AluOp_SLL, z_to_memdata := True,
          next_instr_phase := 2\<rparr>)"
proof -
  consider (h) "funct3 (instr s) = MemAccessWidth_H" "bit (memaddr s) 0"
    | (w) "funct3 (instr s) = MemAccessWidth_W" "slice 0 2 (memaddr s) \<noteq> 0"
    using assms(2) by blast
  then show ?thesis
  proof cases
    case h
    then show ?thesis using assms(1) slice_bit0 [of "memaddr s"]
      by (simp add: handle_store_def Let_def)
  next
    case w
    then show ?thesis using assms(1)
      by (simp add: handle_store_def Let_def)
  qed
qed

lemma load_misaligned_card:
  assumes "executes i s w" "opcode w = Opcode_LOAD" "instr_phase s = 1"
    and "(funct3 w \<in> {MemAccessWidth_H, MemAccessWidth_HU} \<and> bit (memaddr s) 0)
         \<or> (funct3 w = MemAccessWidth_W \<and> slice 0 2 (memaddr s) \<noteq> 0)"
  shows "trap (card_cycle i s) \<and> exception (card_cycle i s)
       \<and> trap_cause (card_cycle i s) = TrapCause_EXC_LOAD_ADDR_MISALIGN
       \<and> mepc (card_cycle i s) = pc s \<and> mtval (card_cycle i s) = memaddr s
       \<and> instr_phase (card_cycle i s) = 0"
    and "z_reg (card_signals i s) = rd w"
    and "alu_op_to_z (card_signals i s) = AluOp_SLL"
proof -
  have H: "handlers s' i c = set_exception s' TrapCause_EXC_LOAD_ADDR_MISALIGN (memaddr s)
       ((set_imm_format s' OpcodeFormat_I c)\<lparr>mem_rd := True, memdata_to_x := True,
          shamt_to_y := True, alu_op_to_z := AluOp_SLL, z_reg := rd w,
          next_instr_phase := 2\<rparr>)"
    if "s' = latch_instr i s \<or> s' = after_ph2 i s" for s' c
  proof -
    note e = executes_stage [OF assms(1) that]
    have "handlers s' i c = handle_load s' c"
      using e(1,2,4,5) by (rule handlers_opcode(4)) (simp add: e(3) assms(2))
    also have "\<dots> = set_exception s' TrapCause_EXC_LOAD_ADDR_MISALIGN (memaddr s')
       ((set_imm_format s' OpcodeFormat_I c)\<lparr>mem_rd := True, memdata_to_x := True,
          shamt_to_y := True, alu_op_to_z := AluOp_SLL, z_reg := rd (instr s'),
          next_instr_phase := 2\<rparr>)"
      using assms(3,4) by (intro handle_load_misaligned) (simp_all add: e)
    finally show ?thesis by (simp add: e)
  qed
  show "trap (card_cycle i s) \<and> exception (card_cycle i s)
       \<and> trap_cause (card_cycle i s) = TrapCause_EXC_LOAD_ADDR_MISALIGN
       \<and> mepc (card_cycle i s) = pc s \<and> mtval (card_cycle i s) = memaddr s
       \<and> instr_phase (card_cycle i s) = 0"
    by (rule exception_step [OF assms(1)]) (simp add: H set_exception_def)
  note x = executes_after_ph2 [OF assms(1)]
  note f2 = elaborate_frame [OF x(2) refl, of i True]
  show "z_reg (card_signals i s) = rd w" "alu_op_to_z (card_signals i s) = AluOp_SLL"
    by (simp_all add: card_signals_def f2 H set_exception_def)
qed

lemma store_misaligned_card:
  assumes "executes i s w" "opcode w = Opcode_STORE" "instr_phase s = 1"
    and "(funct3 w = MemAccessWidth_H \<and> bit (memaddr s) 0)
         \<or> (funct3 w = MemAccessWidth_W \<and> slice 0 2 (memaddr s) \<noteq> 0)"
  shows "trap (card_cycle i s) \<and> exception (card_cycle i s)
       \<and> trap_cause (card_cycle i s) = TrapCause_EXC_STORE_AMO_ADDR_MISALIGN
       \<and> mepc (card_cycle i s) = pc s \<and> mtval (card_cycle i s) = memaddr s
       \<and> instr_phase (card_cycle i s) = 0"
    and "z_reg (card_signals i s) = 0"
proof -
  have H: "handlers s' i c = set_exception s' TrapCause_EXC_STORE_AMO_ADDR_MISALIGN (memaddr s)
       ((set_imm_format s' OpcodeFormat_S c)\<lparr>reg_to_x := True, x_reg := rs2 w,
          shamt_to_y := True, alu_op_to_z := AluOp_SLL, z_to_memdata := True,
          next_instr_phase := 2\<rparr>)"
    if "s' = latch_instr i s \<or> s' = after_ph2 i s" for s' c
  proof -
    note e = executes_stage [OF assms(1) that]
    have "handlers s' i c = handle_store s' c"
      using e(1,2,4,5) by (rule handlers_opcode(5)) (simp add: e(3) assms(2))
    also have "\<dots> = set_exception s' TrapCause_EXC_STORE_AMO_ADDR_MISALIGN (memaddr s')
       ((set_imm_format s' OpcodeFormat_S c)\<lparr>reg_to_x := True, x_reg := rs2 (instr s'),
          shamt_to_y := True, alu_op_to_z := AluOp_SLL, z_to_memdata := True,
          next_instr_phase := 2\<rparr>)"
      using assms(3,4) by (intro handle_store_misaligned) (simp_all add: e)
    finally show ?thesis by (simp add: e)
  qed
  show "trap (card_cycle i s) \<and> exception (card_cycle i s)
       \<and> trap_cause (card_cycle i s) = TrapCause_EXC_STORE_AMO_ADDR_MISALIGN
       \<and> mepc (card_cycle i s) = pc s \<and> mtval (card_cycle i s) = memaddr s
       \<and> instr_phase (card_cycle i s) = 0"
    by (rule exception_step [OF assms(1)]) (simp add: H set_exception_def)
  note x = executes_after_ph2 [OF assms(1)]
  note f2 = elaborate_frame [OF x(2) refl, of i True]
  show "z_reg (card_signals i s) = 0"
    by (simp add: card_signals_def f2 H set_exception_def set_imm_format_def defaults_def)
qed

text \<open>Claim C7 is right and the card is wrong for loads. A load or store whose address
  is misaligned for its width raises the load or store address-misaligned exception with
  \<open>mtval\<close> the address. For a store no register is written. For a load, phase 1 of
  \<open>handle_load\<close> of the card selects \<open>z_reg = rd\<close> and the ALU before it looks at the
  alignment, and \<open>set_exception\<close> withdraws neither: in the cycle that raises the trap,
  the value on Z is written to \<open>rd\<close>. The ROM checks the exceptions first and leaves
  \<open>z_reg_select\<close> at \<open>ZERO\<close>. The theorem is what the code does.\<close>

theorem misaligned_load_writes_rd:
  "(executes i s w \<and> opcode w = Opcode_LOAD \<and> instr_phase s = 1
      \<and> ((funct3 w \<in> {MemAccessWidth_H, MemAccessWidth_HU} \<and> bit (memaddr s) 0)
         \<or> (funct3 w = MemAccessWidth_W \<and> slice 0 2 (memaddr s) \<noteq> 0)) \<longrightarrow>
      trap (card_cycle i s)
      \<and> trap_cause (card_cycle i s) = TrapCause_EXC_LOAD_ADDR_MISALIGN
      \<and> mtval (card_cycle i s) = memaddr s \<and> mepc (card_cycle i s) = pc s
      \<and> z_reg (card_signals i s) = rd w
      \<and> (rd w \<noteq> 0 \<longrightarrow> regfile_write (card_signals i s) i regs (rd w) = data_z_in i))
   \<and> (executes i s w \<and> opcode w = Opcode_STORE \<and> instr_phase s = 1
      \<and> ((funct3 w = MemAccessWidth_H \<and> bit (memaddr s) 0)
         \<or> (funct3 w = MemAccessWidth_W \<and> slice 0 2 (memaddr s) \<noteq> 0)) \<longrightarrow>
      trap (card_cycle i s)
      \<and> trap_cause (card_cycle i s) = TrapCause_EXC_STORE_AMO_ADDR_MISALIGN
      \<and> mtval (card_cycle i s) = memaddr s \<and> mepc (card_cycle i s) = pc s
      \<and> regfile_write (card_signals i s) i regs = regs)
   \<and> (enable_sequencer_rom r \<and> opcode_select r = OpcodeSelect_LOAD \<and> rom_instr_phase r = 1
      \<and> ((rom_funct3 r \<in> {MemAccessWidth_H, MemAccessWidth_HU} \<and> bit (memaddr_2_lsb r) 0)
         \<or> (rom_funct3 r = MemAccessWidth_W \<and> memaddr_2_lsb r \<noteq> 0)) \<longrightarrow>
      next_trap (rom r) \<and> rom_const (rom r) = ConstSelect_EXC_LOAD_ADDR_MISALIGN
      \<and> z_mux_select (rom r) = SeqMuxSelect_MEMADDR
      \<and> z_reg_select (rom r) = InstrReg_ZERO)
   \<and> (enable_sequencer_rom r \<and> opcode_select r = OpcodeSelect_STORE \<and> rom_instr_phase r = 1
      \<and> ((rom_funct3 r = MemAccessWidth_H \<and> bit (memaddr_2_lsb r) 0)
         \<or> (rom_funct3 r = MemAccessWidth_W \<and> memaddr_2_lsb r \<noteq> 0)) \<longrightarrow>
      next_trap (rom r) \<and> rom_const (rom r) = ConstSelect_EXC_STORE_AMO_ADDR_MISALIGN
      \<and> z_mux_select (rom r) = SeqMuxSelect_MEMADDR
      \<and> z_reg_select (rom r) = InstrReg_ZERO)"
proof (intro conjI impI)
  assume a: "executes i s w \<and> opcode w = Opcode_LOAD \<and> instr_phase s = 1
      \<and> ((funct3 w \<in> {MemAccessWidth_H, MemAccessWidth_HU} \<and> bit (memaddr s) 0)
         \<or> (funct3 w = MemAccessWidth_W \<and> slice 0 2 (memaddr s) \<noteq> 0))"
  then have l: "executes i s w" "opcode w = Opcode_LOAD" "instr_phase s = 1"
    "(funct3 w \<in> {MemAccessWidth_H, MemAccessWidth_HU} \<and> bit (memaddr s) 0)
         \<or> (funct3 w = MemAccessWidth_W \<and> slice 0 2 (memaddr s) \<noteq> 0)"
    by blast+
  note c = load_misaligned_card [OF l]
  show "trap (card_cycle i s)"
    "trap_cause (card_cycle i s) = TrapCause_EXC_LOAD_ADDR_MISALIGN"
    "mtval (card_cycle i s) = memaddr s" "mepc (card_cycle i s) = pc s"
    "z_reg (card_signals i s) = rd w"
    using c by simp_all
  assume "rd w \<noteq> 0"
  then show "regfile_write (card_signals i s) i regs (rd w) = data_z_in i"
    by (simp add: regfile_write_def c(2))
next
  assume a: "executes i s w \<and> opcode w = Opcode_STORE \<and> instr_phase s = 1
      \<and> ((funct3 w = MemAccessWidth_H \<and> bit (memaddr s) 0)
         \<or> (funct3 w = MemAccessWidth_W \<and> slice 0 2 (memaddr s) \<noteq> 0))"
  then have l: "executes i s w" "opcode w = Opcode_STORE" "instr_phase s = 1"
    "(funct3 w = MemAccessWidth_H \<and> bit (memaddr s) 0)
         \<or> (funct3 w = MemAccessWidth_W \<and> slice 0 2 (memaddr s) \<noteq> 0)"
    by blast+
  note c = store_misaligned_card [OF l]
  show "trap (card_cycle i s)"
    "trap_cause (card_cycle i s) = TrapCause_EXC_STORE_AMO_ADDR_MISALIGN"
    "mtval (card_cycle i s) = memaddr s" "mepc (card_cycle i s) = pc s"
    using c by simp_all
  show "regfile_write (card_signals i s) i regs = regs"
    by (simp add: regfile_write_def c(2))
next
  assume a: "enable_sequencer_rom r \<and> opcode_select r = OpcodeSelect_LOAD
      \<and> rom_instr_phase r = 1
      \<and> ((rom_funct3 r \<in> {MemAccessWidth_H, MemAccessWidth_HU} \<and> bit (memaddr_2_lsb r) 0)
         \<or> (rom_funct3 r = MemAccessWidth_W \<and> memaddr_2_lsb r \<noteq> 0))"
  then have "rom r = rom_set_exception ConstSelect_EXC_LOAD_ADDR_MISALIGN SeqMuxSelect_MEMADDR
                   True rom_defaults"
    by (intro rom_load_misaligned) blast+
  then show "next_trap (rom r)" "rom_const (rom r) = ConstSelect_EXC_LOAD_ADDR_MISALIGN"
    "z_mux_select (rom r) = SeqMuxSelect_MEMADDR" "z_reg_select (rom r) = InstrReg_ZERO"
    by (simp_all add: rom_set_exception_def rom_defaults_def)
next
  assume a: "enable_sequencer_rom r \<and> opcode_select r = OpcodeSelect_STORE
      \<and> rom_instr_phase r = 1
      \<and> ((rom_funct3 r = MemAccessWidth_H \<and> bit (memaddr_2_lsb r) 0)
         \<or> (rom_funct3 r = MemAccessWidth_W \<and> memaddr_2_lsb r \<noteq> 0))"
  then have "rom r = rom_set_exception ConstSelect_EXC_STORE_AMO_ADDR_MISALIGN
                   SeqMuxSelect_MEMADDR True rom_defaults"
    by (intro rom_store_misaligned) blast+
  then show "next_trap (rom r)"
    "rom_const (rom r) = ConstSelect_EXC_STORE_AMO_ADDR_MISALIGN"
    "z_mux_select (rom r) = SeqMuxSelect_MEMADDR" "z_reg_select (rom r) = InstrReg_ZERO"
    by (simp_all add: rom_set_exception_def rom_defaults_def)
qed

theorem misaligned_load_writes_rd_witness:
  "executes in_lw1 st_lw1 0x00102283 \<and> wired in_lw1 st_lw1 (\<lambda>_. 0)
   \<and> instr_phase st_lw1 = 1 \<and> memaddr st_lw1 = 1 \<and> rd (0x00102283::u32) = 5
   \<and> trap (card_cycle in_lw1 st_lw1)
   \<and> trap_cause (card_cycle in_lw1 st_lw1) = TrapCause_EXC_LOAD_ADDR_MISALIGN
   \<and> regfile_write (card_signals in_lw1 st_lw1) in_lw1 (\<lambda>_. 0) 5 = 0x11223344
   \<and> executes quiet_in st_sw1 0x005020A3
   \<and> trap_cause (card_cycle quiet_in st_sw1) = TrapCause_EXC_STORE_AMO_ADDR_MISALIGN
   \<and> regfile_write (card_signals quiet_in st_sw1) quiet_in (\<lambda>_. 0) = (\<lambda>_. 0)
   \<and> z_reg_select (rom rom_in_lw_misaligned) = InstrReg_ZERO
   \<and> z_reg_select (rom rom_in_sw_misaligned) = InstrReg_ZERO"
proof -
  have l: "executes in_lw1 st_lw1 0x00102283" "opcode (0x00102283::u32) = Opcode_LOAD"
    "instr_phase st_lw1 = 1" "funct3 (0x00102283::u32) = MemAccessWidth_W"
    "slice 0 2 (memaddr st_lw1) \<noteq> 0" "rd (0x00102283::u32) = 5" "memaddr st_lw1 = 1"
    "data_z_in in_lw1 = 0x11223344" "wired in_lw1 st_lw1 (\<lambda>_. 0)"
    by code_simp+
  have s: "executes quiet_in st_sw1 0x005020A3" "opcode (0x005020A3::u32) = Opcode_STORE"
    "instr_phase st_sw1 = 1" "funct3 (0x005020A3::u32) = MemAccessWidth_W"
    "slice 0 2 (memaddr st_sw1) \<noteq> 0"
    by code_simp+
  have r: "enable_sequencer_rom rom_in_lw_misaligned"
    "opcode_select rom_in_lw_misaligned = OpcodeSelect_LOAD"
    "rom_instr_phase rom_in_lw_misaligned = 1"
    "rom_funct3 rom_in_lw_misaligned = MemAccessWidth_W"
    "memaddr_2_lsb rom_in_lw_misaligned \<noteq> 0"
    "enable_sequencer_rom rom_in_sw_misaligned"
    "opcode_select rom_in_sw_misaligned = OpcodeSelect_STORE"
    "rom_instr_phase rom_in_sw_misaligned = 1"
    "rom_funct3 rom_in_sw_misaligned = MemAccessWidth_W"
    "memaddr_2_lsb rom_in_sw_misaligned \<noteq> 0"
    by code_simp+
  have A: "trap (card_cycle in_lw1 st_lw1)
      \<and> trap_cause (card_cycle in_lw1 st_lw1) = TrapCause_EXC_LOAD_ADDR_MISALIGN
      \<and> (rd (0x00102283::u32) \<noteq> 0 \<longrightarrow>
           regfile_write (card_signals in_lw1 st_lw1) in_lw1 (\<lambda>_. 0) (rd (0x00102283::u32))
             = data_z_in in_lw1)
      \<and> z_reg_select (rom rom_in_lw_misaligned) = InstrReg_ZERO"
    using misaligned_load_writes_rd
            [of in_lw1 st_lw1 "0x00102283" "\<lambda>_. 0" rom_in_lw_misaligned] l(1-5) r(1-5)
    by blast
  have B: "regfile_write (card_signals in_lw1 st_lw1) in_lw1 (\<lambda>_. 0) 5 = 0x11223344"
    using A unfolding l(6) l(8) by simp
  have C: "trap_cause (card_cycle quiet_in st_sw1) = TrapCause_EXC_STORE_AMO_ADDR_MISALIGN
      \<and> regfile_write (card_signals quiet_in st_sw1) quiet_in (\<lambda>_. 0) = (\<lambda>_. 0)
      \<and> z_reg_select (rom rom_in_sw_misaligned) = InstrReg_ZERO"
    using misaligned_load_writes_rd
            [of quiet_in st_sw1 "0x005020A3" "\<lambda>_. 0" rom_in_sw_misaligned] s(1-5) r(6-10)
    by blast
  show ?thesis
    using A B C l(1,3,6,7,9) s(1) by blast
qed

subsection \<open>Branches to a misaligned target\<close>

lemma handle_branch_misaligned:
  assumes "instr_phase s \<noteq> 0" "slice 0 2 (data_z_in i) \<noteq> 0"
  shows "nx_exception (handle_branch s i c) = Some True"
    "nx_trap_cause (handle_branch s i c) = Some TrapCause_EXC_INSTR_ADDR_MISALIGN"
    "nx_mtval (handle_branch s i c) = Some (data_z_in i)"
    "nx_mepc (handle_branch s i c) = Some (pc s)"
    "nx_trap (handle_branch s i c) = Some True"
    "next_instr_phase (handle_branch s i c) = 0"
    "\<not> z_to_pc (handle_branch s i c)"
    "z_to_memaddr (handle_branch s i c)"
    "x_to_tmp (handle_branch s i c) = x_to_tmp c"
    "x_to_pc (handle_branch s i c) = x_to_pc c"
    "memaddr_to_pc (handle_branch s i c) = memaddr_to_pc c"
    "memdata_to_pc (handle_branch s i c) = memdata_to_pc c"
    "pc_plus_4_to_pc (handle_branch s i c) = pc_plus_4_to_pc c"
    "is_last_instr_cycle (handle_branch s i c) = is_last_instr_cycle c"
    "z_reg (handle_branch s i c) = z_reg c"
  using assms
  by (simp_all add: handle_branch_def Let_def set_exception_def handle_illegal_instr_def
        set_imm_format_def sig_if)

lemma branch_misaligned_card:
  assumes "executes i s w" "opcode w = Opcode_BRANCH" "instr_phase s = 1"
    and "slice 0 2 (data_z_in i) \<noteq> 0"
  shows "trap (card_cycle i s) \<and> exception (card_cycle i s)
       \<and> trap_cause (card_cycle i s) = TrapCause_EXC_INSTR_ADDR_MISALIGN
       \<and> mepc (card_cycle i s) = pc s \<and> mtval (card_cycle i s) = data_z_in i
       \<and> instr_phase (card_cycle i s) = 0"
    and "pc (card_cycle i s) = pc s"
    and "tmp (card_cycle i s) = tmp s"
    and "z_reg (card_signals i s) = 0"
proof -
  have H: "handlers s' i c = handle_branch s' i c" "instr_phase s' \<noteq> 0"
    if "s' = latch_instr i s \<or> s' = after_ph2 i s" for s' c
  proof -
    note e = executes_stage [OF assms(1) that]
    show "handlers s' i c = handle_branch s' i c"
      using e(1,2,4,5) by (rule handlers_opcode(3)) (simp add: e(3) assms(2))
    show "instr_phase s' \<noteq> 0" by (simp add: e assms(3))
  qed
  show "trap (card_cycle i s) \<and> exception (card_cycle i s)
       \<and> trap_cause (card_cycle i s) = TrapCause_EXC_INSTR_ADDR_MISALIGN
       \<and> mepc (card_cycle i s) = pc s \<and> mtval (card_cycle i s) = data_z_in i
       \<and> instr_phase (card_cycle i s) = 0"
    by (rule exception_step [OF assms(1)])
       (simp add: H handle_branch_misaligned [OF _ assms(4)])
  note x = executes_after_ph2 [OF assms(1)]
  note f2 = elaborate_frame [OF x(2) refl, of i True]
  note b = handle_branch_misaligned [OF H(2) assms(4), of "after_ph2 i s"]
  show "pc (card_cycle i s) = pc s" "tmp (card_cycle i s) = tmp s"
    "z_reg (card_signals i s) = 0"
    by (simp_all add: card_cycle_def card_signals_def commit_ph1_sel f2 H b defaults_def
          after_ph2_frame)
qed

text \<open>Claim C8, as stated, fails on the card: \<open>handle_branch\<close> of the card has two
  phases only. \<open>beq x0, x0, +2\<close> at \<open>0x100\<close> raises the exception in phase 1 itself, with
  \<open>mtval\<close> taken from Z; the next phase is 0, not 2, and \<open>tmp\<close> never sees the
  target.\<close>

theorem branch_misaligned_counterexample:
  "executes in_beq1 st_beq1 0x00000163 \<and> opcode (0x00000163::u32) = Opcode_BRANCH
   \<and> wired in_beq1 st_beq1 (\<lambda>_. 0)
   \<and> instr_phase st_beq1 = 1 \<and> slice 0 2 (data_z_in in_beq1) \<noteq> 0
   \<and> trap (card_cycle in_beq1 st_beq1)
   \<and> instr_phase (card_cycle in_beq1 st_beq1) = 0
   \<and> instr_phase (card_cycle in_beq1 st_beq1) \<noteq> 2
   \<and> mtval (card_cycle in_beq1 st_beq1) = 0x102
   \<and> tmp (card_cycle in_beq1 st_beq1) = 0
   \<and> mtval (card_cycle in_beq1 st_beq1) \<noteq> tmp (card_cycle in_beq1 st_beq1)"
  by code_simp

text \<open>Claim C8, amended. In the ROM, a branch whose target Z in phase 1 has
  \<open>Z[1:0] \<noteq> 0\<close> saves Z in \<open>tmp\<close> and goes to phase 2 with PC held, and phase 2 raises
  the instruction-address-misaligned exception with \<open>mtval = tmp\<close>. The sequencer card
  raises the same exception in phase 1 itself, with \<open>mtval\<close> the target on Z; it has no
  phase 2 and leaves \<open>tmp\<close> alone. Neither loads the PC with the target.\<close>

theorem branch_misaligned_target:
  "(enable_sequencer_rom r \<and> opcode_select r = OpcodeSelect_BRANCH \<and> rom_instr_phase r = 1
      \<and> rom_funct3 r \<in> {BranchCond_EQ, BranchCond_NE, BranchCond_LT, BranchCond_GE,
                           BranchCond_LTU, BranchCond_GEU}
      \<and> \<not> data_z_in_2_lsb0 r \<longrightarrow>
      rom_next_instr_phase (rom r) = 2 \<and> tmp_mux_select (rom r) = SeqMuxSelect_Z
      \<and> pc_mux_select (rom r) = SeqMuxSelect_PC \<and> \<not> next_trap (rom r))
   \<and> (enable_sequencer_rom r \<and> opcode_select r = OpcodeSelect_BRANCH \<and> rom_instr_phase r = 2
      \<longrightarrow>
      next_trap (rom r) \<and> pc_mux_select (rom r) = SeqMuxSelect_PC
      \<and> save_trap d (rom r) t =
           \<lparr>saved_mcause = TrapCause_EXC_INSTR_ADDR_MISALIGN, saved_mepc = dp_pc d,
            saved_mtval = dp_tmp d\<rparr>)
   \<and> (executes i s w \<and> opcode w = Opcode_BRANCH \<and> instr_phase s = 1
      \<and> slice 0 2 (data_z_in i) \<noteq> 0 \<longrightarrow>
      trap (card_cycle i s)
      \<and> trap_cause (card_cycle i s) = TrapCause_EXC_INSTR_ADDR_MISALIGN
      \<and> mtval (card_cycle i s) = data_z_in i \<and> mepc (card_cycle i s) = pc s
      \<and> pc (card_cycle i s) = pc s \<and> instr_phase (card_cycle i s) = 0
      \<and> tmp (card_cycle i s) = tmp s)"
proof (intro conjI impI)
  assume "enable_sequencer_rom r \<and> opcode_select r = OpcodeSelect_BRANCH
      \<and> rom_instr_phase r = 1
      \<and> rom_funct3 r \<in> {BranchCond_EQ, BranchCond_NE, BranchCond_LT, BranchCond_GE,
                           BranchCond_LTU, BranchCond_GEU}
      \<and> \<not> data_z_in_2_lsb0 r"
  then have a: "enable_sequencer_rom r" "opcode_select r = OpcodeSelect_BRANCH"
    "rom_instr_phase r = 1"
    "rom_funct3 r \<in> {BranchCond_EQ, BranchCond_NE, BranchCond_LT, BranchCond_GE,
                           BranchCond_LTU, BranchCond_GEU}"
    "\<not> data_z_in_2_lsb0 r"
    by blast+
  show "rom_next_instr_phase (rom r) = 2" "tmp_mux_select (rom r) = SeqMuxSelect_Z"
    "pc_mux_select (rom r) = SeqMuxSelect_PC" "\<not> next_trap (rom r)"
    using rom_branch_phase1 [OF a] by simp_all
next
  assume "enable_sequencer_rom r \<and> opcode_select r = OpcodeSelect_BRANCH
      \<and> rom_instr_phase r = 2"
  then have "rom r = rom_set_exception ConstSelect_EXC_INSTR_ADDR_MISALIGN SeqMuxSelect_TMP
                   True rom_defaults"
    by (intro rom_branch_phase2) simp_all
  then show "next_trap (rom r)" "pc_mux_select (rom r) = SeqMuxSelect_PC"
    "save_trap d (rom r) t =
           \<lparr>saved_mcause = TrapCause_EXC_INSTR_ADDR_MISALIGN, saved_mepc = dp_pc d,
            saved_mtval = dp_tmp d\<rparr>"
    by (simp_all add: rom_set_exception_def rom_defaults_def save_trap_def)
next
  assume "executes i s w \<and> opcode w = Opcode_BRANCH \<and> instr_phase s = 1
      \<and> slice 0 2 (data_z_in i) \<noteq> 0"
  then have a: "executes i s w" "opcode w = Opcode_BRANCH" "instr_phase s = 1"
    "slice 0 2 (data_z_in i) \<noteq> 0"
    by blast+
  note c = branch_misaligned_card [OF a]
  show "trap (card_cycle i s)"
    "trap_cause (card_cycle i s) = TrapCause_EXC_INSTR_ADDR_MISALIGN"
    "mtval (card_cycle i s) = data_z_in i" "mepc (card_cycle i s) = pc s"
    "pc (card_cycle i s) = pc s" "instr_phase (card_cycle i s) = 0"
    "tmp (card_cycle i s) = tmp s"
    using c by simp_all
qed

theorem branch_misaligned_target_witness:
  "enable_sequencer_rom rom_in_beq1 \<and> opcode_select rom_in_beq1 = OpcodeSelect_BRANCH
   \<and> rom_instr_phase rom_in_beq1 = 1 \<and> \<not> data_z_in_2_lsb0 rom_in_beq1
   \<and> rom_next_instr_phase (rom rom_in_beq1) = 2
   \<and> tmp_mux_select (rom rom_in_beq1) = SeqMuxSelect_Z
   \<and> rom_instr_phase rom_in_beq2 = 2
   \<and> save_trap dp_beq2 (rom rom_in_beq2) no_trap_csrs =
        \<lparr>saved_mcause = 0, saved_mepc = 0x100, saved_mtval = 0x102\<rparr>
   \<and> executes in_beq1 st_beq1 0x00000163 \<and> instr_phase st_beq1 = 1
   \<and> slice 0 2 (data_z_in in_beq1) \<noteq> 0
   \<and> trap (card_cycle in_beq1 st_beq1)
   \<and> mtval (card_cycle in_beq1 st_beq1) = 0x102
   \<and> pc (card_cycle in_beq1 st_beq1) = 0x100
   \<and> instr_phase (card_cycle in_beq1 st_beq1) = 0"
proof -
  have r: "enable_sequencer_rom rom_in_beq1" "opcode_select rom_in_beq1 = OpcodeSelect_BRANCH"
    "rom_instr_phase rom_in_beq1 = 1" "\<not> data_z_in_2_lsb0 rom_in_beq1"
    "rom_funct3 rom_in_beq1 = BranchCond_EQ"
    "enable_sequencer_rom rom_in_beq2" "opcode_select rom_in_beq2 = OpcodeSelect_BRANCH"
    "rom_instr_phase rom_in_beq2 = 2" "dp_pc dp_beq2 = 0x100" "dp_tmp dp_beq2 = 0x102"
    by code_simp+
  have c: "executes in_beq1 st_beq1 0x00000163" "opcode (0x00000163::u32) = Opcode_BRANCH"
    "instr_phase st_beq1 = 1" "slice 0 2 (data_z_in in_beq1) \<noteq> 0"
    "data_z_in in_beq1 = 0x102" "pc st_beq1 = 0x100"
    by code_simp+
  have A: "rom_next_instr_phase (rom rom_in_beq1) = 2
      \<and> tmp_mux_select (rom rom_in_beq1) = SeqMuxSelect_Z"
    using branch_misaligned_target
            [of rom_in_beq1 dp_beq2 no_trap_csrs in_beq1 st_beq1 "0x00000163"] r(1-5)
    by blast
  have B: "save_trap dp_beq2 (rom rom_in_beq2) no_trap_csrs =
        \<lparr>saved_mcause = TrapCause_EXC_INSTR_ADDR_MISALIGN, saved_mepc = dp_pc dp_beq2,
         saved_mtval = dp_tmp dp_beq2\<rparr>
      \<and> trap (card_cycle in_beq1 st_beq1)
      \<and> mtval (card_cycle in_beq1 st_beq1) = data_z_in in_beq1
      \<and> pc (card_cycle in_beq1 st_beq1) = pc st_beq1
      \<and> instr_phase (card_cycle in_beq1 st_beq1) = 0"
    using branch_misaligned_target
            [of rom_in_beq2 dp_beq2 no_trap_csrs in_beq1 st_beq1 "0x00000163"] r(6-8) c(1-4)
    by blast
  have C: "save_trap dp_beq2 (rom rom_in_beq2) no_trap_csrs =
        \<lparr>saved_mcause = 0, saved_mepc = 0x100, saved_mtval = 0x102\<rparr>"
    "mtval (card_cycle in_beq1 st_beq1) = 0x102" "pc (card_cycle in_beq1 st_beq1) = 0x100"
    using B unfolding r(9,10) c(5,6) by simp_all
  show ?thesis
    using A B C r(1-4,8) c(1,3,4) by blast
qed

subsection \<open>The jump target of JALR\<close>

lemma jalr_phase0:
  assumes "executes i s w" "opcode w = Opcode_JALR" "instr_phase s = 0" "wired i s regs"
  shows "imm_format (card_signals i s) = OpcodeFormat_J"
    and "data_x_in i = regs (rs1 w)"
    and "data_y_in i = decode_imm OpcodeFormat_J w"
    and "memaddr (card_cycle i s) = regs (rs1 w) + decode_imm OpcodeFormat_J w"
    and "instr_phase (card_cycle i s) = 1"
proof -
  let ?s2 = "after_ph2 i s"
  note x = executes_after_ph2 [OF assms(1)]
  define h where "h = handlers ?s2 i (defaults ?s2)"
  have hh: "h = handle_jalr ?s2 (defaults ?s2)"
    unfolding h_def using x(1,2,4,5) by (rule handlers_opcode(2)) (simp add: x(3) assms(2))
  note f = elaborate_frame [OF x(2) h_def, of True]
  have hs: "imm_format h = OpcodeFormat_J" "imm h = decode_imm OpcodeFormat_J w"
    "reg_to_x h" "x_reg h = rs1 w" "imm_to_y h" "\<not> reg_to_y h" "alu_op_to_z h = AluOp_ADD"
    "z_to_memaddr h" "\<not> x_to_memaddr h" "\<not> is_last_instr_cycle h" "\<not> instr_complete h"
    "\<not> pc_plus_4_to_memaddr h" "next_instr_phase h = 1"
    using x(3)
    by (simp_all add: hh handle_jalr_def Let_def set_imm_format_def defaults_def
          after_ph2_frame assms(3))
  note n = elaborate_not_last [OF x(2) h_def hs(10,11), of True]
  have w: "data_x_in i = regs (rs1 w)" "data_y_in i = decode_imm OpcodeFormat_J w"
    "data_z_in i = data_x_in i + data_y_in i"
    using assms(4) by (simp_all add: wired_def buses_wired_def card_signals_def f hs)
  show "imm_format (card_signals i s) = OpcodeFormat_J"
    by (simp add: card_signals_def f hs)
  show "data_x_in i = regs (rs1 w)" "data_y_in i = decode_imm OpcodeFormat_J w"
    by (rule w)+
  show "memaddr (card_cycle i s) = regs (rs1 w) + decode_imm OpcodeFormat_J w"
    by (simp add: card_cycle_def card_signals_def commit_ph1_sel f hs w)
  show "instr_phase (card_cycle i s) = 1"
    by (simp add: card_cycle_def card_signals_def commit_ph1_sel n hs)
qed

text \<open>Claim C5 is right and the card is wrong. JALR is an I-format instruction, and its
  target is \<open>rs1\<close> plus the sign-extended bits 31 to 20. \<open>handle_jalr\<close> of the card
  selects \<open>OpcodeFormat.J\<close>, so Y carries the J-format immediate of the word and phase 0
  writes \<open>rs1\<close> plus that to \<open>memaddr\<close>: for \<open>jalr x0, 0(x1)\<close> the target is
  \<open>x1 + 0x8000\<close>. The theorem is what the code does.\<close>

theorem jalr_target_j_format:
  assumes "executes i s w" "opcode w = Opcode_JALR" "instr_phase s = 0" "wired i s regs"
  shows "imm_format (card_signals i s) = OpcodeFormat_J
       \<and> data_x_in i = regs (rs1 w)
       \<and> data_y_in i = decode_imm OpcodeFormat_J w
       \<and> memaddr (card_cycle i s) = regs (rs1 w) + decode_imm OpcodeFormat_J w
       \<and> instr_phase (card_cycle i s) = 1"
  using jalr_phase0 [OF assms] by simp

theorem jalr_target_j_format_witness:
  "executes in_jalr st_jalr 0x00008067 \<and> opcode (0x00008067::u32) = Opcode_JALR
   \<and> instr_phase st_jalr = 0 \<and> wired in_jalr st_jalr regs_ra
   \<and> regs_ra (rs1 (0x00008067::u32)) + decode_imm OpcodeFormat_I 0x00008067 = 0x200
   \<and> memaddr (card_cycle in_jalr st_jalr) = 0x8200"
proof -
  have h: "executes in_jalr st_jalr 0x00008067" "opcode (0x00008067::u32) = Opcode_JALR"
    "instr_phase st_jalr = 0" "wired in_jalr st_jalr regs_ra"
    by code_simp+
  have d: "regs_ra (rs1 (0x00008067::u32)) = 0x200"
    "decode_imm OpcodeFormat_I 0x00008067 = 0"
    "decode_imm OpcodeFormat_J 0x00008067 = 0x8000"
    by code_simp+
  have m: "memaddr (card_cycle in_jalr st_jalr)
           = regs_ra (rs1 (0x00008067::u32)) + decode_imm OpcodeFormat_J 0x00008067"
    using jalr_target_j_format [OF h] by blast
  have A: "memaddr (card_cycle in_jalr st_jalr) = 0x8200"
    unfolding m d by simp
  have B: "regs_ra (rs1 (0x00008067::u32)) + decode_imm OpcodeFormat_I 0x00008067 = 0x200"
    unfolding d by simp
  show ?thesis
    using h A B by blast
qed

subsection \<open>The CSRs the card routes\<close>

lemma handle_system_csrrw0:
  assumes "funct3 (instr s) = SystemFunc_CSRRW" "instr_phase s = 0" "rd (instr s) \<noteq> 0"
  shows "handle_system s c =
     (set_imm_format s OpcodeFormat_SYS c)\<lparr>funct12_to_csr_num := True, csr_to_x := True,
        y_reg := rs1 (instr s), reg_to_y := True, alu_op_to_z := AluOp_Y, z_to_csr := True,
        x_to_tmp := True, next_instr_phase := 1\<rparr>"
  using assms by (simp add: handle_system_def handle_CSRRW_def Let_def)

lemma csrrw_step:
  assumes "executes i s w" "opcode w = Opcode_SYSTEM" "funct3 w = SystemFunc_CSRRW"
    "instr_phase s = 0" "rd w \<noteq> 0"
  shows "z_to_csr (card_signals i s)"
    and "csr_num (card_signals i s) = funct12 w"
    and "data_x_out (card_signals i s) = csr_value s (funct12 w) 0"
    and "mcause (card_cycle i s) = (if funct12 w = CSRAddr_MCAUSE then data_z_in i else mcause s)"
    and "mtvec (card_cycle i s) = (if funct12 w = CSRAddr_MTVEC then data_z_in i else mtvec s)"
    and "mepc (card_cycle i s) = (if funct12 w = CSRAddr_MEPC then data_z_in i else mepc s)"
    and "mtval (card_cycle i s) = (if funct12 w = CSRAddr_MTVAL then data_z_in i else mtval s)"
    and "mstatus (card_cycle i s) =
           (if funct12 w = CSRAddr_MSTATUS then data_z_in i else mstatus s)"
proof -
  let ?s2 = "after_ph2 i s"
  note x = executes_after_ph2 [OF assms(1)]
  define h where "h = handlers ?s2 i (defaults ?s2)"
  have "h = handle_system ?s2 (defaults ?s2)"
    unfolding h_def using x(1,2,4,5) by (rule handlers_opcode(1)) (simp add: x(3) assms(2))
  also have "\<dots> = (set_imm_format ?s2 OpcodeFormat_SYS (defaults ?s2))\<lparr>
        funct12_to_csr_num := True, csr_to_x := True,
        y_reg := rs1 (instr ?s2), reg_to_y := True, alu_op_to_z := AluOp_Y, z_to_csr := True,
        x_to_tmp := True, next_instr_phase := 1\<rparr>"
    by (rule handle_system_csrrw0) (simp_all add: x(3) assms after_ph2_frame(2))
  finally have hh: "h = (set_imm_format ?s2 OpcodeFormat_SYS (defaults ?s2))\<lparr>
        funct12_to_csr_num := True, csr_to_x := True,
        y_reg := rs1 (instr ?s2), reg_to_y := True, alu_op_to_z := AluOp_Y, z_to_csr := True,
        x_to_tmp := True, next_instr_phase := 1\<rparr>" .
  note f = elaborate_frame [OF x(2) h_def, of True]
  have hs: "z_to_csr h" "funct12_to_csr_num h" "csr_to_x h" "\<not> pc_to_x h" "\<not> memdata_to_x h"
    "data_x_out h = 0" "nx_mcause h = None" "nx_mepc h = None" "nx_mtval h = None"
    "nx_mstatus_MIE h = None" "nx_mstatus_MPIE h = None" "\<not> is_last_instr_cycle h"
    "\<not> instr_complete h"
    by (simp_all add: hh set_imm_format_def defaults_def)
  note n = elaborate_not_last [OF x(2) h_def hs(12,13), of True]
  have cv: "csr_value ?s2 n d = csr_value s n d" for n d
    by (simp add: csr_value_def after_ph2_frame)
  show "z_to_csr (card_signals i s)" "csr_num (card_signals i s) = funct12 w"
    "data_x_out (card_signals i s) = csr_value s (funct12 w) 0"
    by (simp_all add: card_signals_def f hs x(3) cv)
  show "mcause (card_cycle i s) = (if funct12 w = CSRAddr_MCAUSE then data_z_in i else mcause s)"
    "mtvec (card_cycle i s) = (if funct12 w = CSRAddr_MTVEC then data_z_in i else mtvec s)"
    "mepc (card_cycle i s) = (if funct12 w = CSRAddr_MEPC then data_z_in i else mepc s)"
    "mtval (card_cycle i s) = (if funct12 w = CSRAddr_MTVAL then data_z_in i else mtval s)"
    "mstatus (card_cycle i s) =
           (if funct12 w = CSRAddr_MSTATUS then data_z_in i else mstatus s)"
    by (simp_all add: card_cycle_def card_signals_def commit_ph1_sel z_to_csr_at_def f hs n
          x(3) after_ph2_frame(14-19))
qed

text \<open>Claim C4, as stated, fails for \<open>mie\<close> and \<open>mip\<close>: the two switches on \<open>csr_num\<close>
  in \<open>elaborate\<close> have cases for \<open>mcause\<close>, \<open>mtvec\<close>, \<open>mepc\<close>, \<open>mtval\<close> and \<open>mstatus\<close>
  only, and the card has no register for the other two. \<open>csrrw x2, mie, x1\<close> with
  \<open>x1 = 5\<close> raises \<open>z_to_csr\<close> for address \<open>0x304\<close> with 5 on Z, and the \<open>csrrs\<close> that
  reads \<open>mie\<close> back afterwards finds 0 on X.\<close>

theorem csr_routing_counterexample:
  "executes in_csrrw_mie st_csrrs 0x30409173 \<and> funct12 (0x30409173::u32) = CSRAddr_MIE
   \<and> wired in_csrrw_mie st_csrrs regs_x1
   \<and> z_to_csr (card_signals in_csrrw_mie st_csrrs)
   \<and> csr_num (card_signals in_csrrw_mie st_csrrs) = CSRAddr_MIE
   \<and> data_z_in in_csrrw_mie = 5
   \<and> executes in_csrrs_mie st_mie_written 0x304021F3
   \<and> funct12 (0x304021F3::u32) = CSRAddr_MIE
   \<and> csr_to_x (card_signals in_csrrs_mie st_mie_written)
   \<and> csr_num (card_signals in_csrrs_mie st_mie_written) = CSRAddr_MIE
   \<and> data_x_out (card_signals in_csrrs_mie st_mie_written) = 0
   \<and> data_x_out (card_signals in_csrrs_mie st_mie_written) \<noteq> 5"
  by code_simp

text \<open>Claim C4, amended. The read/write routing of the sequencer card recognises five
  CSR addresses: \<open>mstatus\<close> (\<open>0x300\<close>), \<open>mtvec\<close> (\<open>0x305\<close>), \<open>mepc\<close> (\<open>0x341\<close>), \<open>mcause\<close>
  (\<open>0x342\<close>) and \<open>mtval\<close> (\<open>0x343\<close>). For each of them a CSR read puts the stored 32-bit
  value on X and a CSR write stores the value on Z verbatim. For \<open>mie\<close> (\<open>0x304\<close>) and
  \<open>mip\<close> (\<open>0x344\<close>) a read leaves X at 0 and a write changes no CSR. Stated for CSRRW
  with \<open>rd \<noteq> x0\<close>, which reads and writes in the same cycle.\<close>

theorem csr_routing:
  assumes "executes i s w" "opcode w = Opcode_SYSTEM" "funct3 w = SystemFunc_CSRRW"
    "instr_phase s = 0" "rd w \<noteq> 0"
  shows "(funct12 w = CSRAddr_MSTATUS \<longrightarrow>
            data_x_out (card_signals i s) = mstatus s \<and> mstatus (card_cycle i s) = data_z_in i)
       \<and> (funct12 w = CSRAddr_MTVEC \<longrightarrow>
            data_x_out (card_signals i s) = mtvec s \<and> mtvec (card_cycle i s) = data_z_in i)
       \<and> (funct12 w = CSRAddr_MEPC \<longrightarrow>
            data_x_out (card_signals i s) = mepc s \<and> mepc (card_cycle i s) = data_z_in i)
       \<and> (funct12 w = CSRAddr_MCAUSE \<longrightarrow>
            data_x_out (card_signals i s) = mcause s \<and> mcause (card_cycle i s) = data_z_in i)
       \<and> (funct12 w = CSRAddr_MTVAL \<longrightarrow>
            data_x_out (card_signals i s) = mtval s \<and> mtval (card_cycle i s) = data_z_in i)
       \<and> (funct12 w = CSRAddr_MIE \<or> funct12 w = CSRAddr_MIP \<longrightarrow>
            z_to_csr (card_signals i s) \<and> csr_num (card_signals i s) = funct12 w
            \<and> data_x_out (card_signals i s) = 0
            \<and> mstatus (card_cycle i s) = mstatus s \<and> mtvec (card_cycle i s) = mtvec s
            \<and> mepc (card_cycle i s) = mepc s \<and> mcause (card_cycle i s) = mcause s
            \<and> mtval (card_cycle i s) = mtval s)"
  using csrrw_step [OF assms] by (auto simp add: csr_value_def)


theorem csr_routing_witness:
  "executes (in_csrrw 0x30009173 0x80) st_csrs 0x30009173 \<and> funct12 (0x30009173::u32) = CSRAddr_MSTATUS
   \<and> data_x_out (card_signals (in_csrrw 0x30009173 0x80) st_csrs) = 0x80
   \<and> mstatus (card_cycle (in_csrrw 0x30009173 0x80) st_csrs) = 5
   \<and> executes (in_csrrw 0x30509173 0x80) st_csrs 0x30509173 \<and> funct12 (0x30509173::u32) = CSRAddr_MTVEC
   \<and> data_x_out (card_signals (in_csrrw 0x30509173 0x80) st_csrs) = 0x80
   \<and> mtvec (card_cycle (in_csrrw 0x30509173 0x80) st_csrs) = 5
   \<and> executes (in_csrrw 0x34109173 0x41) st_csrs 0x34109173 \<and> funct12 (0x34109173::u32) = CSRAddr_MEPC
   \<and> data_x_out (card_signals (in_csrrw 0x34109173 0x41) st_csrs) = 0x41
   \<and> mepc (card_cycle (in_csrrw 0x34109173 0x41) st_csrs) = 5
   \<and> executes (in_csrrw 0x34209173 0x42) st_csrs 0x34209173 \<and> funct12 (0x34209173::u32) = CSRAddr_MCAUSE
   \<and> data_x_out (card_signals (in_csrrw 0x34209173 0x42) st_csrs) = 0x42
   \<and> mcause (card_cycle (in_csrrw 0x34209173 0x42) st_csrs) = 5
   \<and> executes (in_csrrw 0x34309173 0x43) st_csrs 0x34309173 \<and> funct12 (0x34309173::u32) = CSRAddr_MTVAL
   \<and> data_x_out (card_signals (in_csrrw 0x34309173 0x43) st_csrs) = 0x43
   \<and> mtval (card_cycle (in_csrrw 0x34309173 0x43) st_csrs) = 5
   \<and> executes (in_csrrw 0x30409173 0) st_csrs 0x30409173 \<and> funct12 (0x30409173::u32) = CSRAddr_MIE
   \<and> data_x_out (card_signals (in_csrrw 0x30409173 0) st_csrs) = 0
   \<and> mstatus (card_cycle (in_csrrw 0x30409173 0) st_csrs) = 0x80 \<and> mtvec (card_cycle (in_csrrw 0x30409173 0) st_csrs) = 0x80
   \<and> mepc (card_cycle (in_csrrw 0x30409173 0) st_csrs) = 0x41 \<and> mcause (card_cycle (in_csrrw 0x30409173 0) st_csrs) = 0x42
   \<and> mtval (card_cycle (in_csrrw 0x30409173 0) st_csrs) = 0x43
   \<and> executes (in_csrrw 0x34409173 0) st_csrs 0x34409173 \<and> funct12 (0x34409173::u32) = CSRAddr_MIP
   \<and> data_x_out (card_signals (in_csrrw 0x34409173 0) st_csrs) = 0
   \<and> mstatus (card_cycle (in_csrrw 0x34409173 0) st_csrs) = 0x80 \<and> mtvec (card_cycle (in_csrrw 0x34409173 0) st_csrs) = 0x80
   \<and> mepc (card_cycle (in_csrrw 0x34409173 0) st_csrs) = 0x41 \<and> mcause (card_cycle (in_csrrw 0x34409173 0) st_csrs) = 0x42
   \<and> mtval (card_cycle (in_csrrw 0x34409173 0) st_csrs) = 0x43"
proof -
  have v: "mstatus st_csrs = 0x80" "mtvec st_csrs = 0x80" "mepc st_csrs = 0x41"
    "mcause st_csrs = 0x42" "mtval st_csrs = 0x43" "instr_phase st_csrs = 0"
    by code_simp+
  have mstatus_a: "executes (in_csrrw 0x30009173 0x80) st_csrs 0x30009173"
    "opcode (0x30009173::u32) = Opcode_SYSTEM" "funct3 (0x30009173::u32) = SystemFunc_CSRRW"
    "instr_phase st_csrs = 0" "rd (0x30009173::u32) \<noteq> 0"
    and mstatus_n: "funct12 (0x30009173::u32) = CSRAddr_MSTATUS"
    and mstatus_z: "data_z_in (in_csrrw 0x30009173 0x80) = 5"
    by code_simp+
  have mstatus_r: "data_x_out (card_signals (in_csrrw 0x30009173 0x80) st_csrs) = mstatus st_csrs
      \<and> mstatus (card_cycle (in_csrrw 0x30009173 0x80) st_csrs) = data_z_in (in_csrrw 0x30009173 0x80)"
    using csr_routing [OF mstatus_a] mstatus_n by blast
  have mstatus_c: "data_x_out (card_signals (in_csrrw 0x30009173 0x80) st_csrs) = 0x80"
    "mstatus (card_cycle (in_csrrw 0x30009173 0x80) st_csrs) = 5"
    using mstatus_r unfolding v mstatus_z by simp_all
  have mtvec_a: "executes (in_csrrw 0x30509173 0x80) st_csrs 0x30509173"
    "opcode (0x30509173::u32) = Opcode_SYSTEM" "funct3 (0x30509173::u32) = SystemFunc_CSRRW"
    "instr_phase st_csrs = 0" "rd (0x30509173::u32) \<noteq> 0"
    and mtvec_n: "funct12 (0x30509173::u32) = CSRAddr_MTVEC"
    and mtvec_z: "data_z_in (in_csrrw 0x30509173 0x80) = 5"
    by code_simp+
  have mtvec_r: "data_x_out (card_signals (in_csrrw 0x30509173 0x80) st_csrs) = mtvec st_csrs
      \<and> mtvec (card_cycle (in_csrrw 0x30509173 0x80) st_csrs) = data_z_in (in_csrrw 0x30509173 0x80)"
    using csr_routing [OF mtvec_a] mtvec_n by blast
  have mtvec_c: "data_x_out (card_signals (in_csrrw 0x30509173 0x80) st_csrs) = 0x80"
    "mtvec (card_cycle (in_csrrw 0x30509173 0x80) st_csrs) = 5"
    using mtvec_r unfolding v mtvec_z by simp_all
  have mepc_a: "executes (in_csrrw 0x34109173 0x41) st_csrs 0x34109173"
    "opcode (0x34109173::u32) = Opcode_SYSTEM" "funct3 (0x34109173::u32) = SystemFunc_CSRRW"
    "instr_phase st_csrs = 0" "rd (0x34109173::u32) \<noteq> 0"
    and mepc_n: "funct12 (0x34109173::u32) = CSRAddr_MEPC"
    and mepc_z: "data_z_in (in_csrrw 0x34109173 0x41) = 5"
    by code_simp+
  have mepc_r: "data_x_out (card_signals (in_csrrw 0x34109173 0x41) st_csrs) = mepc st_csrs
      \<and> mepc (card_cycle (in_csrrw 0x34109173 0x41) st_csrs) = data_z_in (in_csrrw 0x34109173 0x41)"
    using csr_routing [OF mepc_a] mepc_n by blast
  have mepc_c: "data_x_out (card_signals (in_csrrw 0x34109173 0x41) st_csrs) = 0x41"
    "mepc (card_cycle (in_csrrw 0x34109173 0x41) st_csrs) = 5"
    using mepc_r unfolding v mepc_z by simp_all
  have mcause_a: "executes (in_csrrw 0x34209173 0x42) st_csrs 0x34209173"
    "opcode (0x34209173::u32) = Opcode_SYSTEM" "funct3 (0x34209173::u32) = SystemFunc_CSRRW"
    "instr_phase st_csrs = 0" "rd (0x34209173::u32) \<noteq> 0"
    and mcause_n: "funct12 (0x34209173::u32) = CSRAddr_MCAUSE"
    and mcause_z: "data_z_in (in_csrrw 0x34209173 0x42) = 5"
    by code_simp+
  have mcause_r: "data_x_out (card_signals (in_csrrw 0x34209173 0x42) st_csrs) = mcause st_csrs
      \<and> mcause (card_cycle (in_csrrw 0x34209173 0x42) st_csrs) = data_z_in (in_csrrw 0x34209173 0x42)"
    using csr_routing [OF mcause_a] mcause_n by blast
  have mcause_c: "data_x_out (card_signals (in_csrrw 0x34209173 0x42) st_csrs) = 0x42"
    "mcause (card_cycle (in_csrrw 0x34209173 0x42) st_csrs) = 5"
    using mcause_r unfolding v mcause_z by simp_all
  have mtval_a: "executes (in_csrrw 0x34309173 0x43) st_csrs 0x34309173"
    "opcode (0x34309173::u32) = Opcode_SYSTEM" "funct3 (0x34309173::u32) = SystemFunc_CSRRW"
    "instr_phase st_csrs = 0" "rd (0x34309173::u32) \<noteq> 0"
    and mtval_n: "funct12 (0x34309173::u32) = CSRAddr_MTVAL"
    and mtval_z: "data_z_in (in_csrrw 0x34309173 0x43) = 5"
    by code_simp+
  have mtval_r: "data_x_out (card_signals (in_csrrw 0x34309173 0x43) st_csrs) = mtval st_csrs
      \<and> mtval (card_cycle (in_csrrw 0x34309173 0x43) st_csrs) = data_z_in (in_csrrw 0x34309173 0x43)"
    using csr_routing [OF mtval_a] mtval_n by blast
  have mtval_c: "data_x_out (card_signals (in_csrrw 0x34309173 0x43) st_csrs) = 0x43"
    "mtval (card_cycle (in_csrrw 0x34309173 0x43) st_csrs) = 5"
    using mtval_r unfolding v mtval_z by simp_all
  have mie_a: "executes (in_csrrw 0x30409173 0) st_csrs 0x30409173"
    "opcode (0x30409173::u32) = Opcode_SYSTEM" "funct3 (0x30409173::u32) = SystemFunc_CSRRW"
    "instr_phase st_csrs = 0" "rd (0x30409173::u32) \<noteq> 0"
    and mie_n: "funct12 (0x30409173::u32) = CSRAddr_MIE"
    by code_simp+
  have mie_r: "data_x_out (card_signals (in_csrrw 0x30409173 0) st_csrs) = 0
      \<and> mstatus (card_cycle (in_csrrw 0x30409173 0) st_csrs) = mstatus st_csrs
      \<and> mtvec (card_cycle (in_csrrw 0x30409173 0) st_csrs) = mtvec st_csrs
      \<and> mepc (card_cycle (in_csrrw 0x30409173 0) st_csrs) = mepc st_csrs
      \<and> mcause (card_cycle (in_csrrw 0x30409173 0) st_csrs) = mcause st_csrs
      \<and> mtval (card_cycle (in_csrrw 0x30409173 0) st_csrs) = mtval st_csrs"
    using csr_routing [OF mie_a] mie_n by blast
  have mie_c: "data_x_out (card_signals (in_csrrw 0x30409173 0) st_csrs) = 0"
    "mstatus (card_cycle (in_csrrw 0x30409173 0) st_csrs) = 0x80" "mtvec (card_cycle (in_csrrw 0x30409173 0) st_csrs) = 0x80"
    "mepc (card_cycle (in_csrrw 0x30409173 0) st_csrs) = 0x41" "mcause (card_cycle (in_csrrw 0x30409173 0) st_csrs) = 0x42"
    "mtval (card_cycle (in_csrrw 0x30409173 0) st_csrs) = 0x43"
    using mie_r unfolding v by simp_all
  have mip_a: "executes (in_csrrw 0x34409173 0) st_csrs 0x34409173"
    "opcode (0x34409173::u32) = Opcode_SYSTEM" "funct3 (0x34409173::u32) = SystemFunc_CSRRW"
    "instr_phase st_csrs = 0" "rd (0x34409173::u32) \<noteq> 0"
    and mip_n: "funct12 (0x34409173::u32) = CSRAddr_MIP"
    by code_simp+
  have mip_r: "data_x_out (card_signals (in_csrrw 0x34409173 0) st_csrs) = 0
      \<and> mstatus (card_cycle (in_csrrw 0x34409173 0) st_csrs) = mstatus st_csrs
      \<and> mtvec (card_cycle (in_csrrw 0x34409173 0) st_csrs) = mtvec st_csrs
      \<and> mepc (card_cycle (in_csrrw 0x34409173 0) st_csrs) = mepc st_csrs
      \<and> mcause (card_cycle (in_csrrw 0x34409173 0) st_csrs) = mcause st_csrs
      \<and> mtval (card_cycle (in_csrrw 0x34409173 0) st_csrs) = mtval st_csrs"
    using csr_routing [OF mip_a] mip_n by blast
  have mip_c: "data_x_out (card_signals (in_csrrw 0x34409173 0) st_csrs) = 0"
    "mstatus (card_cycle (in_csrrw 0x34409173 0) st_csrs) = 0x80" "mtvec (card_cycle (in_csrrw 0x34409173 0) st_csrs) = 0x80"
    "mepc (card_cycle (in_csrrw 0x34409173 0) st_csrs) = 0x41" "mcause (card_cycle (in_csrrw 0x34409173 0) st_csrs) = 0x42"
    "mtval (card_cycle (in_csrrw 0x34409173 0) st_csrs) = 0x43"
    using mip_r unfolding v by simp_all
  show ?thesis
    by (intro conjI) (fact mstatus_a(1) mstatus_n mstatus_c mtvec_a(1) mtvec_n mtvec_c mepc_a(1) mepc_n mepc_c mcause_a(1) mcause_n mcause_c mtval_a(1) mtval_n mtval_c mie_a(1) mie_n mie_c mip_a(1) mip_n mip_c)+
qed

end
